theory Spec2Isabelle
  imports Main "HOL-Library.Word" "HOL-Library.Signed_Division"
begin

unbundle bit_operations_syntax

section \<open>Board geometry and pieces (board.h)\<close>

definition BOARD_SIZE :: int where "BOARD_SIZE = 64"

definition BOARD_SQUARE_IS_VALID :: "int \<Rightarrow> bool" where
  "BOARD_SQUARE_IS_VALID square \<longleftrightarrow> square AND NOT 63 = 0"

definition BOARD_SQUARE :: "int \<Rightarrow> int \<Rightarrow> int" where
  "BOARD_SQUARE file rank = push_bit 3 file OR rank"

definition BOARD_RANK :: "int \<Rightarrow> int" where "BOARD_RANK square = square AND 7"

definition BOARD_FILE :: "int \<Rightarrow> int" where "BOARD_FILE square = drop_bit 3 square"

definition BOARD_SQUARE_IS_LIGHT :: "int \<Rightarrow> bool" where
  "BOARD_SQUARE_IS_LIGHT sq \<longleftrightarrow> (BOARD_RANK sq XOR BOARD_FILE sq) AND 1 = 1"

definition A1 :: int where "A1 = 0"

definition B1 :: int where "B1 = 8"

definition C1 :: int where "C1 = 16"

definition D1 :: int where "D1 = 24"

definition E1 :: int where "E1 = 32"

definition F1 :: int where "F1 = 40"

definition G1 :: int where "G1 = 48"

definition H1 :: int where "H1 = 56"

definition A8 :: int where "A8 = 7"

definition B8 :: int where "B8 = 15"

definition C8 :: int where "C8 = 23"

definition D8 :: int where "D8 = 31"

definition E8 :: int where "E8 = 39"

definition F8 :: int where "F8 = 47"

definition G8 :: int where "G8 = 55"

definition H8 :: int where "H8 = 63"

definition BOARD_RANK_1 :: int where "BOARD_RANK_1 = 0"

definition BOARD_RANK_2 :: int where "BOARD_RANK_2 = 1"

definition BOARD_RANK_7 :: int where "BOARD_RANK_7 = 6"

definition BOARD_RANK_8 :: int where "BOARD_RANK_8 = 7"

definition BOARD_FILE_A :: int where "BOARD_FILE_A = 0"

definition BOARD_FILE_B :: int where "BOARD_FILE_B = 1"

definition BOARD_FILE_G :: int where "BOARD_FILE_G = 6"

definition BOARD_FILE_H :: int where "BOARD_FILE_H = 7"

definition BOARD_VECTOR_NORTH :: int where "BOARD_VECTOR_NORTH = 1"

definition BOARD_VECTOR_EAST :: int where "BOARD_VECTOR_EAST = 8"

definition BOARD_VECTOR_SOUTH :: int where "BOARD_VECTOR_SOUTH = - 1"

definition BOARD_VECTOR_WEST :: int where "BOARD_VECTOR_WEST = - 8"

definition BOARD_VECTOR_NORTHEAST :: int where "BOARD_VECTOR_NORTHEAST = 9"

definition BOARD_VECTOR_NORTHWEST :: int where "BOARD_VECTOR_NORTHWEST = - 7"

definition BOARD_VECTOR_SOUTHEAST :: int where "BOARD_VECTOR_SOUTHEAST = 7"

definition BOARD_VECTOR_SOUTHWEST :: int where "BOARD_VECTOR_SOUTHWEST = - 9"

text \<open>enum board_piece\<close>

definition board_empty :: int where "board_empty = 0"

definition board_white_king :: int where "board_white_king = 2"

definition board_black_king :: int where "board_black_king = 3"

definition board_white_king_castle :: int where "board_white_king_castle = 4"

definition board_black_king_castle :: int where "board_black_king_castle = 5"

definition board_white_knight :: int where "board_white_knight = 6"

definition board_black_knight :: int where "board_black_knight = 7"

definition board_white_pawn_rank2 :: int where "board_white_pawn_rank2 = 8"

definition board_black_pawn_rank7 :: int where "board_black_pawn_rank7 = 9"

definition board_white_pawn :: int where "board_white_pawn = 10"

definition board_black_pawn :: int where "board_black_pawn = 11"

definition board_white_pawn_rank7 :: int where "board_white_pawn_rank7 = 12"

definition board_black_pawn_rank2 :: int where "board_black_pawn_rank2 = 13"

definition board_white_bishop_light :: int where "board_white_bishop_light = 14"

definition board_black_bishop_light :: int where "board_black_bishop_light = 15"

definition board_white_bishop_dark :: int where "board_white_bishop_dark = 16"

definition board_black_bishop_dark :: int where "board_black_bishop_dark = 17"

definition board_white_rook :: int where "board_white_rook = 18"

definition board_black_rook :: int where "board_black_rook = 19"

definition board_white_rook_castle :: int where "board_white_rook_castle = 20"

definition board_black_rook_castle :: int where "board_black_rook_castle = 21"

definition board_white_queen :: int where "board_white_queen = 22"

definition board_black_queen :: int where "board_black_queen = 23"

definition board_white :: int where "board_white = 0"

definition board_black :: int where "board_black = 1"

definition BOARD_PIECE_COLOR :: "int \<Rightarrow> int" where
  "BOARD_PIECE_COLOR pc = (if pc = board_empty then - 1 else pc AND 1)"

text \<open>enum board_attack\<close>

definition board_attack_north :: int where "board_attack_north = 0x0001"

definition board_attack_northeast :: int where "board_attack_northeast = 0x0002"

definition board_attack_east :: int where "board_attack_east = 0x0004"

definition board_attack_southeast :: int where "board_attack_southeast = 0x0008"

definition board_attack_south :: int where "board_attack_south = 0x0010"

definition board_attack_southwest :: int where "board_attack_southwest = 0x0020"

definition board_attack_west :: int where "board_attack_west = 0x0040"

definition board_attack_northwest :: int where "board_attack_northwest = 0x0080"

definition board_attack_king :: int where "board_attack_king = 0x0100"

definition board_attack_pawn_west :: int where "board_attack_pawn_west = 0x0200"

definition board_attack_pawn_east :: int where "board_attack_pawn_east = 0x0400"

definition board_attack_knight :: int where "board_attack_knight = 0x0800"

definition BOARD_ATTACK_ROOK :: int where
  "BOARD_ATTACK_ROOK =
     board_attack_north OR board_attack_east OR board_attack_south OR board_attack_west"

definition BOARD_ATTACK_BISHOP :: int where
  "BOARD_ATTACK_BISHOP =
     board_attack_northeast OR board_attack_southeast OR
     board_attack_southwest OR board_attack_northwest"

definition BOARD_ATTACK_QUEEN :: int where
  "BOARD_ATTACK_QUEEN = BOARD_ATTACK_ROOK OR BOARD_ATTACK_BISHOP"

definition BOARD_ATTACK_REVERSE :: "int \<Rightarrow> int" where
  "BOARD_ATTACK_REVERSE dir = (push_bit 4 dir OR drop_bit 4 dir) AND BOARD_ATTACK_QUEEN"

text \<open>Knight jump directions (intern.h)\<close>

definition jump_north_northwest :: int where "jump_north_northwest = 1"

definition jump_north_northeast :: int where "jump_north_northeast = 2"

definition jump_east_northeast :: int where "jump_east_northeast = 4"

definition jump_east_southeast :: int where "jump_east_southeast = 8"

definition jump_south_southwest :: int where "jump_south_southwest = 16"

definition jump_south_southeast :: int where "jump_south_southeast = 32"

definition jump_west_northwest :: int where "jump_west_northwest = 64"

definition jump_west_southwest :: int where "jump_west_southwest = 128"

definition DEBRUIJN_INDEX :: "int \<Rightarrow> int" where
  "DEBRUIJN_INDEX n = drop_bit 5 (n * 23) AND 7"

text \<open>Promotion encoding (intern.h)\<close>

definition XOR_PROM_QUEEN :: int where "XOR_PROM_QUEEN = BOARD_SQUARE 4 0"

definition XOR_PROM_ROOK :: int where "XOR_PROM_ROOK = BOARD_SQUARE 4 2"

definition XOR_PROM_BISHOP :: int where "XOR_PROM_BISHOP = BOARD_SQUARE 4 3"

definition XOR_PROM_KNIGHT :: int where "XOR_PROM_KNIGHT = BOARD_SQUARE 4 7"

definition data_promotion_queen :: int where "data_promotion_queen = 0x1000"

definition data_promotion_rook :: int where "data_promotion_rook = 0x2000"

definition data_promotion_bishop :: int where "data_promotion_bishop = 0x4000"

definition data_promotion_knight :: int where "data_promotion_knight = 0x8000"

definition DATA_PROMOTION_FLAGS :: int where
  "DATA_PROMOTION_FLAGS =
     data_promotion_queen OR data_promotion_rook OR
     data_promotion_bishop OR data_promotion_knight"

text \<open>Move words (move.h)\<close>

definition MOVE :: "int \<Rightarrow> int \<Rightarrow> int" where "MOVE from to = push_bit 6 from OR to"

definition MOVE_FROM :: "int \<Rightarrow> int" where "MOVE_FROM move = drop_bit 6 move"

definition MOVE_TO :: "int \<Rightarrow> int" where "MOVE_TO move = move AND 63"

section \<open>Lookup tables (layout.c, makeData.c)\<close>

text \<open>\<open>board_vector_step\<close>, \<open>board_vector_jump\<close>: designated initialisers; every other
  entry of the C array is 0.\<close>

definition board_vector_step :: "int \<Rightarrow> int" where
  "board_vector_step dir =
     (if dir = board_attack_north then BOARD_VECTOR_NORTH
      else if dir = board_attack_northeast then BOARD_VECTOR_NORTHEAST
      else if dir = board_attack_east then BOARD_VECTOR_EAST
      else if dir = board_attack_southeast then BOARD_VECTOR_SOUTHEAST
      else if dir = board_attack_south then BOARD_VECTOR_SOUTH
      else if dir = board_attack_southwest then BOARD_VECTOR_SOUTHWEST
      else if dir = board_attack_west then BOARD_VECTOR_WEST
      else if dir = board_attack_northwest then BOARD_VECTOR_NORTHWEST
      else 0)"

definition board_vector_jump :: "int \<Rightarrow> int" where
  "board_vector_jump dir =
     (if dir = jump_north_northwest then BOARD_VECTOR_NORTH + BOARD_VECTOR_NORTHWEST
      else if dir = jump_north_northeast then BOARD_VECTOR_NORTH + BOARD_VECTOR_NORTHEAST
      else if dir = jump_east_northeast then BOARD_VECTOR_EAST + BOARD_VECTOR_NORTHEAST
      else if dir = jump_east_southeast then BOARD_VECTOR_EAST + BOARD_VECTOR_SOUTHEAST
      else if dir = jump_south_southwest then BOARD_VECTOR_SOUTH + BOARD_VECTOR_SOUTHWEST
      else if dir = jump_south_southeast then BOARD_VECTOR_SOUTH + BOARD_VECTOR_SOUTHEAST
      else if dir = jump_west_northwest then BOARD_VECTOR_WEST + BOARD_VECTOR_NORTHWEST
      else if dir = jump_west_southwest then BOARD_VECTOR_WEST + BOARD_VECTOR_SOUTHWEST
      else 0)"

text \<open>\<open>board_vector_step_compact[DEBRUIJN_INDEX(dir)] = board_vector_step[dir]\<close> for the
  eight direction bits; the compact table is indexed 0..7.\<close>

definition board_vector_step_compact :: "int \<Rightarrow> int" where
  "board_vector_step_compact i =
     (if i = DEBRUIJN_INDEX board_attack_north then BOARD_VECTOR_NORTH
      else if i = DEBRUIJN_INDEX board_attack_northeast then BOARD_VECTOR_NORTHEAST
      else if i = DEBRUIJN_INDEX board_attack_east then BOARD_VECTOR_EAST
      else if i = DEBRUIJN_INDEX board_attack_southeast then BOARD_VECTOR_SOUTHEAST
      else if i = DEBRUIJN_INDEX board_attack_south then BOARD_VECTOR_SOUTH
      else if i = DEBRUIJN_INDEX board_attack_southwest then BOARD_VECTOR_SOUTHWEST
      else if i = DEBRUIJN_INDEX board_attack_west then BOARD_VECTOR_WEST
      else if i = DEBRUIJN_INDEX board_attack_northwest then BOARD_VECTOR_NORTHWEST
      else 0)"

text \<open>\<open>data_kingtab\<close> and \<open>data_knighttab\<close> as makeData.c computes them for the 64
  squares; outside the table the model reads 0.\<close>

definition data_kingtab :: "int \<Rightarrow> int" where
  "data_kingtab sq =
     (if \<not> (0 \<le> sq \<and> sq < BOARD_SIZE) then 0
      else
        (if BOARD_RANK sq \<noteq> BOARD_RANK_8 then
           board_attack_north OR
           (if BOARD_FILE sq \<noteq> BOARD_FILE_H then board_attack_northeast else 0) OR
           (if BOARD_FILE sq \<noteq> BOARD_FILE_A then board_attack_northwest else 0)
         else 0) OR
        (if BOARD_FILE sq \<noteq> BOARD_FILE_H then board_attack_east else 0) OR
        (if BOARD_FILE sq \<noteq> BOARD_FILE_A then board_attack_west else 0) OR
        (if BOARD_RANK sq \<noteq> BOARD_RANK_1 then
           board_attack_south OR
           (if BOARD_FILE sq \<noteq> BOARD_FILE_H then board_attack_southeast else 0) OR
           (if BOARD_FILE sq \<noteq> BOARD_FILE_A then board_attack_southwest else 0)
         else 0))"

definition data_knighttab :: "int \<Rightarrow> int" where
  "data_knighttab sq =
     (if \<not> (0 \<le> sq \<and> sq < BOARD_SIZE) then 0
      else
        (if BOARD_RANK sq \<noteq> BOARD_RANK_7 \<and> BOARD_RANK sq \<noteq> BOARD_RANK_8 then
           (if BOARD_FILE sq \<noteq> BOARD_FILE_A then jump_north_northwest else 0) OR
           (if BOARD_FILE sq \<noteq> BOARD_FILE_H then jump_north_northeast else 0)
         else 0) OR
        (if BOARD_FILE sq \<noteq> BOARD_FILE_G \<and> BOARD_FILE sq \<noteq> BOARD_FILE_H then
           (if BOARD_RANK sq \<noteq> BOARD_RANK_8 then jump_east_northeast else 0) OR
           (if BOARD_RANK sq \<noteq> BOARD_RANK_1 then jump_east_southeast else 0)
         else 0) OR
        (if BOARD_RANK sq \<noteq> BOARD_RANK_1 \<and> BOARD_RANK sq \<noteq> BOARD_RANK_2 then
           (if BOARD_FILE sq \<noteq> BOARD_FILE_A then jump_south_southwest else 0) OR
           (if BOARD_FILE sq \<noteq> BOARD_FILE_H then jump_south_southeast else 0)
         else 0) OR
        (if BOARD_FILE sq \<noteq> BOARD_FILE_A \<and> BOARD_FILE sq \<noteq> BOARD_FILE_B then
           (if BOARD_RANK sq \<noteq> BOARD_RANK_8 then jump_west_northwest else 0) OR
           (if BOARD_RANK sq \<noteq> BOARD_RANK_1 then jump_west_southwest else 0)
         else 0))"

text \<open>The ray walk of makeData.c: \<open>while ((kingtab[step] & dir) != 0) { step += vector;
  len++; sq2sq[sq][step] |= dir; }\<close>. The walk is bounded by the board (at most 7 steps);
  the first argument is that bound.\<close>

fun ray_squares :: "nat \<Rightarrow> int \<Rightarrow> int \<Rightarrow> int list" where
  "ray_squares 0 step dir = []"
| "ray_squares (Suc n) step dir =
     (if data_kingtab step AND dir \<noteq> 0
      then (step + board_vector_step dir) # ray_squares n (step + board_vector_step dir) dir
      else [])"

definition data_raylen_dir :: "int \<Rightarrow> int \<Rightarrow> int" where
  "data_raylen_dir sq dir = int (length (ray_squares 8 sq dir))"

text \<open>\<open>data_raylen[sq][DEBRUIJN_INDEX(dir)]\<close>: the row entry at index \<open>i\<close> is the length
  of the ray in the direction whose De Bruijn index is \<open>i\<close>.\<close>

definition data_raylen :: "int \<Rightarrow> int \<Rightarrow> int" where
  "data_raylen sq i =
     (case filter (\<lambda>dir. DEBRUIJN_INDEX dir = i) [1, 2, 4, 8, 16, 32, 64, 128] of
        [] \<Rightarrow> 0
      | dir # _ \<Rightarrow> data_raylen_dir sq dir)"

text \<open>The do-while loop \<open>dir -= dirs; dir &= dirs; dirs -= dir; ... while (dirs != 0)\<close>
  visits the set bits of \<open>dirs\<close>, lowest first. \<open>scan_dirs\<close> lists the values \<open>dir\<close>
  takes, pass by pass; \<open>dirs\<close> is an 8-bit set wherever the loop is used, so the bound
  of 8 passes is never the reason the listing ends.\<close>

fun scan_dirs :: "nat \<Rightarrow> int \<Rightarrow> int \<Rightarrow> int list" where
  "scan_dirs 0 dir dirs = []"
| "scan_dirs (Suc n) dir dirs =
     (let dir' = (dir - dirs) AND dirs; dirs' = dirs - dir'
      in dir' # (if dirs' \<noteq> 0 then scan_dirs n dir' dirs' else []))"

definition all_dirs :: "int list" where
  "all_dirs = [board_attack_north, board_attack_northeast, board_attack_east,
     board_attack_southeast, board_attack_south, board_attack_southwest,
     board_attack_west, board_attack_northwest]"

definition promotion_targets :: "int \<Rightarrow> int list" where
  "promotion_targets a =
     (if BOARD_RANK a = BOARD_RANK_7 then
        [a + BOARD_VECTOR_NORTH] @
        (if BOARD_FILE a \<noteq> BOARD_FILE_A then [a + BOARD_VECTOR_NORTHWEST] else []) @
        (if BOARD_FILE a \<noteq> BOARD_FILE_H then [a + BOARD_VECTOR_NORTHEAST] else [])
      else []) @
     (if BOARD_RANK a = BOARD_RANK_2 then
        [a + BOARD_VECTOR_SOUTH] @
        (if BOARD_FILE a \<noteq> BOARD_FILE_A then [a + BOARD_VECTOR_SOUTHWEST] else []) @
        (if BOARD_FILE a \<noteq> BOARD_FILE_H then [a + BOARD_VECTOR_SOUTHEAST] else [])
      else [])"

text \<open>\<open>data_sq2sq[a][b]\<close>: the bits makeData.c ORs into the entry, block by block.\<close>

definition sq2sq_rays :: "int \<Rightarrow> int \<Rightarrow> int" where
  "sq2sq_rays a b =
     fold (\<lambda>dir acc. if b \<in> set (ray_squares 8 a dir) then acc OR dir else acc) all_dirs 0"

definition sq2sq_king :: "int \<Rightarrow> int \<Rightarrow> int" where
  "sq2sq_king a b =
     (if b \<in> set (map (\<lambda>dir. a + board_vector_step dir) (scan_dirs 8 0 (data_kingtab a)))
      then board_attack_king else 0)"

definition sq2sq_knight :: "int \<Rightarrow> int \<Rightarrow> int" where
  "sq2sq_knight a b =
     (if b \<in> set (map (\<lambda>dir. a + board_vector_jump dir) (scan_dirs 8 0 (data_knighttab a)))
      then board_attack_knight else 0)"

definition sq2sq_pawn :: "int \<Rightarrow> int \<Rightarrow> int" where
  "sq2sq_pawn a b =
     (if BOARD_FILE a \<noteq> BOARD_FILE_A \<and>
         ((BOARD_RANK a \<noteq> BOARD_RANK_8 \<and> b = a + BOARD_VECTOR_NORTHWEST) \<or>
          (BOARD_RANK a \<noteq> BOARD_RANK_1 \<and> b = a + BOARD_VECTOR_SOUTHWEST))
      then board_attack_pawn_west else 0) OR
     (if BOARD_FILE a \<noteq> BOARD_FILE_H \<and>
         ((BOARD_RANK a \<noteq> BOARD_RANK_8 \<and> b = a + BOARD_VECTOR_NORTHEAST) \<or>
          (BOARD_RANK a \<noteq> BOARD_RANK_1 \<and> b = a + BOARD_VECTOR_SOUTHEAST))
      then board_attack_pawn_east else 0)"

definition sq2sq_promotion :: "int \<Rightarrow> int \<Rightarrow> int" where
  "sq2sq_promotion a b =
     (if b \<in> set (map (\<lambda>t. t XOR XOR_PROM_QUEEN) (promotion_targets a))
      then data_promotion_queen else 0) OR
     (if b \<in> set (map (\<lambda>t. t XOR XOR_PROM_ROOK) (promotion_targets a))
      then data_promotion_rook else 0) OR
     (if b \<in> set (map (\<lambda>t. t XOR XOR_PROM_BISHOP) (promotion_targets a))
      then data_promotion_bishop else 0) OR
     (if b \<in> set (map (\<lambda>t. t XOR XOR_PROM_KNIGHT) (promotion_targets a))
      then data_promotion_knight else 0)"

definition data_sq2sq :: "int \<Rightarrow> int \<Rightarrow> int" where
  "data_sq2sq a b =
     sq2sq_rays a b OR sq2sq_king a b OR sq2sq_knight a b OR sq2sq_pawn a b OR
     sq2sq_promotion a b"

definition promotion_flag :: "int \<Rightarrow> int" where
  "promotion_flag x =
     (if x = XOR_PROM_QUEEN then data_promotion_queen
      else if x = XOR_PROM_ROOK then data_promotion_rook
      else if x = XOR_PROM_BISHOP then data_promotion_bishop
      else if x = XOR_PROM_KNIGHT then data_promotion_knight
      else 0)"

section \<open>Zobrist numbers and material keys (makeData.c, board.h, layout.c)\<close>

text \<open>The Park-Miller generator of makeData.c; entry \<open>[piece][sq]\<close> packs the low bytes of
  eight consecutive draws.\<close>

definition park_miller :: "int \<Rightarrow> int" where
  "park_miller random =
     (let r = 16807 * (random smod 127773) - 2836 * (random sdiv 127773)
      in if r \<le> 0 then r + 0x7fffffff else r)"

fun zobrist_draws :: "nat \<Rightarrow> int \<Rightarrow> 64 word \<Rightarrow> int \<times> 64 word" where
  "zobrist_draws 0 random v = (random, v)"
| "zobrist_draws (Suc n) random v =
     (let r = park_miller random
      in zobrist_draws n r (push_bit 8 v XOR word_of_int (r AND 0xff)))"

fun zobrist_seed :: "nat \<Rightarrow> int" where
  "zobrist_seed 0 = 1"
| "zobrist_seed (Suc n) = fst (zobrist_draws 8 (zobrist_seed n) 0)"

definition data_zobrist :: "int \<Rightarrow> int \<Rightarrow> 64 word" where
  "data_zobrist piece sq = snd (zobrist_draws 8 (zobrist_seed (nat (piece * 64 + sq))) 0)"

definition zobrist_white_king :: int where "zobrist_white_king = 0"

definition zobrist_white_queen :: int where "zobrist_white_queen = 1"

definition zobrist_white_rook :: int where "zobrist_white_rook = 2"

definition zobrist_white_bishop :: int where "zobrist_white_bishop = 3"

definition zobrist_white_knight :: int where "zobrist_white_knight = 4"

definition zobrist_white_pawn :: int where "zobrist_white_pawn = 5"

definition zobrist_black_king :: int where "zobrist_black_king = 6"

definition zobrist_black_queen :: int where "zobrist_black_queen = 7"

definition zobrist_black_rook :: int where "zobrist_black_rook = 8"

definition zobrist_black_bishop :: int where "zobrist_black_bishop = 9"

definition zobrist_black_knight :: int where "zobrist_black_knight = 10"

definition zobrist_black_pawn :: int where "zobrist_black_pawn = 11"

definition zobrist_white_rook_castle :: int where "zobrist_white_rook_castle = zobrist_white_pawn"

definition zobrist_black_rook_castle :: int where "zobrist_black_rook_castle = zobrist_black_pawn"

definition BOARD_MATERIAL_KEY_WHITE_PAWN :: "64 word" where
  "BOARD_MATERIAL_KEY_WHITE_PAWN = 0x514e000000000001"

definition BOARD_MATERIAL_KEY_WHITE_KNIGHT :: "64 word" where
  "BOARD_MATERIAL_KEY_WHITE_KNIGHT = 0x6ab5000000000010"

definition BOARD_MATERIAL_KEY_WHITE_BISHOP_LIGHT :: "64 word" where
  "BOARD_MATERIAL_KEY_WHITE_BISHOP_LIGHT = 0x2081000000000100"

definition BOARD_MATERIAL_KEY_WHITE_BISHOP_DARK :: "64 word" where
  "BOARD_MATERIAL_KEY_WHITE_BISHOP_DARK = 0xb589000000001000"

definition BOARD_MATERIAL_KEY_WHITE_ROOK :: "64 word" where
  "BOARD_MATERIAL_KEY_WHITE_ROOK = 0xae45000000010000"

definition BOARD_MATERIAL_KEY_WHITE_QUEEN :: "64 word" where
  "BOARD_MATERIAL_KEY_WHITE_QUEEN = 0x9ac3000000100000"

definition BOARD_MATERIAL_KEY_BLACK_PAWN :: "64 word" where
  "BOARD_MATERIAL_KEY_BLACK_PAWN = 0x696d000001000000"

definition BOARD_MATERIAL_KEY_BLACK_KNIGHT :: "64 word" where
  "BOARD_MATERIAL_KEY_BLACK_KNIGHT = 0xd903000010000000"

definition BOARD_MATERIAL_KEY_BLACK_BISHOP_LIGHT :: "64 word" where
  "BOARD_MATERIAL_KEY_BLACK_BISHOP_LIGHT = 0x3d15000100000000"

definition BOARD_MATERIAL_KEY_BLACK_BISHOP_DARK :: "64 word" where
  "BOARD_MATERIAL_KEY_BLACK_BISHOP_DARK = 0x67f5001000000000"

definition BOARD_MATERIAL_KEY_BLACK_ROOK :: "64 word" where
  "BOARD_MATERIAL_KEY_BLACK_ROOK = 0x7de9010000000000"

definition BOARD_MATERIAL_KEY_BLACK_QUEEN :: "64 word" where
  "BOARD_MATERIAL_KEY_BLACK_QUEEN = 0xa96f100000000000"

definition data_material_key :: "int \<Rightarrow> 64 word" where
  "data_material_key piece =
     (if piece = board_white_pawn \<or> piece = board_white_pawn_rank2 \<or>
         piece = board_white_pawn_rank7 then BOARD_MATERIAL_KEY_WHITE_PAWN
      else if piece = board_white_knight then BOARD_MATERIAL_KEY_WHITE_KNIGHT
      else if piece = board_white_bishop_light then BOARD_MATERIAL_KEY_WHITE_BISHOP_LIGHT
      else if piece = board_white_bishop_dark then BOARD_MATERIAL_KEY_WHITE_BISHOP_DARK
      else if piece = board_white_rook \<or> piece = board_white_rook_castle
        then BOARD_MATERIAL_KEY_WHITE_ROOK
      else if piece = board_white_queen then BOARD_MATERIAL_KEY_WHITE_QUEEN
      else if piece = board_black_pawn \<or> piece = board_black_pawn_rank7 \<or>
         piece = board_black_pawn_rank2 then BOARD_MATERIAL_KEY_BLACK_PAWN
      else if piece = board_black_knight then BOARD_MATERIAL_KEY_BLACK_KNIGHT
      else if piece = board_black_bishop_light then BOARD_MATERIAL_KEY_BLACK_BISHOP_LIGHT
      else if piece = board_black_bishop_dark then BOARD_MATERIAL_KEY_BLACK_BISHOP_DARK
      else if piece = board_black_rook \<or> piece = board_black_rook_castle
        then BOARD_MATERIAL_KEY_BLACK_ROOK
      else if piece = board_black_queen then BOARD_MATERIAL_KEY_BLACK_QUEEN
      else 0)"

definition data_bishop_diagonals :: "int \<Rightarrow> int" where
  "data_bishop_diagonals sq =
     push_bit (nat (14 - BOARD_FILE sq - BOARD_RANK sq)) 1 OR
     push_bit (nat (22 + BOARD_FILE sq - BOARD_RANK sq)) 1"

section \<open>The position and its stack (board.h)\<close>

record board_square =
  piece :: int
  index :: int

record board_side =
  attacks :: "int \<Rightarrow> int"
  bishop_diagonals :: int
  pieces :: "int \<Rightarrow> int"
  nr_pieces :: int
  color :: int
  last_rank_pawns :: int

record board_undo =
  square :: int
  undo_piece :: board_square

definition BOARD_UNDO_LEN_MAX :: int where "BOARD_UNDO_LEN_MAX = 6"

definition UNDO_FROM :: int where "UNDO_FROM = 0"

definition UNDO_TO :: int where "UNDO_TO = 1"

record board_stack_frame =
  active :: board_side
  passive' :: board_side
  undo_len :: int
  undo :: "int \<Rightarrow> board_undo"
  node_counter :: int
  halfmove_clock :: "8 word"
  en_passant_lazy :: int
  en_passant_node_counter :: int
  board_hash_lazy :: "64 word"
  pawn_king_hash :: "64 word"
  material_key :: "64 word"
  killer_moves :: "int \<Rightarrow> 16 word"

definition BOARD_MAX_DEPTH :: int where "BOARD_MAX_DEPTH = 250"

record board =
  squares :: "int \<Rightarrow> board_square"
  current :: int
  butterfly :: "int \<Rightarrow> int"
  stack :: "int \<Rightarrow> board_stack_frame"
  extra_defenders :: "int \<Rightarrow> int"
  game_fullmove_number :: int
  game_halfmove_clock_offset :: int

type_synonym make_move_fn = "int \<Rightarrow> int \<Rightarrow> board \<Rightarrow> board"

record board_move =
  move :: int
  prescore :: int
  make_fn :: make_move_fn

section \<open>Statements on the position\<close>

text \<open>
  Every transition of the source mutates the position through the pointer \<open>bd\<close>; here it
  is a function from the position to the updated one, and a function body is the list of
  its statements, run in order by \<open>seq\<close>. \<open>bd->current\<close> is the index \<open>current\<close> into
  \<open>stack\<close>; \<open>bd->current[-1]\<close> is \<open>prev\<close>. The transitions are embedded as compiled with
  NDEBUG: an \<open>assert\<close> is no statement; what the assertions state appears as hypotheses
  of the theorems that need it. Array reads outside the C array bounds (undefined in C)
  read the total function that models the array.
\<close>

definition seq :: "('s \<Rightarrow> 's) list \<Rightarrow> 's \<Rightarrow> 's" where
  "seq stmts s = fold (\<lambda>stmt. stmt) stmts s"

definition cur :: "board \<Rightarrow> board_stack_frame" where
  "cur bd = stack bd (current bd)"

definition prev :: "board \<Rightarrow> board_stack_frame" where
  "prev bd = stack bd (current bd - 1)"

definition upd_cur :: "(board_stack_frame \<Rightarrow> board_stack_frame) \<Rightarrow> board \<Rightarrow> board" where
  "upd_cur g bd = bd\<lparr>stack := (stack bd)(current bd := g (stack bd (current bd)))\<rparr>"

datatype side_sel = Active | Passive

definition side_of :: "side_sel \<Rightarrow> board \<Rightarrow> board_side" where
  "side_of who bd = (case who of Active \<Rightarrow> active (cur bd) | Passive \<Rightarrow> passive' (cur bd))"

definition upd_side :: "side_sel \<Rightarrow> (board_side \<Rightarrow> board_side) \<Rightarrow> board \<Rightarrow> board" where
  "upd_side who g =
     (case who of
        Active \<Rightarrow> upd_cur (\<lambda>f. f\<lparr>active := g (active f)\<rparr>)
      | Passive \<Rightarrow> upd_cur (\<lambda>f. f\<lparr>passive' := g (passive' f)\<rparr>))"

definition set_piece :: "int \<Rightarrow> int \<Rightarrow> board \<Rightarrow> board" where
  "set_piece sq p bd = bd\<lparr>squares := (squares bd)(sq := (squares bd sq)\<lparr>piece := p\<rparr>)\<rparr>"

definition set_index :: "int \<Rightarrow> int \<Rightarrow> board \<Rightarrow> board" where
  "set_index sq i bd = bd\<lparr>squares := (squares bd)(sq := (squares bd sq)\<lparr>index := i\<rparr>)\<rparr>"

definition copy_square :: "int \<Rightarrow> int \<Rightarrow> board \<Rightarrow> board" where
  "copy_square to from bd = bd\<lparr>squares := (squares bd)(to := squares bd from)\<rparr>"

definition set_list :: "side_sel \<Rightarrow> int \<Rightarrow> int \<Rightarrow> board \<Rightarrow> board" where
  "set_list who i sq = upd_side who (\<lambda>s. s\<lparr>pieces := (pieces s)(i := sq)\<rparr>)"

text \<open>\<open>PUSH_UNDO(frame, xsquare)\<close> of intern.h.\<close>

definition PUSH_UNDO :: "int \<Rightarrow> board \<Rightarrow> board" where
  "PUSH_UNDO xsquare bd =
     upd_cur (\<lambda>f. f\<lparr>undo_len := undo_len f + 1,
                     undo := (undo f)(undo_len f :=
                       \<lparr>square = xsquare, undo_piece = squares bd xsquare\<rparr>)\<rparr>) bd"

text \<open>Hash and key statements.\<close>

definition hash_from_prev :: "64 word \<Rightarrow> board \<Rightarrow> board" where
  "hash_from_prev v bd =
     upd_cur (\<lambda>f. f\<lparr>board_hash_lazy := NOT (board_hash_lazy (prev bd)) XOR v\<rparr>) bd"

definition xor_board_hash :: "64 word \<Rightarrow> board \<Rightarrow> board" where
  "xor_board_hash v = upd_cur (\<lambda>f. f\<lparr>board_hash_lazy := board_hash_lazy f XOR v\<rparr>)"

definition xor_pawn_king_hash :: "64 word \<Rightarrow> board \<Rightarrow> board" where
  "xor_pawn_king_hash v = upd_cur (\<lambda>f. f\<lparr>pawn_king_hash := pawn_king_hash f XOR v\<rparr>)"

definition add_material_key :: "64 word \<Rightarrow> board \<Rightarrow> board" where
  "add_material_key v = upd_cur (\<lambda>f. f\<lparr>material_key := material_key f + v\<rparr>)"

definition sub_material_key :: "64 word \<Rightarrow> board \<Rightarrow> board" where
  "sub_material_key v = upd_cur (\<lambda>f. f\<lparr>material_key := material_key f - v\<rparr>)"

text \<open>\<open>bd->current->halfmove_clock = bd->current[-1].halfmove_clock + 1\<close>; the field is an
  unsigned char.\<close>

definition halfmove_clock_from_prev :: "board \<Rightarrow> board" where
  "halfmove_clock_from_prev bd =
     upd_cur (\<lambda>f. f\<lparr>halfmove_clock := halfmove_clock (prev bd) + 1\<rparr>) bd"

text \<open>\<open>side->last_rank_pawns ^= 1 << BOARD_FILE(sq)\<close> (an unsigned char).\<close>

definition xor_last_rank_pawns :: "side_sel \<Rightarrow> int \<Rightarrow> board \<Rightarrow> board" where
  "xor_last_rank_pawns who sq =
     upd_side who (\<lambda>s. s\<lparr>last_rank_pawns :=
       (last_rank_pawns s XOR push_bit (nat (BOARD_FILE sq)) 1) AND 0xff\<rparr>)"

definition xor_bishop_diagonals :: "side_sel \<Rightarrow> int \<Rightarrow> board \<Rightarrow> board" where
  "xor_bishop_diagonals who v =
     upd_side who (\<lambda>s. s\<lparr>bishop_diagonals := bishop_diagonals s XOR v\<rparr>)"

section \<open>Attack maintenance (attack.c)\<close>

text \<open>The inner loop of \<open>attack_xor_rays\<close>: step, toggle the direction bit, stop after the
  first occupied square or after \<open>len\<close> steps. The attack words are C shorts: the XORs
  stay within them, and the knight counter, the one place that adds, is stored back with
  the 16-bit wrap-around of the conversion to \<open>short\<close>.\<close>

fun ray_walk ::
  "nat \<Rightarrow> (int \<Rightarrow> board_square) \<Rightarrow> int \<Rightarrow> int \<Rightarrow> int \<Rightarrow> (int \<Rightarrow> int) \<Rightarrow> (int \<Rightarrow> int)" where
  "ray_walk 0 sqs to vector dir A = A"
| "ray_walk (Suc len) sqs to vector dir A =
     (let to = to + vector; A = A(to := A to XOR dir)
      in if piece (sqs to) \<noteq> board_empty then A else ray_walk len sqs to vector dir A)"

definition attack_xor_rays :: "board_side \<Rightarrow> board \<Rightarrow> int \<Rightarrow> int \<Rightarrow> board_side" where
  "attack_xor_rays side bd sq dirs =
     side\<lparr>attacks :=
       fold (\<lambda>dir A. ray_walk (nat (data_raylen sq (DEBRUIJN_INDEX dir))) (squares bd) sq
                        (board_vector_step dir) dir A)
         (scan_dirs 8 0 dirs) (attacks side)\<rparr>"

definition attack_xor_king :: "board_side \<Rightarrow> int \<Rightarrow> board_side" where
  "attack_xor_king side sq =
     side\<lparr>attacks :=
       fold (\<lambda>dir A. let to = sq + board_vector_step dir
                      in A(to := A to XOR board_attack_king))
         (scan_dirs 8 0 (data_kingtab sq)) (attacks side)\<rparr>"

definition attack_add_knight :: "board_side \<Rightarrow> int \<Rightarrow> board_side" where
  "attack_add_knight side sq =
     side\<lparr>attacks :=
       fold (\<lambda>dir A. let to = sq + board_vector_jump dir
                      in A(to := signed_take_bit 15 (A to + board_attack_knight)))
         (scan_dirs 8 0 (data_knighttab sq)) (attacks side)\<rparr>"

definition attack_sub_knight :: "board_side \<Rightarrow> int \<Rightarrow> board_side" where
  "attack_sub_knight side sq =
     side\<lparr>attacks :=
       fold (\<lambda>dir A. let to = sq + board_vector_jump dir
                      in A(to := signed_take_bit 15 (A to - board_attack_knight)))
         (scan_dirs 8 0 (data_knighttab sq)) (attacks side)\<rparr>"

definition attack_xor_white_pawn :: "board_side \<Rightarrow> int \<Rightarrow> board_side" where
  "attack_xor_white_pawn side sq =
     (let A = attacks side;
          A = (if sq \<ge> B1
               then A(sq + BOARD_VECTOR_NORTHWEST :=
                        A (sq + BOARD_VECTOR_NORTHWEST) XOR board_attack_pawn_west)
               else A);
          A = (if sq < H1
               then A(sq + BOARD_VECTOR_NORTHEAST :=
                        A (sq + BOARD_VECTOR_NORTHEAST) XOR board_attack_pawn_east)
               else A)
      in side\<lparr>attacks := A\<rparr>)"

definition attack_xor_black_pawn :: "board_side \<Rightarrow> int \<Rightarrow> board_side" where
  "attack_xor_black_pawn side sq =
     (let A = attacks side;
          A = (if sq \<ge> B1
               then A(sq + BOARD_VECTOR_SOUTHWEST :=
                        A (sq + BOARD_VECTOR_SOUTHWEST) XOR board_attack_pawn_west)
               else A);
          A = (if sq < H1
               then A(sq + BOARD_VECTOR_SOUTHEAST :=
                        A (sq + BOARD_VECTOR_SOUTHEAST) XOR board_attack_pawn_east)
               else A)
      in side\<lparr>attacks := A\<rparr>)"

text \<open>The statement forms in which the transitions call the attack primitives.\<close>

definition xor_rays :: "side_sel \<Rightarrow> int \<Rightarrow> int \<Rightarrow> board \<Rightarrow> board" where
  "xor_rays who sq dirs bd = upd_side who (\<lambda>s. attack_xor_rays s bd sq dirs) bd"

text \<open>\<open>rays = (who.attacks[sq] ^ own) & data_kingtab[sq]; if (rays != 0)
  attack_xor_rays(&who, bd, sq, rays);\<close> with \<open>own = 0\<close> where the source has no XOR.\<close>

definition toggle_rays :: "side_sel \<Rightarrow> int \<Rightarrow> int \<Rightarrow> board \<Rightarrow> board" where
  "toggle_rays who own sq bd =
     (let rays = (attacks (side_of who bd) sq XOR own) AND data_kingtab sq
      in if rays \<noteq> 0 then xor_rays who sq rays bd else bd)"

definition xor_king :: "side_sel \<Rightarrow> int \<Rightarrow> board \<Rightarrow> board" where
  "xor_king who sq = upd_side who (\<lambda>s. attack_xor_king s sq)"

definition add_knight :: "side_sel \<Rightarrow> int \<Rightarrow> board \<Rightarrow> board" where
  "add_knight who sq = upd_side who (\<lambda>s. attack_add_knight s sq)"

definition sub_knight :: "side_sel \<Rightarrow> int \<Rightarrow> board \<Rightarrow> board" where
  "sub_knight who sq = upd_side who (\<lambda>s. attack_sub_knight s sq)"

definition xor_white_pawn :: "side_sel \<Rightarrow> int \<Rightarrow> board \<Rightarrow> board" where
  "xor_white_pawn who sq = upd_side who (\<lambda>s. attack_xor_white_pawn s sq)"

definition xor_black_pawn :: "side_sel \<Rightarrow> int \<Rightarrow> board \<Rightarrow> board" where
  "xor_black_pawn who sq = upd_side who (\<lambda>s. attack_xor_black_pawn s sq)"

text \<open>\<open>bd->current->passive.pieces[bd->squares[from].index] = to;
  bd->squares[to] = bd->squares[from];\<close>\<close>

definition place_piece :: "int \<Rightarrow> int \<Rightarrow> board \<Rightarrow> board" where
  "place_piece from to =
     seq [(\<lambda>bd. set_list Passive (index (squares bd from)) to bd), copy_square to from]"

text \<open>\<open>bd->squares[from].index = 0; bd->squares[from].piece = board_empty;\<close>\<close>

definition clear_square :: "int \<Rightarrow> board \<Rightarrow> board" where
  "clear_square from = seq [set_index from 0, set_piece from board_empty]"

section \<open>Regular moves (move.c)\<close>

definition move_king_generic :: make_move_fn where
  "move_king_generic from to =
     seq [xor_king Passive from,
          toggle_rays Passive 0 to,
          toggle_rays Active 0 to,
          place_piece from to,
          clear_square from,
          toggle_rays Passive 0 from,
          toggle_rays Active 0 from,
          xor_king Passive to,
          halfmove_clock_from_prev]"

definition move_white_king :: make_move_fn where
  "move_white_king from to =
     seq [hash_from_prev (data_zobrist zobrist_white_king from XOR
                          data_zobrist zobrist_white_king to),
          xor_pawn_king_hash (data_zobrist zobrist_white_king from XOR
                              data_zobrist zobrist_white_king to),
          move_king_generic from to]"

definition move_black_king :: make_move_fn where
  "move_black_king from to =
     seq [hash_from_prev (data_zobrist zobrist_black_king from XOR
                          data_zobrist zobrist_black_king to),
          xor_pawn_king_hash (data_zobrist zobrist_black_king from XOR
                              data_zobrist zobrist_black_king to),
          move_king_generic from to]"

text \<open>\<open>if (bd->squares[rook].piece == rook_castle) { PUSH_UNDO; downgrade; delta_hash ^= ...;
  pawn_king_hash ^= ... }\<close>: the statement on the position, and what it adds to the local
  \<open>delta_hash\<close>.\<close>

definition disable_castle_rook :: "int \<Rightarrow> int \<Rightarrow> int \<Rightarrow> int \<Rightarrow> board \<Rightarrow> board" where
  "disable_castle_rook rook_castle rook zobrist_rook_castle sq bd =
     (if piece (squares bd sq) = rook_castle
      then seq [PUSH_UNDO sq,
                set_piece sq rook,
                xor_pawn_king_hash (data_zobrist zobrist_rook_castle sq)] bd
      else bd)"

definition disable_castle_rook_delta ::
  "int \<Rightarrow> int \<Rightarrow> int \<Rightarrow> int \<Rightarrow> board \<Rightarrow> 64 word" where
  "disable_castle_rook_delta rook_castle zobrist_rook zobrist_rook_castle sq bd =
     (if piece (squares bd sq) = rook_castle
      then data_zobrist zobrist_rook sq XOR data_zobrist zobrist_rook_castle sq
      else 0)"

definition move_white_king_castle :: make_move_fn where
  "move_white_king_castle from to bd =
     (let bd = set_piece E1 board_white_king bd;
          delta_hash =
            disable_castle_rook_delta board_white_rook_castle zobrist_white_rook
              zobrist_white_rook_castle A1 bd XOR
            disable_castle_rook_delta board_white_rook_castle zobrist_white_rook
              zobrist_white_rook_castle H1 bd
      in seq [disable_castle_rook board_white_rook_castle board_white_rook
                zobrist_white_rook_castle A1,
              disable_castle_rook board_white_rook_castle board_white_rook
                zobrist_white_rook_castle H1,
              move_white_king from to,
              xor_board_hash delta_hash] bd)"

definition move_black_king_castle :: make_move_fn where
  "move_black_king_castle from to bd =
     (let bd = set_piece E8 board_black_king bd;
          delta_hash =
            disable_castle_rook_delta board_black_rook_castle zobrist_black_rook
              zobrist_black_rook_castle A8 bd XOR
            disable_castle_rook_delta board_black_rook_castle zobrist_black_rook
              zobrist_black_rook_castle H8 bd
      in seq [disable_castle_rook board_black_rook_castle board_black_rook
                zobrist_black_rook_castle A8,
              disable_castle_rook board_black_rook_castle board_black_rook
                zobrist_black_rook_castle H8,
              move_black_king from to,
              xor_board_hash delta_hash] bd)"

definition move_queen_generic :: make_move_fn where
  "move_queen_generic from to =
     seq [toggle_rays Passive BOARD_ATTACK_QUEEN to,
          toggle_rays Active 0 to,
          place_piece from to,
          clear_square from,
          toggle_rays Passive BOARD_ATTACK_QUEEN from,
          toggle_rays Active 0 from,
          halfmove_clock_from_prev]"

definition move_white_queen :: make_move_fn where
  "move_white_queen from to =
     seq [hash_from_prev (data_zobrist zobrist_white_queen from XOR
                          data_zobrist zobrist_white_queen to),
          move_queen_generic from to]"

definition move_black_queen :: make_move_fn where
  "move_black_queen from to =
     seq [hash_from_prev (data_zobrist zobrist_black_queen from XOR
                          data_zobrist zobrist_black_queen to),
          move_queen_generic from to]"

definition move_rook_generic :: make_move_fn where
  "move_rook_generic from to =
     seq [toggle_rays Passive BOARD_ATTACK_ROOK to,
          toggle_rays Active 0 to,
          place_piece from to,
          clear_square from,
          toggle_rays Passive BOARD_ATTACK_ROOK from,
          toggle_rays Active 0 from,
          halfmove_clock_from_prev]"

definition move_white_rook :: make_move_fn where
  "move_white_rook from to =
     seq [hash_from_prev (data_zobrist zobrist_white_rook from XOR
                          data_zobrist zobrist_white_rook to),
          move_rook_generic from to]"

definition move_black_rook :: make_move_fn where
  "move_black_rook from to =
     seq [hash_from_prev (data_zobrist zobrist_black_rook from XOR
                          data_zobrist zobrist_black_rook to),
          move_rook_generic from to]"

text \<open>\<open>if (bd->squares[other].piece != rook_castle) { PUSH_UNDO(king_sq); demote king }\<close>\<close>

definition demote_castle_king :: "int \<Rightarrow> int \<Rightarrow> int \<Rightarrow> int \<Rightarrow> board \<Rightarrow> board" where
  "demote_castle_king other rook_castle king_sq king bd =
     (if piece (squares bd other) \<noteq> rook_castle
      then seq [PUSH_UNDO king_sq, set_piece king_sq king] bd
      else bd)"

definition move_white_rook_castle :: make_move_fn where
  "move_white_rook_castle from to =
     seq [set_piece from board_white_rook,
          demote_castle_king (if from = A1 then H1 else A1) board_white_rook_castle
            E1 board_white_king,
          move_white_rook from to,
          xor_board_hash (data_zobrist zobrist_white_rook from XOR
                          data_zobrist zobrist_white_rook_castle from),
          xor_pawn_king_hash (data_zobrist zobrist_white_rook_castle from)]"

definition move_black_rook_castle :: make_move_fn where
  "move_black_rook_castle from to =
     seq [set_piece from board_black_rook,
          demote_castle_king (if from = A8 then H8 else A8) board_black_rook_castle
            E8 board_black_king,
          move_black_rook from to,
          xor_board_hash (data_zobrist zobrist_black_rook from XOR
                          data_zobrist zobrist_black_rook_castle from),
          xor_pawn_king_hash (data_zobrist zobrist_black_rook_castle from)]"

definition move_bishop_generic :: make_move_fn where
  "move_bishop_generic from to =
     seq [toggle_rays Passive BOARD_ATTACK_BISHOP to,
          toggle_rays Active 0 to,
          xor_bishop_diagonals Passive
            (data_bishop_diagonals from XOR data_bishop_diagonals to),
          place_piece from to,
          clear_square from,
          toggle_rays Passive BOARD_ATTACK_BISHOP from,
          toggle_rays Active 0 from,
          halfmove_clock_from_prev]"

definition move_white_bishop :: make_move_fn where
  "move_white_bishop from to =
     seq [hash_from_prev (data_zobrist zobrist_white_bishop from XOR
                          data_zobrist zobrist_white_bishop to),
          move_bishop_generic from to]"

definition move_black_bishop :: make_move_fn where
  "move_black_bishop from to =
     seq [hash_from_prev (data_zobrist zobrist_black_bishop from XOR
                          data_zobrist zobrist_black_bishop to),
          move_bishop_generic from to]"

definition move_knight_generic :: make_move_fn where
  "move_knight_generic from to =
     seq [sub_knight Passive from,
          toggle_rays Passive 0 to,
          toggle_rays Active 0 to,
          place_piece from to,
          clear_square from,
          toggle_rays Passive 0 from,
          toggle_rays Active 0 from,
          add_knight Passive to,
          halfmove_clock_from_prev]"

definition move_white_knight :: make_move_fn where
  "move_white_knight from to =
     seq [hash_from_prev (data_zobrist zobrist_white_knight from XOR
                          data_zobrist zobrist_white_knight to),
          move_knight_generic from to]"

definition move_black_knight :: make_move_fn where
  "move_black_knight from to =
     seq [hash_from_prev (data_zobrist zobrist_black_knight from XOR
                          data_zobrist zobrist_black_knight to),
          move_knight_generic from to]"

definition move_white_pawn :: make_move_fn where
  "move_white_pawn from to =
     seq [hash_from_prev (data_zobrist zobrist_white_pawn from XOR
                          data_zobrist zobrist_white_pawn to),
          xor_pawn_king_hash (data_zobrist zobrist_white_pawn from XOR
                              data_zobrist zobrist_white_pawn to),
          xor_white_pawn Passive from,
          toggle_rays Passive 0 to,
          toggle_rays Active 0 to,
          place_piece from to,
          (if BOARD_RANK to = BOARD_RANK_7
           then seq [set_piece to board_white_pawn_rank7, xor_last_rank_pawns Passive to]
           else seq []),
          clear_square from,
          toggle_rays Passive 0 from,
          toggle_rays Active 0 from,
          xor_white_pawn Passive to]"

definition move_white_pawn_rank2_to_3 :: make_move_fn where
  "move_white_pawn_rank2_to_3 from to =
     seq [set_piece from board_white_pawn, move_white_pawn from to]"

definition move_white_pawn_rank2_to_4 :: make_move_fn where
  "move_white_pawn_rank2_to_4 from to =
     seq [set_piece from board_white_pawn,
          upd_cur (\<lambda>f. f\<lparr>en_passant_lazy := from + BOARD_VECTOR_NORTH\<rparr>),
          upd_cur (\<lambda>f. f\<lparr>en_passant_node_counter := node_counter f\<rparr>),
          move_white_pawn from to]"

definition move_black_pawn :: make_move_fn where
  "move_black_pawn from to =
     seq [hash_from_prev (data_zobrist zobrist_black_pawn from XOR
                          data_zobrist zobrist_black_pawn to),
          xor_pawn_king_hash (data_zobrist zobrist_black_pawn from XOR
                              data_zobrist zobrist_black_pawn to),
          xor_black_pawn Passive from,
          toggle_rays Passive 0 to,
          toggle_rays Active 0 to,
          place_piece from to,
          (if BOARD_RANK to = BOARD_RANK_2
           then seq [set_piece to board_black_pawn_rank2, xor_last_rank_pawns Passive to]
           else seq []),
          clear_square from,
          toggle_rays Passive 0 from,
          toggle_rays Active 0 from,
          xor_black_pawn Passive to]"

definition move_black_pawn_rank7_to_6 :: make_move_fn where
  "move_black_pawn_rank7_to_6 from to =
     seq [set_piece from board_black_pawn, move_black_pawn from to]"

definition move_black_pawn_rank7_to_5 :: make_move_fn where
  "move_black_pawn_rank7_to_5 from to =
     seq [set_piece from board_black_pawn,
          upd_cur (\<lambda>f. f\<lparr>en_passant_lazy := from + BOARD_VECTOR_SOUTH\<rparr>),
          upd_cur (\<lambda>f. f\<lparr>en_passant_node_counter := node_counter f\<rparr>),
          move_black_pawn from to]"

section \<open>Make and unmake (move.c)\<close>

definition board_make_move :: "board \<Rightarrow> board_move \<Rightarrow> board" where
  "board_make_move bd mv =
     (let frame = current bd;
          f0 = stack bd frame;
          bd = bd\<lparr>stack := (stack bd)(frame + 1 :=
                 (stack bd (frame + 1))
                   \<lparr>active := passive' f0,
                    passive' := active f0,
                    halfmove_clock := 0,
                    pawn_king_hash := pawn_king_hash f0,
                    material_key := material_key f0\<rparr>)\<rparr>;
          bd = bd\<lparr>current := frame + 1\<rparr>;
          bd = upd_cur (\<lambda>f. f\<lparr>node_counter := node_counter f + 1\<rparr>) bd;
          from = MOVE_FROM (move mv);
          to = MOVE_TO (move mv);
          bd = upd_cur (\<lambda>f. f\<lparr>undo_len := 2,
                  undo := ((undo f)
                    (UNDO_FROM := \<lparr>square = from, undo_piece = squares bd from\<rparr>))
                    (UNDO_TO := \<lparr>square = to, undo_piece = squares bd to\<rparr>)\<rparr>) bd
      in make_fn mv from to bd)"

definition restore_undo :: "int \<Rightarrow> board \<Rightarrow> board" where
  "restore_undo i bd =
     bd\<lparr>squares := (squares bd)(square (undo (cur bd) i) := undo_piece (undo (cur bd) i))\<rparr>"

definition board_undo_move :: "board \<Rightarrow> board" where
  "board_undo_move bd =
     (let undo_len = undo_len (cur bd);
          bd = restore_undo 0 bd;
          bd = restore_undo 1 bd;
          bd = (if undo_len > 2
                then fold restore_undo [3..undo_len - 1] (restore_undo 2 bd)
                else bd)
      in bd\<lparr>current := current bd - 1\<rparr>)"

definition board_make_null_move :: "board \<Rightarrow> board" where
  "board_make_null_move bd =
     (let frame = current bd;
          f0 = stack bd frame;
          bd = bd\<lparr>stack := (stack bd)(frame + 1 :=
                 (stack bd (frame + 1))
                   \<lparr>active := passive' f0,
                    passive' := active f0,
                    halfmove_clock := 1,
                    board_hash_lazy := NOT (board_hash_lazy f0),
                    pawn_king_hash := pawn_king_hash f0,
                    material_key := material_key f0\<rparr>)\<rparr>;
          bd = bd\<lparr>current := frame + 1\<rparr>;
          bd = upd_cur (\<lambda>f. f\<lparr>node_counter := node_counter f + 1\<rparr>) bd
      in upd_cur (\<lambda>f. f\<lparr>undo_len := 0\<rparr>) bd)"

definition board_undo_null_move :: "board \<Rightarrow> board" where
  "board_undo_null_move bd = bd\<lparr>current := current bd - 1\<rparr>"

section \<open>Captures (capture.c)\<close>

text \<open>The block every \<open>take_*\<close> function ends with: the last piece of the list moves into
  the slot of the piece on \<open>sq\<close>.
  \<open>last_piece = nr_pieces - 1; other = pieces[last_piece]; PUSH_UNDO(other);
  index = squares[sq].index; squares[other].index = index; pieces[index] = other;
  pieces[last_piece] = -1; nr_pieces = last_piece;\<close>\<close>

definition last_piece_of :: "board \<Rightarrow> int" where
  "last_piece_of bd = nr_pieces (active (cur bd)) - 1"

definition close_piece_list :: "int \<Rightarrow> int \<Rightarrow> int \<Rightarrow> board \<Rightarrow> board" where
  "close_piece_list last_piece other idx =
     seq [set_index other idx,
          set_list Active idx other,
          set_list Active last_piece (- 1),
          upd_side Active (\<lambda>s. s\<lparr>nr_pieces := last_piece\<rparr>)]"

definition remove_from_piece_list :: "int \<Rightarrow> board \<Rightarrow> board" where
  "remove_from_piece_list sq bd =
     (let last_piece = last_piece_of bd;
          other = pieces (active (cur bd)) last_piece;
          bd = PUSH_UNDO other bd;
          idx = index (squares bd sq)
      in close_piece_list last_piece other idx bd)"

definition take_queen_generic :: "int \<Rightarrow> board \<Rightarrow> board" where
  "take_queen_generic sq =
     seq [xor_rays Active sq (data_kingtab sq AND BOARD_ATTACK_QUEEN),
          remove_from_piece_list sq]"

definition take_white_queen :: "int \<Rightarrow> board \<Rightarrow> board" where
  "take_white_queen sq =
     seq [xor_board_hash (data_zobrist zobrist_white_queen sq),
          sub_material_key BOARD_MATERIAL_KEY_WHITE_QUEEN,
          take_queen_generic sq]"

definition take_black_queen :: "int \<Rightarrow> board \<Rightarrow> board" where
  "take_black_queen sq =
     seq [xor_board_hash (data_zobrist zobrist_black_queen sq),
          sub_material_key BOARD_MATERIAL_KEY_BLACK_QUEEN,
          take_queen_generic sq]"

definition take_rook_generic :: "int \<Rightarrow> board \<Rightarrow> board" where
  "take_rook_generic sq =
     seq [xor_rays Active sq (data_kingtab sq AND BOARD_ATTACK_ROOK),
          remove_from_piece_list sq]"

definition take_white_rook :: "int \<Rightarrow> board \<Rightarrow> board" where
  "take_white_rook sq =
     seq [xor_board_hash (data_zobrist zobrist_white_rook sq),
          sub_material_key BOARD_MATERIAL_KEY_WHITE_ROOK,
          take_rook_generic sq]"

definition take_white_rook_castle :: "int \<Rightarrow> board \<Rightarrow> board" where
  "take_white_rook_castle sq =
     seq [demote_castle_king (if sq = A1 then H1 else A1) board_white_rook_castle
            E1 board_white_king,
          xor_board_hash (data_zobrist zobrist_white_rook_castle sq),
          xor_pawn_king_hash (data_zobrist zobrist_white_rook_castle sq),
          sub_material_key BOARD_MATERIAL_KEY_WHITE_ROOK,
          take_rook_generic sq]"

definition take_black_rook :: "int \<Rightarrow> board \<Rightarrow> board" where
  "take_black_rook sq =
     seq [xor_board_hash (data_zobrist zobrist_black_rook sq),
          sub_material_key BOARD_MATERIAL_KEY_BLACK_ROOK,
          take_rook_generic sq]"

definition take_black_rook_castle :: "int \<Rightarrow> board \<Rightarrow> board" where
  "take_black_rook_castle sq =
     seq [demote_castle_king (if sq = A8 then H8 else A8) board_black_rook_castle
            E8 board_black_king,
          xor_board_hash (data_zobrist zobrist_black_rook_castle sq),
          xor_pawn_king_hash (data_zobrist zobrist_black_rook_castle sq),
          sub_material_key BOARD_MATERIAL_KEY_BLACK_ROOK,
          take_rook_generic sq]"

definition take_bishop_generic :: "int \<Rightarrow> board \<Rightarrow> board" where
  "take_bishop_generic sq =
     seq [xor_rays Active sq (data_kingtab sq AND BOARD_ATTACK_BISHOP),
          remove_from_piece_list sq,
          xor_bishop_diagonals Active (data_bishop_diagonals sq)]"

definition take_white_bishop_light :: "int \<Rightarrow> board \<Rightarrow> board" where
  "take_white_bishop_light sq =
     seq [xor_board_hash (data_zobrist zobrist_white_bishop sq),
          sub_material_key BOARD_MATERIAL_KEY_WHITE_BISHOP_LIGHT,
          take_bishop_generic sq]"

definition take_white_bishop_dark :: "int \<Rightarrow> board \<Rightarrow> board" where
  "take_white_bishop_dark sq =
     seq [xor_board_hash (data_zobrist zobrist_white_bishop sq),
          sub_material_key BOARD_MATERIAL_KEY_WHITE_BISHOP_DARK,
          take_bishop_generic sq]"

definition take_black_bishop_light :: "int \<Rightarrow> board \<Rightarrow> board" where
  "take_black_bishop_light sq =
     seq [xor_board_hash (data_zobrist zobrist_black_bishop sq),
          sub_material_key BOARD_MATERIAL_KEY_BLACK_BISHOP_LIGHT,
          take_bishop_generic sq]"

definition take_black_bishop_dark :: "int \<Rightarrow> board \<Rightarrow> board" where
  "take_black_bishop_dark sq =
     seq [xor_board_hash (data_zobrist zobrist_black_bishop sq),
          sub_material_key BOARD_MATERIAL_KEY_BLACK_BISHOP_DARK,
          take_bishop_generic sq]"

text \<open>The scan of \<open>take_knight_generic\<close> for the last knight of the list:
  \<open>for (last_knight=index; last_knight<last_piece; last_knight++)
  { if (the piece after last_knight is no knight) break; }\<close>\<close>

function find_last_knight :: "board \<Rightarrow> int \<Rightarrow> int \<Rightarrow> int" where
  "find_last_knight bd last_piece last_knight =
     (if last_knight < last_piece then
        (let next_sq = pieces (active (cur bd)) (last_knight + 1);
             next_piece = piece (squares bd next_sq)
         in if next_piece \<noteq> board_white_knight \<and> next_piece \<noteq> board_black_knight
            then last_knight
            else find_last_knight bd last_piece (last_knight + 1))
      else last_knight)"
  by pat_completeness auto

termination
  by (relation "measure (\<lambda>(bd, last_piece, last_knight). nat (last_piece - last_knight))") auto

definition take_knight_generic :: "int \<Rightarrow> board \<Rightarrow> board" where
  "take_knight_generic sq bd =
     (let bd = sub_knight Active sq bd;
          last_piece = last_piece_of bd;
          other = pieces (active (cur bd)) last_piece;
          bd = PUSH_UNDO other bd;
          idx = index (squares bd sq);
          last_knight = find_last_knight bd last_piece idx
      in if idx < last_knight \<and> last_knight < last_piece then
           (let square_a = pieces (active (cur bd)) idx;
                square_b = pieces (active (cur bd)) last_knight
            in seq [PUSH_UNDO square_b,
                    set_index square_a last_knight,
                    set_index square_b idx,
                    set_list Active last_knight square_a,
                    set_list Active idx square_b,
                    close_piece_list last_piece other last_knight] bd)
         else close_piece_list last_piece other idx bd)"

definition take_white_knight :: "int \<Rightarrow> board \<Rightarrow> board" where
  "take_white_knight sq =
     seq [xor_board_hash (data_zobrist zobrist_white_knight sq),
          sub_material_key BOARD_MATERIAL_KEY_WHITE_KNIGHT,
          take_knight_generic sq]"

definition take_black_knight :: "int \<Rightarrow> board \<Rightarrow> board" where
  "take_black_knight sq =
     seq [xor_board_hash (data_zobrist zobrist_black_knight sq),
          sub_material_key BOARD_MATERIAL_KEY_BLACK_KNIGHT,
          take_knight_generic sq]"

definition take_white_pawn :: "int \<Rightarrow> board \<Rightarrow> board" where
  "take_white_pawn sq =
     seq [xor_board_hash (data_zobrist zobrist_white_pawn sq),
          xor_pawn_king_hash (data_zobrist zobrist_white_pawn sq),
          sub_material_key BOARD_MATERIAL_KEY_WHITE_PAWN,
          xor_white_pawn Active sq,
          remove_from_piece_list sq]"

definition take_white_pawn_rank7 :: "int \<Rightarrow> board \<Rightarrow> board" where
  "take_white_pawn_rank7 sq = seq [xor_last_rank_pawns Active sq, take_white_pawn sq]"

definition take_black_pawn :: "int \<Rightarrow> board \<Rightarrow> board" where
  "take_black_pawn sq =
     seq [xor_board_hash (data_zobrist zobrist_black_pawn sq),
          xor_pawn_king_hash (data_zobrist zobrist_black_pawn sq),
          sub_material_key BOARD_MATERIAL_KEY_BLACK_PAWN,
          xor_black_pawn Active sq,
          remove_from_piece_list sq]"

definition take_black_pawn_rank2 :: "int \<Rightarrow> board \<Rightarrow> board" where
  "take_black_pawn_rank2 sq = seq [xor_last_rank_pawns Active sq, take_black_pawn sq]"

text \<open>\<open>capture_take_piece_fn_table\<close>: the entries for the empty square and the kings are
  null pointers.\<close>

definition capture_take_piece_fn_table :: "int \<Rightarrow> (int \<Rightarrow> board \<Rightarrow> board) option" where
  "capture_take_piece_fn_table p =
     (if p = board_white_queen then Some take_white_queen
      else if p = board_black_queen then Some take_black_queen
      else if p = board_white_rook then Some take_white_rook
      else if p = board_black_rook then Some take_black_rook
      else if p = board_white_rook_castle then Some take_white_rook_castle
      else if p = board_black_rook_castle then Some take_black_rook_castle
      else if p = board_white_bishop_light then Some take_white_bishop_light
      else if p = board_white_bishop_dark then Some take_white_bishop_dark
      else if p = board_black_bishop_light then Some take_black_bishop_light
      else if p = board_black_bishop_dark then Some take_black_bishop_dark
      else if p = board_white_knight then Some take_white_knight
      else if p = board_black_knight then Some take_black_knight
      else if p = board_white_pawn then Some take_white_pawn
      else if p = board_white_pawn_rank2 then Some take_white_pawn
      else if p = board_white_pawn_rank7 then Some take_white_pawn_rank7
      else if p = board_black_pawn then Some take_black_pawn
      else if p = board_black_pawn_rank7 then Some take_black_pawn
      else if p = board_black_pawn_rank2 then Some take_black_pawn_rank2
      else None)"

text \<open>\<open>take_piece = capture_take_piece_fn_table[bd->squares[to].piece]; take_piece(bd, to);\<close>
  A null entry would be called in C; the model then leaves the position as it is, and the
  theorems that look at a capture assume the entry present.\<close>

definition take_piece :: "int \<Rightarrow> board \<Rightarrow> board" where
  "take_piece to bd =
     (case capture_take_piece_fn_table (piece (squares bd to)) of
        None \<Rightarrow> bd
      | Some take_fn \<Rightarrow> take_fn to bd)"

definition capture_with_king :: make_move_fn where
  "capture_with_king from to =
     seq [(\<lambda>bd. if color (active (cur bd)) = board_black
                then seq [hash_from_prev (data_zobrist zobrist_white_king from XOR
                                          data_zobrist zobrist_white_king to),
                          xor_pawn_king_hash (data_zobrist zobrist_white_king from XOR
                                              data_zobrist zobrist_white_king to)] bd
                else seq [hash_from_prev (data_zobrist zobrist_black_king from XOR
                                          data_zobrist zobrist_black_king to),
                          xor_pawn_king_hash (data_zobrist zobrist_black_king from XOR
                                              data_zobrist zobrist_black_king to)] bd),
          take_piece to,
          xor_king Passive from,
          place_piece from to,
          clear_square from,
          toggle_rays Passive 0 from,
          toggle_rays Active 0 from,
          xor_king Passive to]"

definition capture_with_white_king_castle :: make_move_fn where
  "capture_with_white_king_castle from to bd =
     (let bd = set_piece from board_white_king bd;
          delta_hash =
            disable_castle_rook_delta board_white_rook_castle zobrist_white_rook
              zobrist_white_rook_castle A1 bd XOR
            disable_castle_rook_delta board_white_rook_castle zobrist_white_rook
              zobrist_white_rook_castle H1 bd
      in seq [disable_castle_rook board_white_rook_castle board_white_rook
                zobrist_white_rook_castle A1,
              disable_castle_rook board_white_rook_castle board_white_rook
                zobrist_white_rook_castle H1,
              capture_with_king from to,
              xor_board_hash delta_hash] bd)"

definition capture_with_black_king_castle :: make_move_fn where
  "capture_with_black_king_castle from to bd =
     (let bd = set_piece from board_black_king bd;
          delta_hash =
            disable_castle_rook_delta board_black_rook_castle zobrist_black_rook
              zobrist_black_rook_castle A8 bd XOR
            disable_castle_rook_delta board_black_rook_castle zobrist_black_rook
              zobrist_black_rook_castle H8 bd
      in seq [disable_castle_rook board_black_rook_castle board_black_rook
                zobrist_black_rook_castle A8,
              disable_castle_rook board_black_rook_castle board_black_rook
                zobrist_black_rook_castle H8,
              capture_with_king from to,
              xor_board_hash delta_hash] bd)"

definition capture_with_queen :: make_move_fn where
  "capture_with_queen from to =
     seq [(\<lambda>bd. if color (active (cur bd)) = board_black
                then hash_from_prev (data_zobrist zobrist_white_queen from XOR
                                     data_zobrist zobrist_white_queen to) bd
                else hash_from_prev (data_zobrist zobrist_black_queen from XOR
                                     data_zobrist zobrist_black_queen to) bd),
          take_piece to,
          xor_rays Passive to (BOARD_ATTACK_QUEEN AND data_kingtab to),
          place_piece from to,
          clear_square from,
          toggle_rays Passive BOARD_ATTACK_QUEEN from,
          toggle_rays Active 0 from]"

definition capture_with_rook :: make_move_fn where
  "capture_with_rook from to =
     seq [(\<lambda>bd. if color (active (cur bd)) = board_black
                then hash_from_prev (data_zobrist zobrist_white_rook from XOR
                                     data_zobrist zobrist_white_rook to) bd
                else hash_from_prev (data_zobrist zobrist_black_rook from XOR
                                     data_zobrist zobrist_black_rook to) bd),
          take_piece to,
          xor_rays Passive to (BOARD_ATTACK_ROOK AND data_kingtab to),
          place_piece from to,
          clear_square from,
          toggle_rays Passive BOARD_ATTACK_ROOK from,
          toggle_rays Active 0 from]"

definition capture_with_white_rook_castle :: make_move_fn where
  "capture_with_white_rook_castle from to =
     seq [set_piece from board_white_rook,
          demote_castle_king (if from = A1 then H1 else A1) board_white_rook_castle
            E1 board_white_king,
          capture_with_rook from to,
          xor_board_hash (data_zobrist zobrist_white_rook from XOR
                          data_zobrist zobrist_white_rook_castle from),
          xor_pawn_king_hash (data_zobrist zobrist_white_rook_castle from)]"

definition capture_with_black_rook_castle :: make_move_fn where
  "capture_with_black_rook_castle from to =
     seq [set_piece from board_black_rook,
          demote_castle_king (if from = A8 then H8 else A8) board_black_rook_castle
            E8 board_black_king,
          capture_with_rook from to,
          xor_board_hash (data_zobrist zobrist_black_rook from XOR
                          data_zobrist zobrist_black_rook_castle from),
          xor_pawn_king_hash (data_zobrist zobrist_black_rook_castle from)]"

definition capture_with_bishop :: make_move_fn where
  "capture_with_bishop from to =
     seq [(\<lambda>bd. if color (active (cur bd)) = board_black
                then hash_from_prev (data_zobrist zobrist_white_bishop from XOR
                                     data_zobrist zobrist_white_bishop to) bd
                else hash_from_prev (data_zobrist zobrist_black_bishop from XOR
                                     data_zobrist zobrist_black_bishop to) bd),
          take_piece to,
          xor_rays Passive to (BOARD_ATTACK_BISHOP AND data_kingtab to),
          xor_bishop_diagonals Passive
            (data_bishop_diagonals from XOR data_bishop_diagonals to),
          place_piece from to,
          clear_square from,
          toggle_rays Passive BOARD_ATTACK_BISHOP from,
          toggle_rays Active 0 from]"

definition capture_with_knight :: make_move_fn where
  "capture_with_knight from to =
     seq [(\<lambda>bd. if color (active (cur bd)) = board_black
                then hash_from_prev (data_zobrist zobrist_white_knight from XOR
                                     data_zobrist zobrist_white_knight to) bd
                else hash_from_prev (data_zobrist zobrist_black_knight from XOR
                                     data_zobrist zobrist_black_knight to) bd),
          take_piece to,
          sub_knight Passive from,
          place_piece from to,
          clear_square from,
          toggle_rays Passive 0 from,
          toggle_rays Active 0 from,
          add_knight Passive to]"

definition capture_with_white_pawn :: make_move_fn where
  "capture_with_white_pawn from to =
     seq [hash_from_prev (data_zobrist zobrist_white_pawn from XOR
                          data_zobrist zobrist_white_pawn to),
          xor_pawn_king_hash (data_zobrist zobrist_white_pawn from XOR
                              data_zobrist zobrist_white_pawn to),
          take_piece to,
          xor_white_pawn Passive from,
          (\<lambda>bd. set_list Passive (index (squares bd from)) to bd),
          (if BOARD_RANK to = BOARD_RANK_7
           then seq [set_piece to board_white_pawn_rank7, xor_last_rank_pawns Passive to]
           else set_piece to board_white_pawn),
          (\<lambda>bd. set_index to (index (squares bd from)) bd),
          clear_square from,
          toggle_rays Passive 0 from,
          toggle_rays Active 0 from,
          xor_white_pawn Passive to]"

definition capture_with_black_pawn :: make_move_fn where
  "capture_with_black_pawn from to =
     seq [hash_from_prev (data_zobrist zobrist_black_pawn from XOR
                          data_zobrist zobrist_black_pawn to),
          xor_pawn_king_hash (data_zobrist zobrist_black_pawn from XOR
                              data_zobrist zobrist_black_pawn to),
          take_piece to,
          xor_black_pawn Passive from,
          (\<lambda>bd. set_list Passive (index (squares bd from)) to bd),
          (if BOARD_RANK to = BOARD_RANK_2
           then seq [set_piece to board_black_pawn_rank2, xor_last_rank_pawns Passive to]
           else set_piece to board_black_pawn),
          (\<lambda>bd. set_index to (index (squares bd from)) bd),
          clear_square from,
          toggle_rays Passive 0 from,
          toggle_rays Active 0 from,
          xor_black_pawn Passive to]"

section \<open>Castling (castle.c)\<close>

text \<open>The four castling functions share one body over their local constants
  \<open>king_from\<close>, \<open>king_to\<close>, \<open>rook_from\<close>, \<open>rook_to\<close>, \<open>other_rook\<close> and the piece and
  Zobrist names of the colour; the arguments \<open>from\<close> and \<open>to\<close> are unused.\<close>

definition castle_body ::
  "int \<Rightarrow> int \<Rightarrow> int \<Rightarrow> int \<Rightarrow> int \<Rightarrow> int \<Rightarrow> int \<Rightarrow> int \<Rightarrow>
   int \<Rightarrow> int \<Rightarrow> int \<Rightarrow> board \<Rightarrow> board" where
  "castle_body king rook rook_castle zobrist_king zobrist_rook zobrist_rook_castle
     king_from king_to rook_from rook_to other_rook =
     seq [hash_from_prev (data_zobrist zobrist_king king_from XOR
                          data_zobrist zobrist_king king_to XOR
                          data_zobrist zobrist_rook_castle rook_from XOR
                          data_zobrist zobrist_rook rook_to),
          xor_pawn_king_hash (data_zobrist zobrist_king king_from XOR
                              data_zobrist zobrist_king king_to XOR
                              data_zobrist zobrist_rook_castle rook_from),
          PUSH_UNDO rook_from,
          PUSH_UNDO rook_to,
          xor_king Passive king_from,
          xor_rays Passive rook_from (BOARD_ATTACK_ROOK AND data_kingtab rook_from),
          (\<lambda>bd. set_list Passive (index (squares bd king_from)) king_to bd),
          set_piece king_to king,
          set_index king_to 0,
          set_piece king_from board_empty,
          set_index king_from 0,
          (\<lambda>bd. set_list Passive (index (squares bd rook_from)) rook_to bd),
          set_piece rook_to rook,
          (\<lambda>bd. set_index rook_to (index (squares bd rook_from)) bd),
          set_piece rook_from board_empty,
          set_index rook_from 0,
          toggle_rays Passive 0 king_from,
          xor_king Passive king_to,
          xor_rays Passive rook_to (BOARD_ATTACK_ROOK AND data_kingtab rook_to),
          (\<lambda>bd. if piece (squares bd other_rook) = rook_castle
                then seq [PUSH_UNDO other_rook,
                          set_piece other_rook rook,
                          xor_board_hash (data_zobrist zobrist_rook_castle other_rook XOR
                                          data_zobrist zobrist_rook other_rook),
                          xor_pawn_king_hash (data_zobrist zobrist_rook_castle other_rook)] bd
                else bd),
          halfmove_clock_from_prev]"

definition castle_white_king_side :: make_move_fn where
  "castle_white_king_side from to =
     castle_body board_white_king board_white_rook board_white_rook_castle
       zobrist_white_king zobrist_white_rook zobrist_white_rook_castle E1 G1 H1 F1 A1"

definition castle_white_queen_side :: make_move_fn where
  "castle_white_queen_side from to =
     castle_body board_white_king board_white_rook board_white_rook_castle
       zobrist_white_king zobrist_white_rook zobrist_white_rook_castle E1 C1 A1 D1 H1"

definition castle_black_king_side :: make_move_fn where
  "castle_black_king_side from to =
     castle_body board_black_king board_black_rook board_black_rook_castle
       zobrist_black_king zobrist_black_rook zobrist_black_rook_castle E8 G8 H8 F8 A8"

definition castle_black_queen_side :: make_move_fn where
  "castle_black_queen_side from to =
     castle_body board_black_king board_black_rook board_black_rook_castle
       zobrist_black_king zobrist_black_rook zobrist_black_rook_castle E8 C8 A8 D8 H8"

section \<open>En passant (enpassant.c)\<close>

text \<open>\<open>index = squares[victim].index; nr_pieces = active.nr_pieces - 1;
  other = active.pieces[nr_pieces]; PUSH_UNDO(other); ...\<close>\<close>

definition remove_victim :: "int \<Rightarrow> board \<Rightarrow> board" where
  "remove_victim victim bd =
     (let idx = index (squares bd victim);
          nr = nr_pieces (active (cur bd)) - 1;
          other = pieces (active (cur bd)) nr
      in seq [PUSH_UNDO other, close_piece_list nr other idx] bd)"

definition enpassant_with_white_pawn :: make_move_fn where
  "enpassant_with_white_pawn from to =
     (let victim = to + BOARD_VECTOR_SOUTH
      in seq [hash_from_prev (data_zobrist zobrist_white_pawn from XOR
                              data_zobrist zobrist_white_pawn to XOR
                              data_zobrist zobrist_black_pawn victim),
              xor_pawn_king_hash (data_zobrist zobrist_white_pawn from XOR
                                  data_zobrist zobrist_white_pawn to XOR
                                  data_zobrist zobrist_black_pawn victim),
              sub_material_key (data_material_key board_black_pawn),
              toggle_rays Passive 0 to,
              toggle_rays Active 0 to,
              xor_white_pawn Passive to,
              (\<lambda>bd. set_list Passive (index (squares bd from)) to bd),
              copy_square to from,
              toggle_rays Passive 0 victim,
              toggle_rays Active 0 victim,
              xor_black_pawn Active victim,
              remove_victim victim,
              PUSH_UNDO victim,
              set_piece victim board_empty,
              set_index victim 0,
              toggle_rays Passive 0 from,
              toggle_rays Active 0 from,
              xor_white_pawn Passive from,
              set_piece from board_empty,
              set_index from 0])"

definition enpassant_with_black_pawn :: make_move_fn where
  "enpassant_with_black_pawn from to =
     (let victim = to + BOARD_VECTOR_NORTH
      in seq [hash_from_prev (data_zobrist zobrist_black_pawn from XOR
                              data_zobrist zobrist_black_pawn to XOR
                              data_zobrist zobrist_white_pawn victim),
              xor_pawn_king_hash (data_zobrist zobrist_black_pawn from XOR
                                  data_zobrist zobrist_black_pawn to XOR
                                  data_zobrist zobrist_white_pawn victim),
              sub_material_key (data_material_key board_white_pawn),
              toggle_rays Passive 0 to,
              toggle_rays Active 0 to,
              xor_black_pawn Passive to,
              (\<lambda>bd. set_list Passive (index (squares bd from)) to bd),
              copy_square to from,
              toggle_rays Passive 0 victim,
              toggle_rays Active 0 victim,
              xor_white_pawn Active victim,
              remove_victim victim,
              PUSH_UNDO victim,
              set_piece victim board_empty,
              set_index victim 0,
              toggle_rays Passive 0 from,
              toggle_rays Active 0 from,
              xor_black_pawn Passive from,
              set_piece from board_empty,
              set_index from 0])"

section \<open>Promotions (promote.c)\<close>

text \<open>\<open>bd->current->undo[UNDO_TO].square = to; bd->current->undo[UNDO_TO].piece =
  bd->squares[to];\<close> repairs the entry \<open>board_make_move\<close> logged for the encoded square.\<close>

definition repair_undo_to :: "int \<Rightarrow> board \<Rightarrow> board" where
  "repair_undo_to to bd =
     upd_cur (\<lambda>f. f\<lparr>undo := (undo f)(UNDO_TO :=
       \<lparr>square = to, undo_piece = squares bd to\<rparr>)\<rparr>) bd"

text \<open>\<open>bd->current->undo[bd->current->undo_len].piece.piece = bd->squares[to].piece;\<close>
  the mark left in the slot after the last undo entry.\<close>

definition mark_promotion_piece :: "int \<Rightarrow> board \<Rightarrow> board" where
  "mark_promotion_piece to bd =
     upd_cur (\<lambda>f. f\<lparr>undo := (undo f)(undo_len f :=
       (undo f (undo_len f))\<lparr>undo_piece :=
         (undo_piece (undo f (undo_len f)))\<lparr>piece := piece (squares bd to)\<rparr>\<rparr>)\<rparr>) bd"

text \<open>The scan of the knight promotions:
  \<open>for (knight=1; knight<index; knight++) { sq = passive.pieces[knight];
  if (squares[sq].piece == own_knight) continue; ...swap...; break; }\<close>.
  \<open>first_non_knight\<close> is the value of \<open>knight\<close> at the \<open>break\<close>, or \<open>index\<close> when the loop
  runs out.\<close>

function first_non_knight :: "board \<Rightarrow> int \<Rightarrow> int \<Rightarrow> int \<Rightarrow> int" where
  "first_non_knight bd own_knight idx knight =
     (if knight < idx then
        (if piece (squares bd (pieces (passive' (cur bd)) knight)) = own_knight
         then first_non_knight bd own_knight idx (knight + 1)
         else knight)
      else idx)"
  by pat_completeness auto

termination
  by (relation "measure (\<lambda>(bd, own_knight, idx, knight). nat (idx - knight))") auto

definition bring_knight_up_front :: "int \<Rightarrow> int \<Rightarrow> int \<Rightarrow> board \<Rightarrow> board" where
  "bring_knight_up_front own_knight from to bd =
     (let idx = index (squares bd from);
          knight = first_non_knight bd own_knight idx 1
      in if knight < idx then
           (let sq = pieces (passive' (cur bd)) knight
            in seq [PUSH_UNDO sq,
                    set_index to knight,
                    set_index sq idx,
                    set_list Passive knight to,
                    set_list Passive idx sq] bd)
         else bd)"

definition promote_white_queen :: make_move_fn where
  "promote_white_queen from to0 =
     (let to = to0 XOR XOR_PROM_QUEEN
      in seq [repair_undo_to to,
              hash_from_prev (data_zobrist zobrist_white_pawn from XOR
                              data_zobrist zobrist_white_queen to),
              xor_pawn_king_hash (data_zobrist zobrist_white_pawn from),
              add_material_key (data_material_key board_white_queen -
                                data_material_key board_white_pawn),
              (if BOARD_FILE to = BOARD_FILE from
               then seq [toggle_rays Passive BOARD_ATTACK_QUEEN to,
                         toggle_rays Active 0 to]
               else seq [take_piece to,
                         xor_rays Passive to (BOARD_ATTACK_QUEEN AND data_kingtab to)]),
              (\<lambda>bd. set_list Passive (index (squares bd from)) to bd),
              (\<lambda>bd. set_index to (index (squares bd from)) bd),
              set_piece to board_white_queen,
              toggle_rays Passive 0 from,
              toggle_rays Active 0 from,
              xor_white_pawn Passive from,
              xor_last_rank_pawns Passive from,
              set_piece from board_empty,
              set_index from 0,
              mark_promotion_piece to])"

definition promote_white_rook :: make_move_fn where
  "promote_white_rook from to0 =
     (let to = to0 XOR XOR_PROM_ROOK
      in seq [repair_undo_to to,
              hash_from_prev (data_zobrist zobrist_white_pawn from XOR
                              data_zobrist zobrist_white_rook to),
              xor_pawn_king_hash (data_zobrist zobrist_white_pawn from),
              add_material_key (data_material_key board_white_rook -
                                data_material_key board_white_pawn),
              (if BOARD_FILE to = BOARD_FILE from
               then seq [toggle_rays Passive BOARD_ATTACK_ROOK to,
                         toggle_rays Active 0 to]
               else seq [take_piece to,
                         xor_rays Passive to (BOARD_ATTACK_ROOK AND data_kingtab to)]),
              (\<lambda>bd. set_list Passive (index (squares bd from)) to bd),
              (\<lambda>bd. set_index to (index (squares bd from)) bd),
              set_piece to board_white_rook,
              toggle_rays Passive 0 from,
              toggle_rays Active 0 from,
              xor_white_pawn Passive from,
              xor_last_rank_pawns Passive from,
              set_piece from board_empty,
              set_index from 0,
              mark_promotion_piece to])"

definition promote_white_bishop :: make_move_fn where
  "promote_white_bishop from to0 =
     (let to = to0 XOR XOR_PROM_BISHOP
      in seq [repair_undo_to to,
              hash_from_prev (data_zobrist zobrist_white_pawn from XOR
                              data_zobrist zobrist_white_bishop to),
              xor_pawn_king_hash (data_zobrist zobrist_white_pawn from),
              add_material_key
                (data_material_key (if BOARD_SQUARE_IS_LIGHT to
                                    then board_white_bishop_light
                                    else board_white_bishop_dark) -
                 data_material_key board_white_pawn),
              (if BOARD_FILE to = BOARD_FILE from
               then seq [toggle_rays Passive BOARD_ATTACK_BISHOP to,
                         toggle_rays Active 0 to]
               else seq [take_piece to,
                         xor_rays Passive to (BOARD_ATTACK_BISHOP AND data_kingtab to)]),
              (\<lambda>bd. set_list Passive (index (squares bd from)) to bd),
              xor_bishop_diagonals Passive (data_bishop_diagonals to),
              (\<lambda>bd. set_index to (index (squares bd from)) bd),
              set_piece to (if BOARD_SQUARE_IS_LIGHT to
                            then board_white_bishop_light
                            else board_white_bishop_dark),
              toggle_rays Passive 0 from,
              toggle_rays Active 0 from,
              xor_white_pawn Passive from,
              xor_last_rank_pawns Passive from,
              set_piece from board_empty,
              set_index from 0,
              mark_promotion_piece to])"

definition promote_white_knight :: make_move_fn where
  "promote_white_knight from to0 =
     (let to = to0 XOR XOR_PROM_KNIGHT
      in seq [repair_undo_to to,
              hash_from_prev (data_zobrist zobrist_white_pawn from XOR
                              data_zobrist zobrist_white_knight to),
              xor_pawn_king_hash (data_zobrist zobrist_white_pawn from),
              add_material_key (data_material_key board_white_knight -
                                data_material_key board_white_pawn),
              (if BOARD_FILE to = BOARD_FILE from
               then seq [toggle_rays Passive 0 to,
                         toggle_rays Active 0 to]
               else take_piece to),
              add_knight Passive to,
              (\<lambda>bd. set_list Passive (index (squares bd from)) to bd),
              (\<lambda>bd. set_index to (index (squares bd from)) bd),
              set_piece to board_white_knight,
              bring_knight_up_front board_white_knight from to,
              toggle_rays Passive 0 from,
              toggle_rays Active 0 from,
              xor_white_pawn Passive from,
              xor_last_rank_pawns Passive from,
              set_piece from board_empty,
              set_index from 0,
              mark_promotion_piece to])"

definition promote_black_queen :: make_move_fn where
  "promote_black_queen from to0 =
     (let to = to0 XOR XOR_PROM_QUEEN
      in seq [repair_undo_to to,
              hash_from_prev (data_zobrist zobrist_black_pawn from XOR
                              data_zobrist zobrist_black_queen to),
              xor_pawn_king_hash (data_zobrist zobrist_black_pawn from),
              add_material_key (data_material_key board_black_queen -
                                data_material_key board_black_pawn),
              (if BOARD_FILE to = BOARD_FILE from
               then seq [toggle_rays Passive BOARD_ATTACK_QUEEN to,
                         toggle_rays Active 0 to]
               else seq [take_piece to,
                         xor_rays Passive to (BOARD_ATTACK_QUEEN AND data_kingtab to)]),
              (\<lambda>bd. set_list Passive (index (squares bd from)) to bd),
              (\<lambda>bd. set_index to (index (squares bd from)) bd),
              set_piece to board_black_queen,
              toggle_rays Passive 0 from,
              toggle_rays Active 0 from,
              xor_black_pawn Passive from,
              xor_last_rank_pawns Passive from,
              set_piece from board_empty,
              set_index from 0,
              mark_promotion_piece to])"

definition promote_black_rook :: make_move_fn where
  "promote_black_rook from to0 =
     (let to = to0 XOR XOR_PROM_ROOK
      in seq [repair_undo_to to,
              hash_from_prev (data_zobrist zobrist_black_pawn from XOR
                              data_zobrist zobrist_black_rook to),
              xor_pawn_king_hash (data_zobrist zobrist_black_pawn from),
              add_material_key (data_material_key board_black_rook -
                                data_material_key board_black_pawn),
              (if BOARD_FILE to = BOARD_FILE from
               then seq [toggle_rays Passive BOARD_ATTACK_ROOK to,
                         toggle_rays Active 0 to]
               else seq [take_piece to,
                         xor_rays Passive to (BOARD_ATTACK_ROOK AND data_kingtab to)]),
              (\<lambda>bd. set_list Passive (index (squares bd from)) to bd),
              (\<lambda>bd. set_index to (index (squares bd from)) bd),
              set_piece to board_black_rook,
              toggle_rays Passive 0 from,
              toggle_rays Active 0 from,
              xor_black_pawn Passive from,
              xor_last_rank_pawns Passive from,
              set_piece from board_empty,
              set_index from 0,
              mark_promotion_piece to])"

definition promote_black_bishop :: make_move_fn where
  "promote_black_bishop from to0 =
     (let to = to0 XOR XOR_PROM_BISHOP
      in seq [repair_undo_to to,
              hash_from_prev (data_zobrist zobrist_black_pawn from XOR
                              data_zobrist zobrist_black_bishop to),
              xor_pawn_king_hash (data_zobrist zobrist_black_pawn from),
              add_material_key
                (data_material_key (if BOARD_SQUARE_IS_LIGHT to
                                    then board_black_bishop_light
                                    else board_black_bishop_dark) -
                 data_material_key board_black_pawn),
              (if BOARD_FILE to = BOARD_FILE from
               then seq [toggle_rays Passive BOARD_ATTACK_BISHOP to,
                         toggle_rays Active 0 to]
               else seq [take_piece to,
                         xor_rays Passive to (BOARD_ATTACK_BISHOP AND data_kingtab to)]),
              (\<lambda>bd. set_list Passive (index (squares bd from)) to bd),
              xor_bishop_diagonals Passive (data_bishop_diagonals to),
              (\<lambda>bd. set_index to (index (squares bd from)) bd),
              set_piece to (if BOARD_SQUARE_IS_LIGHT to
                            then board_black_bishop_light
                            else board_black_bishop_dark),
              toggle_rays Passive 0 from,
              toggle_rays Active 0 from,
              xor_black_pawn Passive from,
              xor_last_rank_pawns Passive from,
              set_piece from board_empty,
              set_index from 0,
              mark_promotion_piece to])"

definition promote_black_knight :: make_move_fn where
  "promote_black_knight from to0 =
     (let to = to0 XOR XOR_PROM_KNIGHT
      in seq [repair_undo_to to,
              hash_from_prev (data_zobrist zobrist_black_pawn from XOR
                              data_zobrist zobrist_black_knight to),
              xor_pawn_king_hash (data_zobrist zobrist_black_pawn from),
              add_material_key (data_material_key board_black_knight -
                                data_material_key board_black_pawn),
              (if BOARD_FILE to = BOARD_FILE from
               then seq [toggle_rays Passive 0 to,
                         toggle_rays Active 0 to]
               else take_piece to),
              add_knight Passive to,
              (\<lambda>bd. set_list Passive (index (squares bd from)) to bd),
              (\<lambda>bd. set_index to (index (squares bd from)) bd),
              set_piece to board_black_knight,
              bring_knight_up_front board_black_knight from to,
              toggle_rays Passive 0 from,
              toggle_rays Active 0 from,
              xor_black_pawn Passive from,
              xor_last_rank_pawns Passive from,
              set_piece from board_empty,
              set_index from 0,
              mark_promotion_piece to])"

section \<open>Static exchange evaluation (exchange.h, exchange.c)\<close>

text \<open>
  C \<open>int\<close> values are modelled as \<open>int\<close>; every quantity of the exchange evaluator stays
  far below 2^31. The C operators \<open>%\<close> and \<open>/\<close> truncate towards zero and are written
  \<open>smod\<close> and \<open>sdiv\<close>. An \<open>assert\<close> of the source is a branch returning \<open>None\<close>.
  The lookup table \<open>exchange_table\<close> and the miss counter are the state threaded
  through \<open>exchange_evaluate_fn\<close>.
\<close>

definition EXCHANGE_UNIT :: int where "EXCHANGE_UNIT = 0x0100"

definition EXCHANGE_LIST_PAWN :: int where "EXCHANGE_LIST_PAWN = 1"

definition EXCHANGE_LIST_MINOR :: int where "EXCHANGE_LIST_MINOR = 1*3"

definition EXCHANGE_LIST_ROOK :: int where "EXCHANGE_LIST_ROOK = 1*3*12"

definition EXCHANGE_LIST_ROYAL :: int where "EXCHANGE_LIST_ROYAL = 1*3*12*11"

definition EXCHANGE_LAST_RANK :: int where "EXCHANGE_LAST_RANK = push_bit 12 1"

definition RANGE_PAWN :: int where "RANGE_PAWN = 1+2"

definition RANGE_MINOR :: int where "RANGE_MINOR = 1+11"

definition RANGE_ROOK :: int where "RANGE_ROOK = 1+10"

definition next_upfront :: "int \<Rightarrow> int option" where
  "next_upfront defenders =
     (if defenders = 0 then None
      else let d = defenders in
      if d smod RANGE_PAWN \<noteq> 0 then Some (defenders + push_bit 13 0 - EXCHANGE_LIST_PAWN)
      else let d = d sdiv RANGE_PAWN in
        if d smod RANGE_MINOR \<noteq> 0 then Some (defenders + push_bit 13 1 - EXCHANGE_LIST_MINOR)
        else let d = d sdiv RANGE_MINOR in
          if d smod RANGE_ROOK \<noteq> 0 then Some (defenders + push_bit 13 2 - EXCHANGE_LIST_ROOK)
          else if d sdiv RANGE_ROOK = 0 then None
          else Some (defenders + push_bit 13 3 - EXCHANGE_LIST_ROYAL))"

record exchange_cache =
  exchange_table :: "int \<Rightarrow> int"
  board_exchange_table_miss_counter :: int

definition victim_value :: "int \<Rightarrow> int" where
  "victim_value i =
     (if i = 0 then 1 * EXCHANGE_UNIT
      else if i = 1 then 3 * EXCHANGE_UNIT
      else if i = 2 then 5 * EXCHANGE_UNIT
      else 9 * EXCHANGE_UNIT)"

definition exchange_input_check :: "int \<Rightarrow> int \<Rightarrow> bool" where
  "exchange_input_check defenders attackers \<longleftrightarrow>
     defenders \<noteq> 0 \<and>
     defenders AND 0x1fff = defenders \<and>
     attackers AND 0x7fff = attackers \<and>
     defenders AND attackers AND EXCHANGE_LAST_RANK = 0"

definition select_next_capturer :: "int \<Rightarrow> int \<Rightarrow> (int \<times> int) option" where
  "select_next_capturer result defenders =
     (if defenders AND EXCHANGE_LAST_RANK \<noteq> 0 then
        (let sw = (defenders AND 0x0fff) smod RANGE_PAWN in
         if sw = 0 then
           (case next_upfront (defenders AND NOT EXCHANGE_LAST_RANK) of
              None \<Rightarrow> None
            | Some d \<Rightarrow> Some (result, d))
         else if sw = 1 then
           (let d = defenders + (push_bit 13 3 - EXCHANGE_LIST_PAWN - EXCHANGE_LAST_RANK) in
            if d AND EXCHANGE_LAST_RANK = 0 then Some (result + 8 * EXCHANGE_UNIT, d) else None)
         else
           (let d = defenders + (push_bit 13 3 - EXCHANGE_LIST_PAWN) in
            if d AND EXCHANGE_LAST_RANK \<noteq> 0 then Some (result + 8 * EXCHANGE_UNIT, d) else None))
      else
        (case next_upfront defenders of
           None \<Rightarrow> None
         | Some d \<Rightarrow> if d \<ge> 0 then Some (result, d) else None))"

definition exchange_hash :: "int \<Rightarrow> int \<Rightarrow> int" where
  "exchange_hash defenders attackers =
     push_bit 3 (defenders AND 0x0fff) XOR defenders XOR attackers"

definition exchange_hash_check :: "int \<Rightarrow> int \<Rightarrow> bool" where
  "exchange_hash_check defenders attackers \<longleftrightarrow>
     (let store = defenders AND 0x0fff; hash = exchange_hash defenders attackers in
      hash \<ge> 0 \<and> hash < 0x8000 \<and>
      (hash XOR push_bit 3 store) AND EXCHANGE_LAST_RANK =
        (attackers XOR defenders) AND EXCHANGE_LAST_RANK \<and>
      (hash XOR push_bit 3 store XOR store) AND NOT EXCHANGE_LAST_RANK =
        attackers AND NOT EXCHANGE_LAST_RANK)"

definition stand_pat :: "int \<Rightarrow> int" where
  "stand_pat result = (if result < 0 then 0 else result)"

definition clip_and_store ::
  "exchange_cache \<Rightarrow> int \<Rightarrow> int \<Rightarrow> int \<Rightarrow> (int \<times> exchange_cache) option" where
  "clip_and_store c hash store result =
     (if \<not> result \<ge> 0 then None
      else let result = (if result > 14 * EXCHANGE_UNIT then 14 * EXCHANGE_UNIT else result) in
        Some (result,
          c\<lparr>exchange_table :=
              (exchange_table c)(hash := (push_bit 4 result OR store) AND 0xffff)\<rparr>))"

definition count_miss :: "exchange_cache \<Rightarrow> exchange_cache" where
  "count_miss c =
     c\<lparr>board_exchange_table_miss_counter := board_exchange_table_miss_counter c + 1\<rparr>"

function exchange_evaluate_fn ::
  "exchange_cache \<Rightarrow> int \<Rightarrow> int \<Rightarrow> (int \<times> exchange_cache) option" where
  "exchange_evaluate_fn c defenders attackers =
     (if \<not> (exchange_input_check defenders attackers \<and>
             exchange_hash_check defenders attackers) then None
      else if (exchange_table c (exchange_hash defenders attackers) XOR defenders) AND 0x0fff = 0
        then Some (drop_bit 4 (exchange_table c (exchange_hash defenders attackers) AND 0xf000), c)
      else if defenders = EXCHANGE_LAST_RANK then Some (0, count_miss c)
      else
        (case select_next_capturer (victim_value (drop_bit 13 attackers)) defenders of
           None \<Rightarrow> None
         | Some (result, defenders') \<Rightarrow>
             if attackers AND 0x1fff \<noteq> 0 then
               (case exchange_evaluate_fn (count_miss c) (attackers AND 0x1fff) defenders' of
                  None \<Rightarrow> None
                | Some (reply, c') \<Rightarrow>
                    clip_and_store c' (exchange_hash defenders attackers)
                      (defenders AND 0x0fff) (stand_pat (result - reply)))
             else
               clip_and_store (count_miss c) (exchange_hash defenders attackers)
                 (defenders AND 0x0fff) result))"
  by pat_completeness auto

definition cache_ok :: "exchange_cache \<Rightarrow> bool" where
  "cache_ok c \<longleftrightarrow> (\<forall>h. 0 \<le> exchange_table c h \<and> exchange_table c h < 0xf000)"

text \<open>The table states the program can be in: zero-initialised static storage, then any
  sequence of evaluations and resets.\<close>

definition exchange_reset_caches :: "exchange_cache \<Rightarrow> exchange_cache" where
  "exchange_reset_caches c = c\<lparr>exchange_table := (\<lambda>_. 0)\<rparr>"

definition exchange_reset_stats :: "exchange_cache \<Rightarrow> exchange_cache" where
  "exchange_reset_stats c = c\<lparr>board_exchange_table_miss_counter := 0\<rparr>"

definition exchange_cache_initial :: exchange_cache where
  "exchange_cache_initial =
     \<lparr>exchange_table = (\<lambda>_. 0), board_exchange_table_miss_counter = 0\<rparr>"

inductive cache_reachable :: "exchange_cache \<Rightarrow> bool" where
  initial: "cache_reachable exchange_cache_initial"
| evaluated: "cache_reachable c \<Longrightarrow> exchange_evaluate_fn c d a = Some (r, c') \<Longrightarrow>
     cache_reachable c'"
| reset_caches: "cache_reachable c \<Longrightarrow> cache_reachable (exchange_reset_caches c)"
| reset_stats: "cache_reachable c \<Longrightarrow> cache_reachable (exchange_reset_stats c)"

text \<open>The inline wrapper of exchange.h: the caller packs the defenders into the high half.\<close>

definition exchange_evaluate ::
  "exchange_cache \<Rightarrow> int \<Rightarrow> int \<Rightarrow> (int \<times> exchange_cache) option" where
  "exchange_evaluate c defenders attackers =
     (let attackers = (attackers + defenders) AND 0xffff;
          defenders = drop_bit 16 defenders
      in if defenders = 0 then Some (0, c)
         else exchange_evaluate_fn c defenders attackers)"

section \<open>The move making functions the generator hands out\<close>

text \<open>
  A generated move carries a pointer to the function that makes it. generate.c stores
  45 different functions in that field; \<open>maker\<close> names them and \<open>maker_fn\<close> is the
  function a name stands for.
\<close>

datatype maker =
    Capture_with_king
  | Capture_with_white_king_castle
  | Capture_with_black_king_castle
  | Capture_with_queen
  | Capture_with_rook
  | Capture_with_white_rook_castle
  | Capture_with_black_rook_castle
  | Capture_with_bishop
  | Capture_with_knight
  | Capture_with_white_pawn
  | Capture_with_black_pawn
  | Castle_white_king_side
  | Castle_white_queen_side
  | Castle_black_king_side
  | Castle_black_queen_side
  | Enpassant_with_white_pawn
  | Enpassant_with_black_pawn
  | Move_white_king
  | Move_black_king
  | Move_white_king_castle
  | Move_black_king_castle
  | Move_white_queen
  | Move_black_queen
  | Move_white_rook
  | Move_black_rook
  | Move_white_rook_castle
  | Move_black_rook_castle
  | Move_white_bishop
  | Move_black_bishop
  | Move_white_knight
  | Move_black_knight
  | Move_white_pawn_rank2_to_3
  | Move_white_pawn_rank2_to_4
  | Move_white_pawn
  | Move_black_pawn_rank7_to_6
  | Move_black_pawn_rank7_to_5
  | Move_black_pawn
  | Promote_white_queen
  | Promote_white_rook
  | Promote_white_bishop
  | Promote_white_knight
  | Promote_black_queen
  | Promote_black_rook
  | Promote_black_bishop
  | Promote_black_knight

primrec maker_fn :: "maker \<Rightarrow> make_move_fn" where
  "maker_fn Capture_with_king = capture_with_king"
| "maker_fn Capture_with_white_king_castle = capture_with_white_king_castle"
| "maker_fn Capture_with_black_king_castle = capture_with_black_king_castle"
| "maker_fn Capture_with_queen = capture_with_queen"
| "maker_fn Capture_with_rook = capture_with_rook"
| "maker_fn Capture_with_white_rook_castle = capture_with_white_rook_castle"
| "maker_fn Capture_with_black_rook_castle = capture_with_black_rook_castle"
| "maker_fn Capture_with_bishop = capture_with_bishop"
| "maker_fn Capture_with_knight = capture_with_knight"
| "maker_fn Capture_with_white_pawn = capture_with_white_pawn"
| "maker_fn Capture_with_black_pawn = capture_with_black_pawn"
| "maker_fn Castle_white_king_side = castle_white_king_side"
| "maker_fn Castle_white_queen_side = castle_white_queen_side"
| "maker_fn Castle_black_king_side = castle_black_king_side"
| "maker_fn Castle_black_queen_side = castle_black_queen_side"
| "maker_fn Enpassant_with_white_pawn = enpassant_with_white_pawn"
| "maker_fn Enpassant_with_black_pawn = enpassant_with_black_pawn"
| "maker_fn Move_white_king = move_white_king"
| "maker_fn Move_black_king = move_black_king"
| "maker_fn Move_white_king_castle = move_white_king_castle"
| "maker_fn Move_black_king_castle = move_black_king_castle"
| "maker_fn Move_white_queen = move_white_queen"
| "maker_fn Move_black_queen = move_black_queen"
| "maker_fn Move_white_rook = move_white_rook"
| "maker_fn Move_black_rook = move_black_rook"
| "maker_fn Move_white_rook_castle = move_white_rook_castle"
| "maker_fn Move_black_rook_castle = move_black_rook_castle"
| "maker_fn Move_white_bishop = move_white_bishop"
| "maker_fn Move_black_bishop = move_black_bishop"
| "maker_fn Move_white_knight = move_white_knight"
| "maker_fn Move_black_knight = move_black_knight"
| "maker_fn Move_white_pawn_rank2_to_3 = move_white_pawn_rank2_to_3"
| "maker_fn Move_white_pawn_rank2_to_4 = move_white_pawn_rank2_to_4"
| "maker_fn Move_white_pawn = move_white_pawn"
| "maker_fn Move_black_pawn_rank7_to_6 = move_black_pawn_rank7_to_6"
| "maker_fn Move_black_pawn_rank7_to_5 = move_black_pawn_rank7_to_5"
| "maker_fn Move_black_pawn = move_black_pawn"
| "maker_fn Promote_white_queen = promote_white_queen"
| "maker_fn Promote_white_rook = promote_white_rook"
| "maker_fn Promote_white_bishop = promote_white_bishop"
| "maker_fn Promote_white_knight = promote_white_knight"
| "maker_fn Promote_black_queen = promote_black_queen"
| "maker_fn Promote_black_rook = promote_black_rook"
| "maker_fn Promote_black_bishop = promote_black_bishop"
| "maker_fn Promote_black_knight = promote_black_knight"

text \<open>The makers that leave the clock at the 0 that \<open>board_make_move\<close> wrote: captures,
  en passant, promotions and pawn moves. Every other maker ends with
  \<open>bd->current->halfmove_clock = bd->current[-1].halfmove_clock + 1\<close>.\<close>

fun keeps_clock_reset :: "maker \<Rightarrow> bool" where
  "keeps_clock_reset Move_white_king = False"
| "keeps_clock_reset Move_black_king = False"
| "keeps_clock_reset Move_white_king_castle = False"
| "keeps_clock_reset Move_black_king_castle = False"
| "keeps_clock_reset Move_white_queen = False"
| "keeps_clock_reset Move_black_queen = False"
| "keeps_clock_reset Move_white_rook = False"
| "keeps_clock_reset Move_black_rook = False"
| "keeps_clock_reset Move_white_rook_castle = False"
| "keeps_clock_reset Move_black_rook_castle = False"
| "keeps_clock_reset Move_white_bishop = False"
| "keeps_clock_reset Move_black_bishop = False"
| "keeps_clock_reset Move_white_knight = False"
| "keeps_clock_reset Move_black_knight = False"
| "keeps_clock_reset Castle_white_king_side = False"
| "keeps_clock_reset Castle_white_queen_side = False"
| "keeps_clock_reset Castle_black_king_side = False"
| "keeps_clock_reset Castle_black_queen_side = False"
| "keeps_clock_reset _ = True"

section \<open>How many undo entries a transition pushes\<close>

text \<open>\<open>pushes_at_most n stmt\<close>: the statement never shortens the undo log of the current
  frame and lengthens it by at most \<open>n\<close> entries.\<close>

definition pushes_at_most :: "int \<Rightarrow> (board \<Rightarrow> board) \<Rightarrow> bool" where
  "pushes_at_most n stmt =
     (\<forall>bd. undo_len (cur bd) \<le> undo_len (cur (stmt bd)) \<and>
           undo_len (cur (stmt bd)) \<le> undo_len (cur bd) + n)"

text \<open>The promotion functions.\<close>

fun is_promotion :: "maker \<Rightarrow> bool" where
  "is_promotion Promote_white_queen = True"
| "is_promotion Promote_white_rook = True"
| "is_promotion Promote_white_bishop = True"
| "is_promotion Promote_white_knight = True"
| "is_promotion Promote_black_queen = True"
| "is_promotion Promote_black_rook = True"
| "is_promotion Promote_black_bishop = True"
| "is_promotion Promote_black_knight = True"
| "is_promotion _ = False"

definition make_prologue :: "board \<Rightarrow> board_move \<Rightarrow> board" where
  "make_prologue bd mv =
     (let frame = current bd;
          f0 = stack bd frame;
          bd = bd\<lparr>stack := (stack bd)(frame + 1 :=
                 (stack bd (frame + 1))
                   \<lparr>active := passive' f0,
                    passive' := active f0,
                    halfmove_clock := 0,
                    pawn_king_hash := pawn_king_hash f0,
                    material_key := material_key f0\<rparr>)\<rparr>;
          bd = bd\<lparr>current := frame + 1\<rparr>;
          bd = upd_cur (\<lambda>f. f\<lparr>node_counter := node_counter f + 1\<rparr>) bd;
          from = MOVE_FROM (move mv);
          to = MOVE_TO (move mv)
      in upd_cur (\<lambda>f. f\<lparr>undo_len := 2,
                  undo := ((undo f)
                    (UNDO_FROM := \<lparr>square = from, undo_piece = squares bd from\<rparr>))
                    (UNDO_TO := \<lparr>square = to, undo_piece = squares bd to\<rparr>)\<rparr>) bd)"

section \<open>Attack tables from scratch (layout.c)\<close>

text \<open>\<open>calc_attacks\<close>: clear the table, then add the attacks of every piece of the colour,
  in square order. The \<open>default\<close> branch of its \<open>switch\<close> raises ERR_INTERNAL, here
  \<open>None\<close>.\<close>

definition calc_attacks_piece ::
  "board \<Rightarrow> int \<Rightarrow> int \<Rightarrow> board_side \<Rightarrow> board_side option" where
  "calc_attacks_piece bd sq pc side =
     (if pc = board_white_king \<or> pc = board_black_king \<or>
         pc = board_white_king_castle \<or> pc = board_black_king_castle
      then Some (attack_xor_king side sq)
      else if pc = board_white_queen \<or> pc = board_black_queen
      then Some (attack_xor_rays side bd sq (BOARD_ATTACK_QUEEN AND data_kingtab sq))
      else if pc = board_white_rook \<or> pc = board_black_rook \<or>
              pc = board_white_rook_castle \<or> pc = board_black_rook_castle
      then Some (attack_xor_rays side bd sq (BOARD_ATTACK_ROOK AND data_kingtab sq))
      else if pc = board_white_bishop_light \<or> pc = board_black_bishop_light \<or>
              pc = board_white_bishop_dark \<or> pc = board_black_bishop_dark
      then Some (attack_xor_rays side bd sq (BOARD_ATTACK_BISHOP AND data_kingtab sq))
      else if pc = board_white_knight \<or> pc = board_black_knight
      then Some (attack_add_knight side sq)
      else if pc = board_white_pawn \<or> pc = board_white_pawn_rank2 \<or>
              pc = board_white_pawn_rank7
      then Some (attack_xor_white_pawn side sq)
      else if pc = board_black_pawn \<or> pc = board_black_pawn_rank7 \<or>
              pc = board_black_pawn_rank2
      then Some (attack_xor_black_pawn side sq)
      else None)"

definition calc_attacks :: "board \<Rightarrow> board_side \<Rightarrow> int \<Rightarrow> board_side option" where
  "calc_attacks bd side color' =
     fold (\<lambda>sq r. case r of
                     None \<Rightarrow> None
                   | Some s \<Rightarrow>
                       (let pc = piece (squares bd sq)
                        in if BOARD_PIECE_COLOR pc \<noteq> color' then Some s
                           else calc_attacks_piece bd sq pc s))
       [0..BOARD_SIZE - 1] (Some (side\<lparr>attacks := (\<lambda>sq. 0)\<rparr>))"

section \<open>An example position\<close>

text \<open>
  White to move: king e1 and rook h1 with the castling right, a pawn on b7. Black: king e8
  and rook a8 with the castling right. The root frame is \<open>stack[2]\<close>, as \<open>board_clear\<close>
  leaves it; the piece lists have the king first; the attack tables are those of
  \<open>calc_attacks\<close>; the rest of the stack is zero, as after the \<open>memset\<close> of \<open>board_clear\<close>. The hashes and the material key of the root frame are left 0: no
  statement below reads them.
\<close>

definition B7 :: int where "B7 = BOARD_SQUARE BOARD_FILE_B BOARD_RANK_7"

definition empty_square :: board_square where
  "empty_square = \<lparr>piece = board_empty, index = 0\<rparr>"

definition example_squares :: "int \<Rightarrow> board_square" where
  "example_squares =
     (\<lambda>sq. empty_square)
       (E1 := \<lparr>piece = board_white_king_castle, index = 0\<rparr>,
        H1 := \<lparr>piece = board_white_rook_castle, index = 1\<rparr>,
        B7 := \<lparr>piece = board_white_pawn_rank7, index = 2\<rparr>,
        E8 := \<lparr>piece = board_black_king_castle, index = 0\<rparr>,
        A8 := \<lparr>piece = board_black_rook_castle, index = 1\<rparr>)"

definition zero_side :: board_side where
  "zero_side = \<lparr>attacks = (\<lambda>sq. 0), bishop_diagonals = 0, pieces = (\<lambda>i. 0),
                nr_pieces = 0, color = 0, last_rank_pawns = 0\<rparr>"

definition zero_frame :: board_stack_frame where
  "zero_frame = \<lparr>active = zero_side, passive' = zero_side, undo_len = 0,
                 undo = (\<lambda>i. \<lparr>square = 0, undo_piece = empty_square\<rparr>),
                 node_counter = 0, halfmove_clock = 0, en_passant_lazy = 0,
                 en_passant_node_counter = 0, board_hash_lazy = 0, pawn_king_hash = 0,
                 material_key = 0, killer_moves = (\<lambda>i. 0)\<rparr>"

text \<open>\<open>board_clear\<close>: squares and stack zeroed, the root frame at \<open>stack[2]\<close> with two
  empty sides of colour -1 whose lists hold the terminator.\<close>

definition cleared_side :: board_side where
  "cleared_side = zero_side\<lparr>pieces := (\<lambda>i. 0)(0 := - 1), nr_pieces := 0, color := - 1\<rparr>"

definition cleared_board :: board where
  "cleared_board =
     \<lparr>squares = (\<lambda>sq. empty_square), current = 2, butterfly = (\<lambda>i. 0),
      stack = (\<lambda>i. zero_frame)
        (2 := zero_frame\<lparr>active := cleared_side, passive' := cleared_side,
                         en_passant_lazy := 0, halfmove_clock := 0\<rparr>),
      extra_defenders = (\<lambda>i. 0),
      game_fullmove_number = 1, game_halfmove_clock_offset = 0\<rparr>"

text \<open>A side record over given squares: the literal list and counts, and the attack table
  of \<open>calc_attacks\<close>.\<close>

definition setup_side ::
  "(int \<Rightarrow> board_square) \<Rightarrow> int \<Rightarrow> (int \<Rightarrow> int) \<Rightarrow> int \<Rightarrow> int \<Rightarrow> board_side" where
  "setup_side sqs color' list n last_rank =
     (let side = \<lparr>attacks = (\<lambda>sq. 0), bishop_diagonals = 0, pieces = list,
                   nr_pieces = n, color = color', last_rank_pawns = last_rank\<rparr>
      in case calc_attacks (cleared_board\<lparr>squares := sqs\<rparr>) side color' of
           None \<Rightarrow> side
         | Some s \<Rightarrow> s)"

definition setup_position :: "(int \<Rightarrow> board_square) \<Rightarrow> board_side \<Rightarrow> board_side \<Rightarrow> board" where
  "setup_position sqs to_move other =
     cleared_board
       \<lparr>squares := sqs,
        stack := (\<lambda>i. zero_frame)(2 := zero_frame\<lparr>active := to_move, passive' := other\<rparr>)\<rparr>"

definition example_position :: board where
  "example_position =
     setup_position example_squares
       (setup_side example_squares board_white
          ((\<lambda>i. 0)(0 := E1, 1 := H1, 2 := B7, 3 := - 1)) 3
          (push_bit (nat (BOARD_FILE B7)) 1))
       (setup_side example_squares board_black
          ((\<lambda>i. 0)(0 := E8, 1 := A8, 2 := - 1)) 2 0)"

definition example_castling :: board_move where
  "example_castling = \<lparr>move = MOVE E1 G1, prescore = 0, make_fn = castle_white_king_side\<rparr>"

definition example_promotion :: board_move where
  "example_promotion =
     \<lparr>move = MOVE B7 (A8 XOR XOR_PROM_KNIGHT), prescore = 0, make_fn = promote_white_knight\<rparr>"

section \<open>The encoding of promotions\<close>

text \<open>The four values the generator XORs into the move word of a promotion.\<close>

definition promotion_constants :: "int list" where
  "promotion_constants = [XOR_PROM_QUEEN, XOR_PROM_ROOK, XOR_PROM_BISHOP, XOR_PROM_KNIGHT]"

section \<open>En passant generation (generate.c)\<close>

definition EXCHANGE_NEUTRAL :: int where "EXCHANGE_NEUTRAL = 0x0f00"

definition EXCHANGE_GOOD_MOVE_OFFSET :: int where
  "EXCHANGE_GOOD_MOVE_OFFSET = 0xf000 - EXCHANGE_NEUTRAL"

text \<open>The entry \<open>GENERATE_EP(from, to, move_maker)\<close> appends to the move list.\<close>

definition GENERATE_EP :: "board \<Rightarrow> int \<Rightarrow> int \<Rightarrow> make_move_fn \<Rightarrow> board_move" where
  "GENERATE_EP bd from to move_maker =
     (let move' = MOVE from to
      in \<lparr>move = move',
          prescore = butterfly bd move' OR
                     (EXCHANGE_NEUTRAL + EXCHANGE_UNIT + EXCHANGE_GOOD_MOVE_OFFSET),
          make_fn = move_maker\<rparr>)"

text \<open>\<open>do { sq += step; } while (bd->squares[sq].piece == board_empty);\<close> The loop ends at
  the first piece; \<open>None\<close> is a walk that never meets one.\<close>

partial_function (option) walk_to_piece ::
  "(int \<Rightarrow> board_square) \<Rightarrow> int \<Rightarrow> int \<Rightarrow> int option" where
  "walk_to_piece sqs step sq =
     (let sq = sq + step
      in if piece (sqs sq) = board_empty then walk_to_piece sqs step sq else Some sq)"

text \<open>
  \<open>generate_en_passant\<close> has one block for each capturing direction and colour. The four
  blocks differ in the vector and attack bit of the capture (\<open>capture_vector\<close>,
  \<open>capture_dir\<close>), the rank direction towards the captured pawn (\<open>behind\<close>), the file
  direction towards it (\<open>side_dir\<close>) and the make function; \<open>ep_candidate\<close> is the block:
  the moves it appends, or \<open>None\<close> if its walk does not end.
\<close>

definition ep_candidate ::
  "board \<Rightarrow> int \<Rightarrow> int \<Rightarrow> int \<Rightarrow> int \<Rightarrow> int \<Rightarrow> make_move_fn \<Rightarrow>
   board_move list option" where
  "ep_candidate bd to capture_vector capture_dir behind side_dir move_maker =
     (let from = to - capture_vector;
          king = pieces (active (cur bd)) 0;
          pin_dirs = attacks (passive' (cur bd)) from AND BOARD_ATTACK_QUEEN AND
                     NOT capture_dir AND NOT (BOARD_ATTACK_REVERSE capture_dir);
          pin_dirs = pin_dirs OR
                     (attacks (passive' (cur bd)) (to - behind) AND
                      BOARD_ATTACK_REVERSE side_dir);
          pin_dirs = pin_dirs AND data_sq2sq from king
      in if pin_dirs \<noteq> 0 then
           (let step = board_vector_step_compact (DEBRUIJN_INDEX pin_dirs);
                sq = (if pin_dirs = side_dir then from + step else from)
            in case walk_to_piece (squares bd) step sq of
                 None \<Rightarrow> None
               | Some sq \<Rightarrow>
                   if sq \<noteq> king then Some [GENERATE_EP bd from to move_maker]
                   else Some [])
         else Some [GENERATE_EP bd from to move_maker])"

text \<open>The function returns the moves it wrote and the position, whose frame it may have
  changed: an expired flag is cleared.\<close>

definition generate_en_passant :: "board \<Rightarrow> (board_move list \<times> board) option" where
  "generate_en_passant bd =
     (if node_counter (cur bd) \<noteq> en_passant_node_counter (cur bd)
      then Some ([], upd_cur (\<lambda>f. f\<lparr>en_passant_lazy := 0\<rparr>) bd)
      else
        (let to = en_passant_lazy (cur bd);
             east =
               (if attacks (active (cur bd)) to AND board_attack_pawn_east \<noteq> 0 then
                  (if color (active (cur bd)) = board_white
                   then ep_candidate bd to BOARD_VECTOR_NORTHEAST board_attack_northeast
                          BOARD_VECTOR_NORTH board_attack_east enpassant_with_white_pawn
                   else ep_candidate bd to BOARD_VECTOR_SOUTHEAST board_attack_southeast
                          BOARD_VECTOR_SOUTH board_attack_east enpassant_with_black_pawn)
                else Some []);
             west =
               (if attacks (active (cur bd)) to AND board_attack_pawn_west \<noteq> 0 then
                  (if color (active (cur bd)) = board_white
                   then ep_candidate bd to BOARD_VECTOR_NORTHWEST board_attack_northwest
                          BOARD_VECTOR_NORTH board_attack_west enpassant_with_white_pawn
                   else ep_candidate bd to BOARD_VECTOR_SOUTHWEST board_attack_southwest
                          BOARD_VECTOR_SOUTH board_attack_west enpassant_with_black_pawn)
                else Some [])
         in case east of
              None \<Rightarrow> None
            | Some east_moves \<Rightarrow>
                (case west of
                   None \<Rightarrow> None
                 | Some west_moves \<Rightarrow> Some (east_moves @ west_moves, bd))))"

text \<open>The guarded call
  \<open>if (bd->current->en_passant_lazy != 0) nr_moves += generate_en_passant(bd, ...);\<close>
  with which \<open>board_generate_captures_and_promotions\<close> ends. \<open>board_generate_escapes\<close>
  has the same guarded call in its two branches for a check by a pawn, and nowhere else;
  \<open>board_generate_regular_moves\<close> and \<open>board_generate_regular_checks\<close> do not call
  \<open>generate_en_passant\<close>. The entry points themselves are not part of this
  development.\<close>

definition generate_en_passant_if_set :: "board \<Rightarrow> (board_move list \<times> board) option" where
  "generate_en_passant_if_set bd =
     (if en_passant_lazy (cur bd) \<noteq> 0 then generate_en_passant bd else Some ([], bd))"

section \<open>A position with an expired en passant flag\<close>

text \<open>
  White to move: king e1, pawn a2. Black: king e8, pawn b4. White plays a2-a4, which sets
  the flag of the new frame; the move is taken back and White plays Ke1-d1 instead. The
  frame is the same one, its node counter has moved on, and the flag is still there.
\<close>

definition A2 :: int where "A2 = 1"

definition A3 :: int where "A3 = 2"

definition A4 :: int where "A4 = 3"

definition B4 :: int where "B4 = 11"

definition ep_squares :: "int \<Rightarrow> board_square" where
  "ep_squares =
     (\<lambda>sq. empty_square)
       (E1 := \<lparr>piece = board_white_king, index = 0\<rparr>,
        A2 := \<lparr>piece = board_white_pawn_rank2, index = 1\<rparr>,
        E8 := \<lparr>piece = board_black_king, index = 0\<rparr>,
        B4 := \<lparr>piece = board_black_pawn, index = 1\<rparr>)"

definition ep_position :: board where
  "ep_position =
     setup_position ep_squares
       (setup_side ep_squares board_white ((\<lambda>i. 0)(0 := E1, 1 := A2, 2 := - 1)) 2 0)
       (setup_side ep_squares board_black ((\<lambda>i. 0)(0 := E8, 1 := B4, 2 := - 1)) 2 0)"

definition double_push :: board_move where
  "double_push = \<lparr>move = MOVE A2 A4, prescore = 0, make_fn = move_white_pawn_rank2_to_4\<rparr>"

definition king_step :: board_move where
  "king_step = \<lparr>move = MOVE E1 D1, prescore = 0, make_fn = move_white_king\<rparr>"

definition stale_position :: board where
  "stale_position =
     board_make_move (board_undo_move (board_make_move ep_position double_push)) king_step"

lemmas square_defs = A1_def B1_def C1_def D1_def E1_def F1_def G1_def H1_def
  A8_def B8_def C8_def D8_def E8_def F8_def G8_def H8_def

lemmas rank_file_defs = BOARD_RANK_1_def BOARD_RANK_2_def BOARD_RANK_7_def BOARD_RANK_8_def
  BOARD_FILE_A_def BOARD_FILE_B_def BOARD_FILE_G_def BOARD_FILE_H_def

lemmas vector_defs = BOARD_VECTOR_NORTH_def BOARD_VECTOR_EAST_def BOARD_VECTOR_SOUTH_def
  BOARD_VECTOR_WEST_def BOARD_VECTOR_NORTHEAST_def BOARD_VECTOR_NORTHWEST_def
  BOARD_VECTOR_SOUTHEAST_def BOARD_VECTOR_SOUTHWEST_def

lemmas piece_defs = board_empty_def board_white_king_def board_black_king_def
  board_white_king_castle_def board_black_king_castle_def board_white_knight_def
  board_black_knight_def board_white_pawn_rank2_def board_black_pawn_rank7_def
  board_white_pawn_def board_black_pawn_def board_white_pawn_rank7_def
  board_black_pawn_rank2_def board_white_bishop_light_def board_black_bishop_light_def
  board_white_bishop_dark_def board_black_bishop_dark_def board_white_rook_def
  board_black_rook_def board_white_rook_castle_def board_black_rook_castle_def
  board_white_queen_def board_black_queen_def

lemmas attack_defs = board_attack_north_def board_attack_northeast_def board_attack_east_def
  board_attack_southeast_def board_attack_south_def board_attack_southwest_def
  board_attack_west_def board_attack_northwest_def board_attack_king_def
  board_attack_pawn_west_def board_attack_pawn_east_def board_attack_knight_def

lemmas jump_defs = jump_north_northwest_def jump_north_northeast_def jump_east_northeast_def
  jump_east_southeast_def jump_south_southwest_def jump_south_southeast_def
  jump_west_northwest_def jump_west_southwest_def

lemma and_fff: "(x::int) AND 0xfff = x mod 4096"
  using take_bit_eq_mask[of 12 x] by (simp add: take_bit_eq_mod mask_eq_exp_minus_1)

lemma and_1fff: "(x::int) AND 0x1fff = x mod 8192"
  using take_bit_eq_mask[of 13 x] by (simp add: take_bit_eq_mod mask_eq_exp_minus_1)

lemma and_7fff: "(x::int) AND 0x7fff = x mod 32768"
  using take_bit_eq_mask[of 15 x] by (simp add: take_bit_eq_mod mask_eq_exp_minus_1)

lemma smod_nonneg: "0 \<le> a \<Longrightarrow> 0 < b \<Longrightarrow> (a::int) smod b = a mod b"
  by (simp add: signed_modulo_int_def sgn_if)

lemma sdiv_nonneg: "0 \<le> a \<Longrightarrow> 0 < b \<Longrightarrow> (a::int) sdiv b = a div b"
  by (simp add: signed_divide_int_def sgn_if)

lemma and_LR: "(x::int) AND EXCHANGE_LAST_RANK = 0 \<longleftrightarrow> even (x div 4096)"
  using and_exp_eq_0_iff_not_bit[of x 12] by (simp add: EXCHANGE_LAST_RANK_def bit_iff_odd)

lemma and_not_LR: "(x::int) AND NOT EXCHANGE_LAST_RANK = x - (if odd (x div 4096) then 4096 else 0)"
proof -
  have "x AND NOT (2 ^ 12) = unset_bit 12 x" by (simp add: unset_bit_eq_and_not push_bit_eq_mult)
  also have "\<dots> = x - (if odd (x div 4096) then 4096 else 0)"
    by (simp add: unset_bit_eq bit_iff_odd)
  finally show ?thesis by (simp add: EXCHANGE_LAST_RANK_def)
qed

lemmas exch_consts = EXCHANGE_UNIT_def EXCHANGE_LIST_PAWN_def EXCHANGE_LIST_MINOR_def
  EXCHANGE_LIST_ROOK_def EXCHANGE_LIST_ROYAL_def RANGE_PAWN_def RANGE_MINOR_def RANGE_ROOK_def

lemma next_upfront_eq:
  assumes "0 < d"
  shows "next_upfront d =
     (if d mod 3 \<noteq> 0 then Some (d - 1)
      else if (d div 3) mod 12 \<noteq> 0 then Some (d + 8192 - 3)
      else if (d div 36) mod 11 \<noteq> 0 then Some (d + 16384 - 36)
      else if d div 396 = 0 then None
      else Some (d + 24576 - 396))"
proof -
  have a: "0 \<le> d" "0 \<le> d div 3" "0 \<le> d div 3 div 12" using assms by simp_all
  have b: "d div 3 div 12 = d div 36" "d div 3 div 12 div 11 = d div 396"
    by (simp_all add: div_mult2_eq[symmetric])
  show ?thesis using assms
    by (simp add: next_upfront_def Let_def exch_consts smod_nonneg sdiv_nonneg a b)
qed

lemma lowpart:
  "0 \<le> e \<Longrightarrow> e < 4096 \<Longrightarrow>
   (e + k * 4096) mod 4096 = e \<and> (e + k * 4096) div 4096 = (k::int)"
  by simp

lemma pawn_digit: "0 < d \<Longrightarrow> d mod 3 = 0 \<Longrightarrow> 3 \<le> (d::int)"
  by (cases "d < 3") auto

lemma minor_digit:
  assumes "0 < d" "d mod 3 = 0" "d div 3 mod 12 = 0"
  shows "36 \<le> (d::int) \<and> d mod 36 = 0"
proof -
  obtain a where a: "d = 3 * a" using assms(2) by (auto simp: mod_eq_0_iff_dvd elim: dvdE)
  then have "a mod 12 = 0" using assms(3) by simp
  then obtain b where b: "a = 12 * b" by (auto simp: mod_eq_0_iff_dvd elim: dvdE)
  have "d = 36 * b" using a b by simp
  moreover have "0 < b" using assms(1) calculation by simp
  ultimately show ?thesis by simp
qed

lemma rook_digit:
  assumes "0 < d" "d mod 3 = 0" "d div 3 mod 12 = 0" "d div 36 mod 11 = 0"
  shows "396 \<le> (d::int) \<and> d div 396 \<noteq> 0"
proof -
  have "d mod 36 = 0" using minor_digit[OF assms(1-3)] by simp
  then obtain b where b: "d = 36 * b" by (auto simp: mod_eq_0_iff_dvd elim: dvdE)
  then have "b mod 11 = 0" using assms(4) by simp
  then obtain c where c: "b = 11 * c" by (auto simp: mod_eq_0_iff_dvd elim: dvdE)
  have d: "d = 396 * c" using b c by simp
  moreover have "0 < c" using assms(1) d by simp
  ultimately show ?thesis by simp
qed

lemma next_upfront_shape:
  assumes "0 < d" "d < 4096" "next_upfront d = Some d'"
  shows "\<exists>e k. d' = e + k * 4096 \<and> 0 \<le> e \<and> e < d \<and> even k \<and> 0 \<le> k \<and> k \<le> 6"
proof -
  consider (p) "d mod 3 \<noteq> 0" | (m) "d mod 3 = 0" "d div 3 mod 12 \<noteq> 0"
    | (r) "d mod 3 = 0" "d div 3 mod 12 = 0" "d div 36 mod 11 \<noteq> 0"
    | (q) "d mod 3 = 0" "d div 3 mod 12 = 0" "d div 36 mod 11 = 0"
    by fastforce
  then show ?thesis
  proof cases
    case p
    then have "d' = (d - 1) + 0 * 4096" using assms(3) by (simp add: next_upfront_eq[OF assms(1)])
    then show ?thesis using assms(1) by (intro exI[of _ "d - 1"] exI[of _ 0]) simp
  next
    case m
    then have "d' = (d - 3) + 2 * 4096" using assms(3) by (simp add: next_upfront_eq[OF assms(1)])
    moreover have "3 \<le> d" using pawn_digit[OF assms(1) m(1)] .
    ultimately show ?thesis by (intro exI[of _ "d - 3"] exI[of _ 2]) simp
  next
    case r
    then have "d' = (d - 36) + 4 * 4096" using assms(3) by (simp add: next_upfront_eq[OF assms(1)])
    moreover have "36 \<le> d" using minor_digit[OF assms(1) r(1,2)] by simp
    ultimately show ?thesis by (intro exI[of _ "d - 36"] exI[of _ 4]) simp
  next
    case q
    have big: "396 \<le> d" "d div 396 \<noteq> 0" using rook_digit[OF assms(1) q] by simp_all
    then have "d' = (d - 396) + 6 * 4096" using assms(3) q
      by (simp add: next_upfront_eq[OF assms(1)])
    then show ?thesis using big by (intro exI[of _ "d - 396"] exI[of _ 6]) simp
  qed
qed

lemma next_upfront_Some:
  assumes "0 < d" "d < 4096"
  shows "\<exists>d'. next_upfront d = Some d'"
  using rook_digit[OF assms(1)] unfolding next_upfront_eq[OF assms(1)] by auto

lemma valid_range: "(d::int) AND 0x1fff = d \<longleftrightarrow> 0 \<le> d \<and> d < 8192"
proof
  assume "d AND 0x1fff = d"
  then have "d = d mod 8192" by (simp add: and_1fff)
  moreover have "0 \<le> d mod 8192" "d mod 8192 < 8192" by simp_all
  ultimately show "0 \<le> d \<and> d < 8192" by simp
next
  assume "0 \<le> d \<and> d < 8192"
  then show "d AND 0x1fff = d" by (simp add: and_1fff)
qed

lemma valid_range15: "(d::int) AND 0x7fff = d \<longleftrightarrow> 0 \<le> d \<and> d < 32768"
proof
  assume "d AND 0x7fff = d"
  then have "d = d mod 32768" by (simp add: and_7fff)
  moreover have "0 \<le> d mod 32768" "d mod 32768 < 32768" by simp_all
  ultimately show "0 \<le> d \<and> d < 32768" by simp
next
  assume "0 \<le> d \<and> d < 32768"
  then show "d AND 0x7fff = d" by (simp add: and_7fff)
qed

lemma select_shape:
  assumes "0 < d" "d < 8192" "d \<noteq> EXCHANGE_LAST_RANK"
  shows "\<exists>r' e k. select_next_capturer r d = Some (r', e + k * 4096) \<and>
           r \<le> r' \<and> r' \<le> r + 8 * EXCHANGE_UNIT \<and>
           0 \<le> e \<and> e < d mod 4096 \<and> 0 \<le> k \<and> k \<le> 7 \<and> (even (d div 4096) \<longrightarrow> even k)"
proof (cases "odd (d div 4096)")
  case True
  then have d1: "d div 4096 = 1" using assms(1,2) by (cases "d < 4096") auto
  define lo where "lo = d - 4096"
  have d: "d = lo + 1 * 4096" by (simp add: lo_def)
  have lo: "0 < lo" "lo < 4096" using d1 assms by (auto simp: lo_def EXCHANGE_LAST_RANK_def)
  have A: "d AND EXCHANGE_LAST_RANK \<noteq> 0" using True by (simp add: and_LR)
  have B: "d AND 0xfff = lo" unfolding and_fff d using lo by simp
  have C: "d AND NOT EXCHANGE_LAST_RANK = lo" using True by (simp add: and_not_LR lo_def)
  have D: "d mod 4096 = lo" unfolding d using lo by simp
  have sw: "lo smod RANGE_PAWN = lo mod 3" using lo by (simp add: smod_nonneg RANGE_PAWN_def)
  consider (z) "lo mod 3 = 0" | (o) "lo mod 3 = 1" | (t) "lo mod 3 = 2" 
  proof -
    have "0 \<le> lo mod 3" "lo mod 3 < 3" by simp_all
    then show ?thesis using that by fastforce
  qed
  then show ?thesis
  proof cases
    case z
    obtain d' where d': "next_upfront lo = Some d'" using next_upfront_Some[OF lo] by blast
    from next_upfront_shape[OF lo d'] obtain e k where
      ek: "d' = e + k * 4096" "0 \<le> e" "e < lo" "even k" "0 \<le> k" "k \<le> 6" by blast
    have "select_next_capturer r d = Some (r, e + k * 4096)"
      using z d' ek(1) by (simp add: select_next_capturer_def A B C sw Let_def)
    then show ?thesis using ek True
      by (intro exI[of _ r] exI[of _ e] exI[of _ k]) (simp add: D EXCHANGE_UNIT_def)
  next
    case o
    have e: "d + (24576 - EXCHANGE_LIST_PAWN - EXCHANGE_LAST_RANK) = (lo - 1) + 6 * 4096"
      by (simp add: lo_def EXCHANGE_LIST_PAWN_def EXCHANGE_LAST_RANK_def)
    have "0 \<le> lo - 1" "lo - 1 < 4096" using lo by simp_all
    then have "((lo - 1) + 6 * 4096) div 4096 = 6" by simp
    then have "((lo - 1) + 6 * 4096) AND EXCHANGE_LAST_RANK = 0" by (simp only: and_LR) simp
    then have "select_next_capturer r d = Some (r + 8 * EXCHANGE_UNIT, (lo - 1) + 6 * 4096)"
      using o by (simp add: select_next_capturer_def A B sw Let_def e)
    then show ?thesis using lo True
      by (intro exI[of _ "r + 8 * EXCHANGE_UNIT"] exI[of _ "lo - 1"] exI[of _ 6])
         (simp add: D EXCHANGE_UNIT_def)
  next
    case t
    have e: "d + (24576 - EXCHANGE_LIST_PAWN) = (lo - 1) + 7 * 4096"
      by (simp add: lo_def EXCHANGE_LIST_PAWN_def)
    have "0 \<le> lo - 1" "lo - 1 < 4096" using lo by simp_all
    then have "((lo - 1) + 7 * 4096) div 4096 = 7" by simp
    then have "((lo - 1) + 7 * 4096) AND EXCHANGE_LAST_RANK \<noteq> 0" by (simp only: and_LR) simp
    then have "select_next_capturer r d = Some (r + 8 * EXCHANGE_UNIT, (lo - 1) + 7 * 4096)"
      using t by (simp add: select_next_capturer_def A B sw Let_def e)
    then show ?thesis using lo True
      by (intro exI[of _ "r + 8 * EXCHANGE_UNIT"] exI[of _ "lo - 1"] exI[of _ 7])
         (simp add: D EXCHANGE_UNIT_def)
  qed
next
  case False
  have "d div 4096 = 1" if "\<not> d < 4096"
    using lowpart[of "d - 4096" 1] that assms(2) by simp
  then have lo: "d < 4096" using False by (cases "d < 4096") auto
  have A: "d AND EXCHANGE_LAST_RANK = 0" using False by (simp add: and_LR)
  have D: "d mod 4096 = d" using lo assms(1) by simp
  obtain d' where d': "next_upfront d = Some d'" using next_upfront_Some[OF assms(1) lo] by blast
  from next_upfront_shape[OF assms(1) lo d'] obtain e k where
    ek: "d' = e + k * 4096" "0 \<le> e" "e < d" "even k" "0 \<le> k" "k \<le> 6" by blast
  have "0 \<le> d'" using ek by simp
  then have "select_next_capturer r d = Some (r, e + k * 4096)"
    using d' ek(1) by (simp add: select_next_capturer_def A)
  then show ?thesis using ek
    by (intro exI[of _ r] exI[of _ e] exI[of _ k]) (simp add: D EXCHANGE_UNIT_def)
qed

lemma input_check_range:
  "exchange_input_check d a \<Longrightarrow> 0 < d \<and> d < 8192 \<and> 0 \<le> a \<and> a < 32768"
  by (auto simp: exchange_input_check_def valid_range valid_range15)

lemma measure_decreases:
  assumes "exchange_input_check d a" "d \<noteq> EXCHANGE_LAST_RANK"
    "select_next_capturer r d = Some (r', d')"
  shows "nat (((a AND 0x1fff) AND 0x0fff) + (d' AND 0x0fff)) < nat ((d AND 0x0fff) + (a AND 0x0fff))"
proof -
  have rg: "0 < d" "d < 8192" using input_check_range[OF assms(1)] by simp_all
  from select_shape[OF rg assms(2), of r] assms(3) obtain e k where
    ek: "d' = e + k * 4096" "0 \<le> e" "e < d mod 4096" by auto
  have 1: "d' AND 0x0fff = e"
    unfolding and_fff ek(1) using ek(2,3) by (simp add: mod_pos_pos_trivial[of e 4096] order_less_trans[OF ek(3)])
  have 2: "(a AND 0x1fff) AND 0x0fff = a AND 0x0fff"
    unfolding and_fff and_1fff by (simp add: mod_mod_cancel)
  have 3: "0 \<le> a mod 4096" by simp
  show ?thesis unfolding 1 2 using ek(2,3) 3 by (simp add: and_fff)
qed

termination exchange_evaluate_fn
proof (relation "measure (\<lambda>(c, d, a). nat ((d AND 0x0fff) + (a AND 0x0fff)))", goal_cases)
  case 1
  show ?case by simp
next
  case (2 c defenders attackers x2 x y)
  then show ?case using measure_decreases[of defenders attackers _ x y] by simp
qed

lemma hash_nonneg: "0 \<le> d \<Longrightarrow> 0 \<le> a \<Longrightarrow> 0 \<le> exchange_hash d a"
  by (simp add: exchange_hash_def)

lemma hash_upper:
  assumes "0 \<le> d" "d < 8192" "0 \<le> a" "a < 32768"
  shows "exchange_hash d a < 0x8000"
proof -
  have s: "0 \<le> d AND 0xfff" "d AND 0xfff < 4096" unfolding and_fff by simp_all
  have p: "0 \<le> push_bit 3 (d AND 0xfff)" "push_bit 3 (d AND 0xfff) < 2 ^ 15"
    using s by (simp_all add: push_bit_eq_mult)
  have "push_bit 3 (d AND 0xfff) XOR d < 2 ^ 15"
    using p assms by (intro XOR_upper) simp_all
  moreover have "0 \<le> push_bit 3 (d AND 0xfff) XOR d" using p assms by simp
  ultimately have "push_bit 3 (d AND 0xfff) XOR d XOR a < 2 ^ 15"
    using assms by (intro XOR_upper) simp_all
  then show ?thesis by (simp add: exchange_hash_def)
qed

lemma hash_inverse1:
  "(exchange_hash d a XOR push_bit 3 (d AND 0xfff)) = (a XOR d)"
  by (simp add: exchange_hash_def bit_eq_iff bit_simps) blast

lemma low12_xor:
  assumes "0 \<le> d" "d < 8192"
  shows "(d XOR (d AND 0xfff)) AND NOT EXCHANGE_LAST_RANK = 0"
proof -
  have "d AND 0xfff = take_bit 12 d" by (simp add: take_bit_eq_mask mask_eq_exp_minus_1)
  moreover have "\<not> bit d n" if "13 \<le> n" for n
  proof -
    have "d < 2 ^ n" using assms(2) power_increasing[of 13 n "2::int"] that by simp
    then show ?thesis using assms(1) by (simp add: bit_iff_odd)
  qed
  ultimately show ?thesis
    apply (simp add: bit_eq_iff bit_simps EXCHANGE_LAST_RANK_def)
    apply (intro allI)
    subgoal for n by (cases "n < 12"; cases "n = 12") (auto simp: not_less)
    done
qed

lemma hash_check_ok:
  assumes "exchange_input_check d a"
  shows "exchange_hash_check d a"
proof -
  have rg: "0 < d" "d < 8192" "0 \<le> a" "a < 32768" using input_check_range[OF assms] by simp_all
  have 1: "0 \<le> exchange_hash d a" using hash_nonneg rg by simp
  have 2: "exchange_hash d a < 0x8000" using hash_upper rg by simp
  have 3: "exchange_hash d a XOR push_bit 3 (d AND 0xfff) XOR (d AND 0xfff) = a XOR (d XOR (d AND 0xfff))"
    by (metis hash_inverse1 xor.assoc)
  have 4: "(a XOR (d XOR (d AND 0xfff))) AND NOT EXCHANGE_LAST_RANK = a AND NOT EXCHANGE_LAST_RANK"
    using low12_xor[of d] rg by (simp add: bit.conj_xor_distrib2)
  show ?thesis
    unfolding exchange_hash_check_def Let_def using 1 2 by (simp only: 3 4 hash_inverse1)
qed

declare exchange_evaluate_fn.simps [simp del]

lemma hit_range:
  assumes "0 \<le> x" "x < 0xf000"
  shows "0 \<le> drop_bit 4 (x AND 0xf000) \<and> drop_bit 4 (x AND 0xf000) \<le> 14 * EXCHANGE_UNIT"
proof -
  define y where "y = x AND 0xf000"
  have y0: "0 \<le> y" using assms(1) by (simp add: y_def)
  have yx: "y \<le> x" unfolding y_def using assms(1) by (rule AND_upper1)
  have pb: "(0xf000::int) = push_bit 12 15" by simp
  have "take_bit 12 y = take_bit 12 x AND take_bit 12 (push_bit 12 (15::int))"
    unfolding y_def pb by (rule take_bit_and)
  also have "take_bit 12 (push_bit 12 (15::int)) = 0" by (simp only: take_bit_push_bit) simp
  finally have "take_bit 12 y = 0" by simp
  then have "y mod 4096 = 0" by (simp add: take_bit_eq_mod)
  then obtain q where q: "y = 4096 * q" by (auto simp: mod_eq_0_iff_dvd elim: dvdE)
  have "q < 15" using q yx assms(2) by simp
  then have "y \<le> 57344" using q by simp
  then have "y div 16 \<le> 3584" by simp
  moreover have "0 \<le> y div 16" using y0 by simp
  ultimately show ?thesis by (simp add: y_def[symmetric] drop_bit_eq_div EXCHANGE_UNIT_def)
qed

lemma store_ok:
  assumes "0 \<le> r" "r \<le> 14 * EXCHANGE_UNIT" "0 \<le> s" "s < 4096"
  shows "0 \<le> (push_bit 4 r OR s) AND 0xffff \<and> (push_bit 4 r OR s) AND 0xffff < 0xf000"
proof -
  have p: "0 \<le> push_bit 4 r" "push_bit 4 r \<le> 57344"
    using assms(1,2) by (simp_all add: push_bit_eq_mult EXCHANGE_UNIT_def)
  have o: "0 \<le> push_bit 4 r OR s" using p assms(3) by simp
  have "(push_bit 4 r AND s) + (push_bit 4 r OR s) = push_bit 4 r + s" by (rule plus_and_or)
  moreover have "0 \<le> push_bit 4 r AND s" using p by simp
  ultimately have "push_bit 4 r OR s \<le> push_bit 4 r + s" by linarith
  then have u: "push_bit 4 r OR s < 0xf000" using p assms(4) by simp
  have "(push_bit 4 r OR s) AND 0xffff \<le> push_bit 4 r OR s" using o by (rule AND_upper1)
  then show ?thesis using u o by simp
qed

lemma cache_ok_store:
  "cache_ok c \<Longrightarrow> 0 \<le> v \<and> v < 0xf000 \<Longrightarrow>
   cache_ok (c\<lparr>exchange_table := (exchange_table c)(h := v)\<rparr>)"
  by (simp add: cache_ok_def)

lemma cache_ok_count_miss: "cache_ok (count_miss c) = cache_ok c"
  by (simp add: cache_ok_def count_miss_def)

lemma clip_and_store_ok:
  assumes "cache_ok c" "0 \<le> result" "0 \<le> s" "s < 4096"
  shows "\<exists>r c'. clip_and_store c h s result = Some (r, c') \<and>
           0 \<le> r \<and> r \<le> 14 * EXCHANGE_UNIT \<and> cache_ok c'"
proof (cases "result > 14 * EXCHANGE_UNIT")
  case True
  have "0 \<le> 14 * EXCHANGE_UNIT" by (simp add: EXCHANGE_UNIT_def)
  from store_ok[OF this order_refl assms(3,4)] show ?thesis
    using True assms(1,2) \<open>0 \<le> 14 * EXCHANGE_UNIT\<close>
    by (simp add: clip_and_store_def cache_ok_store Let_def)
next
  case False
  then have "result \<le> 14 * EXCHANGE_UNIT" by simp
  from store_ok[OF assms(2) this assms(3,4)] show ?thesis
    using False assms(1,2) by (simp add: clip_and_store_def cache_ok_store Let_def)
qed

lemma victim_value_nonneg: "0 \<le> victim_value i"
  by (simp add: victim_value_def EXCHANGE_UNIT_def)

lemma and_LR_bit: "(x::int) AND EXCHANGE_LAST_RANK = 0 \<longleftrightarrow> \<not> bit x 12"
  using and_exp_eq_0_iff_not_bit[of x 12] by (simp add: EXCHANGE_LAST_RANK_def)

lemma and3_LR: "(d::int) AND a AND EXCHANGE_LAST_RANK = 0 \<longleftrightarrow> \<not> (bit d 12 \<and> bit a 12)"
proof -
  have "d AND a AND EXCHANGE_LAST_RANK = (d AND a) AND EXCHANGE_LAST_RANK"
    by (simp only: and.assoc)
  then show ?thesis by (simp only: and_LR_bit bit_and_iff)
qed

lemma bit12_and_1fff: "bit ((a::int) AND 0x1fff) 12 = bit a 12"
proof -
  have "(0x1fff::int) = mask 13" by (simp add: mask_eq_exp_minus_1)
  then show ?thesis by (simp only: bit_and_iff bit_mask_iff) simp
qed

lemma recursion_input_ok:
  assumes "exchange_input_check d a" "a AND 0x1fff \<noteq> 0"
    "0 \<le> e" "e < d mod 4096" "0 \<le> k" "k \<le> 7" "even (d div 4096) \<longrightarrow> even k"
  shows "exchange_input_check (a AND 0x1fff) (e + k * 4096)"
proof -
  have rg: "0 < d" "d < 8192" "0 \<le> a" "a < 32768" using input_check_range[OF assms(1)] by simp_all
  have e4: "e < 4096" using assms(4) by (rule order_less_trans) simp
  have 1: "(a AND 0x1fff) AND 0x1fff = a AND 0x1fff" by (simp add: and.assoc)
  have dv: "(e + k * 4096) div 2 ^ 12 = k" using lowpart[OF assms(3) e4] by simp
  have "0 \<le> e + k * 4096" "e + k * 4096 < 32768" using assms(3,5,6) e4 by simp_all
  then have 2: "(e + k * 4096) AND 0x7fff = e + k * 4096" by (simp add: valid_range15)
  have 3: "(a AND 0x1fff) AND (e + k * 4096) AND EXCHANGE_LAST_RANK = 0"
  proof (cases "even (d div 4096)")
    case True
    then have "even k" using assms(7) by simp
    then have "\<not> bit (e + k * 4096) 12" by (simp only: bit_iff_odd) (simp only: dv, simp)
    then show ?thesis by (simp only: and3_LR) simp
  next
    case False
    then have "bit d 12" by (simp add: bit_iff_odd)
    moreover have "d AND a AND EXCHANGE_LAST_RANK = 0"
      using assms(1) by (simp add: exchange_input_check_def)
    ultimately have "\<not> bit a 12" by (simp only: and3_LR) simp
    then show ?thesis by (simp only: and3_LR bit12_and_1fff) simp
  qed
  show ?thesis unfolding exchange_input_check_def using assms(2) 1 2 3 by blast
qed

lemma exchange_evaluate_fn_inv:
  "cache_ok c \<Longrightarrow> exchange_input_check d a \<Longrightarrow>
   \<exists>r c'. exchange_evaluate_fn c d a = Some (r, c') \<and>
          0 \<le> r \<and> r \<le> 14 * EXCHANGE_UNIT \<and> cache_ok c'"
proof (induction c d a rule: exchange_evaluate_fn.induct)
  case (1 c d a)
  note ok = \<open>cache_ok c\<close> and chk = \<open>exchange_input_check d a\<close>
  have hc: "exchange_hash_check d a" using hash_check_ok[OF chk] .
  have rg: "0 < d" "d < 8192" using input_check_range[OF chk] by simp_all
  have st: "0 \<le> d AND 0xfff" "d AND 0xfff < 4096" unfolding and_fff by simp_all
  let ?h = "exchange_hash d a"
  show ?case
  proof (cases "(exchange_table c ?h XOR d) AND 0x0fff = 0")
    case True
    have "0 \<le> exchange_table c ?h" "exchange_table c ?h < 0xf000"
      using ok by (simp_all add: cache_ok_def)
    from hit_range[OF this] show ?thesis
      using True chk hc ok by (subst exchange_evaluate_fn.simps) simp
  next
    case miss: False
    show ?thesis
    proof (cases "d = EXCHANGE_LAST_RANK")
      case True
      then show ?thesis using miss chk hc ok
        by (subst exchange_evaluate_fn.simps) (simp add: cache_ok_count_miss EXCHANGE_UNIT_def)
    next
      case nlr: False
      let ?v = "victim_value (drop_bit 13 a)"
      from select_shape[OF rg nlr, of ?v] obtain r' e k where
        sel: "select_next_capturer ?v d = Some (r', e + k * 4096)"
        and r': "?v \<le> r'" and ek: "0 \<le> e" "e < d mod 4096" "0 \<le> k" "k \<le> 7"
          "even (d div 4096) \<longrightarrow> even k"
        by blast
      have r'0: "0 \<le> r'" using r' victim_value_nonneg[of "drop_bit 13 a"] by simp
      show ?thesis
      proof (cases "a AND 0x1fff \<noteq> 0")
        case True
        have rec: "exchange_input_check (a AND 0x1fff) (e + k * 4096)"
          using recursion_input_ok[OF chk True ek] .
        have "cache_ok (count_miss c)" using ok by (simp add: cache_ok_count_miss)
        have nn: "\<not> \<not> (exchange_input_check d a \<and> exchange_hash_check d a)"
          using chk hc by simp
        from "1.IH"[OF nn miss nlr sel refl True \<open>cache_ok (count_miss c)\<close> rec]
        obtain reply c'' where
          ih: "exchange_evaluate_fn (count_miss c) (a AND 0x1fff) (e + k * 4096) = Some (reply, c'')"
          "cache_ok c''" by auto
        have "0 \<le> stand_pat (r' - reply)" by (simp add: stand_pat_def)
        from clip_and_store_ok[OF ih(2) this st, of ?h] show ?thesis
          using miss nlr chk hc sel True ih(1)
          by (subst exchange_evaluate_fn.simps) simp
      next
        case False
        have "cache_ok (count_miss c)" using ok by (simp add: cache_ok_count_miss)
        from clip_and_store_ok[OF this r'0 st, of ?h] show ?thesis
          using miss nlr chk hc sel False
          by (subst exchange_evaluate_fn.simps) simp
      qed
    qed
  qed
qed

lemma cache_reachable_ok: "cache_reachable c \<Longrightarrow> cache_ok c"
proof (induction rule: cache_reachable.induct)
  case initial
  show ?case by (simp add: cache_ok_def exchange_cache_initial_def)
next
  case (evaluated c d a r c')
  show ?case
  proof (cases "exchange_input_check d a")
    case True
    from exchange_evaluate_fn_inv[OF evaluated.IH True] evaluated.hyps(2)
    show ?thesis by auto
  next
    case False
    then show ?thesis using evaluated.hyps(2)
      by (subst (asm) exchange_evaluate_fn.simps) simp
  qed
next
  case (reset_caches c)
  show ?case by (simp add: cache_ok_def exchange_reset_caches_def)
next
  case (reset_stats c)
  then show ?case by (simp add: cache_ok_def exchange_reset_stats_def)
qed

text \<open>
  Claim C8. For every valid pair of packed piece-set words (a non-zero 13-bit defenders
  word and a 15-bit attackers word, not both carrying the LAST_RANK bit: the input check
  asserted at the head of \<open>exchange_evaluate_fn\<close>), and every state of the lookup table
  the program can reach, the static exchange evaluation returns (no assertion fails) and
  its value lies in the range from 0 to 14 exchange units.
\<close>

theorem exchange_evaluate_fn_range:
  assumes "cache_reachable c" and "exchange_input_check defenders attackers"
  shows "\<exists>r c'. exchange_evaluate_fn c defenders attackers = Some (r, c') \<and>
           0 \<le> r \<and> r \<le> 14 * EXCHANGE_UNIT"
  using exchange_evaluate_fn_inv[OF cache_reachable_ok[OF assms(1)] assms(2)] by blast

theorem exchange_evaluate_fn_range_witness:
  "cache_reachable exchange_cache_initial \<and> exchange_input_check 0x1001 0x6003 \<and>
   (\<exists>r c'. exchange_evaluate_fn exchange_cache_initial 0x1001 0x6003 = Some (r, c') \<and>
      0 \<le> r \<and> r \<le> 14 * EXCHANGE_UNIT)"
proof -
  have r: "cache_reachable exchange_cache_initial" by (rule cache_reachable.initial)
  have i: "exchange_input_check 0x1001 0x6003"
    by (simp add: exchange_input_check_def EXCHANGE_LAST_RANK_def)
  show ?thesis using r i exchange_evaluate_fn_range[OF r i] by blast
qed

section \<open>What each statement leaves unchanged\<close>

lemma seq_Nil [simp]: "seq [] bd = bd"
  by (simp add: seq_def)

lemma seq_Cons [simp]: "seq (stmt # stmts) bd = seq stmts (stmt bd)"
  by (simp add: seq_def)

lemma upd_cur_simps [simp]:
  "squares (upd_cur g bd) = squares bd"
  "current (upd_cur g bd) = current bd"
  "cur (upd_cur g bd) = g (cur bd)"
  "j \<noteq> current bd \<Longrightarrow> stack (upd_cur g bd) j = stack bd j"
  "prev (upd_cur g bd) = prev bd"
  by (simp_all add: upd_cur_def cur_def prev_def)

lemma upd_side_cur:
  "cur (upd_side who g bd) =
     (case who of Active \<Rightarrow> (cur bd)\<lparr>active := g (active (cur bd))\<rparr>
                | Passive \<Rightarrow> (cur bd)\<lparr>passive' := g (passive' (cur bd))\<rparr>)"
  by (cases who) (simp_all add: upd_side_def)

lemma upd_side_simps [simp]:
  "squares (upd_side who g bd) = squares bd"
  "current (upd_side who g bd) = current bd"
  "j \<noteq> current bd \<Longrightarrow> stack (upd_side who g bd) j = stack bd j"
  "prev (upd_side who g bd) = prev bd"
  "undo_len (cur (upd_side who g bd)) = undo_len (cur bd)"
  "undo (cur (upd_side who g bd)) = undo (cur bd)"
  "halfmove_clock (cur (upd_side who g bd)) = halfmove_clock (cur bd)"
  "node_counter (cur (upd_side who g bd)) = node_counter (cur bd)"
  "en_passant_lazy (cur (upd_side who g bd)) = en_passant_lazy (cur bd)"
  "en_passant_node_counter (cur (upd_side who g bd)) = en_passant_node_counter (cur bd)"
  by (cases who; simp add: upd_side_def)+

lemma squares_stmt_simps [simp]:
  "current (set_piece sq p bd) = current bd"
  "stack (set_piece sq p bd) = stack bd"
  "cur (set_piece sq p bd) = cur bd"
  "prev (set_piece sq p bd) = prev bd"
  "current (set_index sq i bd) = current bd"
  "stack (set_index sq i bd) = stack bd"
  "cur (set_index sq i bd) = cur bd"
  "prev (set_index sq i bd) = prev bd"
  "current (copy_square to from bd) = current bd"
  "stack (copy_square to from bd) = stack bd"
  "cur (copy_square to from bd) = cur bd"
  "prev (copy_square to from bd) = prev bd"
  by (simp_all add: set_piece_def set_index_def copy_square_def cur_def prev_def)

lemma squares_stmt_squares:
  "squares (set_piece sq p bd) = (squares bd)(sq := (squares bd sq)\<lparr>piece := p\<rparr>)"
  "squares (set_index sq i bd) = (squares bd)(sq := (squares bd sq)\<lparr>index := i\<rparr>)"
  "squares (copy_square to from bd) = (squares bd)(to := squares bd from)"
  by (simp_all add: set_piece_def set_index_def copy_square_def)

lemma PUSH_UNDO_simps [simp]:
  "squares (PUSH_UNDO x bd) = squares bd"
  "current (PUSH_UNDO x bd) = current bd"
  "j \<noteq> current bd \<Longrightarrow> stack (PUSH_UNDO x bd) j = stack bd j"
  "prev (PUSH_UNDO x bd) = prev bd"
  "undo_len (cur (PUSH_UNDO x bd)) = undo_len (cur bd) + 1"
  "undo (cur (PUSH_UNDO x bd)) =
     (undo (cur bd))(undo_len (cur bd) := \<lparr>square = x, undo_piece = squares bd x\<rparr>)"
  "halfmove_clock (cur (PUSH_UNDO x bd)) = halfmove_clock (cur bd)"
  "active (cur (PUSH_UNDO x bd)) = active (cur bd)"
  "passive' (cur (PUSH_UNDO x bd)) = passive' (cur bd)"
  "node_counter (cur (PUSH_UNDO x bd)) = node_counter (cur bd)"
  "en_passant_lazy (cur (PUSH_UNDO x bd)) = en_passant_lazy (cur bd)"
  "en_passant_node_counter (cur (PUSH_UNDO x bd)) = en_passant_node_counter (cur bd)"
  by (simp_all add: PUSH_UNDO_def)

lemma halfmove_clock_from_prev_simps [simp]:
  "squares (halfmove_clock_from_prev bd) = squares bd"
  "current (halfmove_clock_from_prev bd) = current bd"
  "j \<noteq> current bd \<Longrightarrow> stack (halfmove_clock_from_prev bd) j = stack bd j"
  "prev (halfmove_clock_from_prev bd) = prev bd"
  "undo_len (cur (halfmove_clock_from_prev bd)) = undo_len (cur bd)"
  "undo (cur (halfmove_clock_from_prev bd)) = undo (cur bd)"
  "halfmove_clock (cur (halfmove_clock_from_prev bd)) = halfmove_clock (prev bd) + 1"
  "active (cur (halfmove_clock_from_prev bd)) = active (cur bd)"
  "passive' (cur (halfmove_clock_from_prev bd)) = passive' (cur bd)"
  "node_counter (cur (halfmove_clock_from_prev bd)) = node_counter (cur bd)"
  "en_passant_lazy (cur (halfmove_clock_from_prev bd)) = en_passant_lazy (cur bd)"
  "en_passant_node_counter (cur (halfmove_clock_from_prev bd)) =
     en_passant_node_counter (cur bd)"
  by (simp_all add: halfmove_clock_from_prev_def)

lemma set_list_simps [simp]:
  "squares (set_list who i sq bd) = squares bd"
  "current (set_list who i sq bd) = current bd"
  "j \<noteq> current bd \<Longrightarrow> stack (set_list who i sq bd) j = stack bd j"
  "prev (set_list who i sq bd) = prev bd"
  "undo_len (cur (set_list who i sq bd)) = undo_len (cur bd)"
  "undo (cur (set_list who i sq bd)) = undo (cur bd)"
  "halfmove_clock (cur (set_list who i sq bd)) = halfmove_clock (cur bd)"
  "node_counter (cur (set_list who i sq bd)) = node_counter (cur bd)"
  "en_passant_lazy (cur (set_list who i sq bd)) = en_passant_lazy (cur bd)"
  "en_passant_node_counter (cur (set_list who i sq bd)) = en_passant_node_counter (cur bd)"
  by (simp_all add: set_list_def)

lemma toggle_rays_simps [simp]:
  "squares (toggle_rays who own sq bd) = squares bd"
  "current (toggle_rays who own sq bd) = current bd"
  "j \<noteq> current bd \<Longrightarrow> stack (toggle_rays who own sq bd) j = stack bd j"
  "prev (toggle_rays who own sq bd) = prev bd"
  "undo_len (cur (toggle_rays who own sq bd)) = undo_len (cur bd)"
  "undo (cur (toggle_rays who own sq bd)) = undo (cur bd)"
  "halfmove_clock (cur (toggle_rays who own sq bd)) = halfmove_clock (cur bd)"
  "node_counter (cur (toggle_rays who own sq bd)) = node_counter (cur bd)"
  "en_passant_lazy (cur (toggle_rays who own sq bd)) = en_passant_lazy (cur bd)"
  "en_passant_node_counter (cur (toggle_rays who own sq bd)) = en_passant_node_counter (cur bd)"
  by (simp_all add: toggle_rays_def xor_rays_def Let_def)

lemma xor_rays_simps [simp]:
  "squares (xor_rays who sq dirs bd) = squares bd"
  "current (xor_rays who sq dirs bd) = current bd"
  "j \<noteq> current bd \<Longrightarrow> stack (xor_rays who sq dirs bd) j = stack bd j"
  "prev (xor_rays who sq dirs bd) = prev bd"
  "undo_len (cur (xor_rays who sq dirs bd)) = undo_len (cur bd)"
  "undo (cur (xor_rays who sq dirs bd)) = undo (cur bd)"
  "halfmove_clock (cur (xor_rays who sq dirs bd)) = halfmove_clock (cur bd)"
  "node_counter (cur (xor_rays who sq dirs bd)) = node_counter (cur bd)"
  "en_passant_lazy (cur (xor_rays who sq dirs bd)) = en_passant_lazy (cur bd)"
  "en_passant_node_counter (cur (xor_rays who sq dirs bd)) = en_passant_node_counter (cur bd)"
  by (simp_all add: xor_rays_def)

lemma xor_king_simps [simp]:
  "squares (xor_king who sq bd) = squares bd"
  "current (xor_king who sq bd) = current bd"
  "j \<noteq> current bd \<Longrightarrow> stack (xor_king who sq bd) j = stack bd j"
  "prev (xor_king who sq bd) = prev bd"
  "undo_len (cur (xor_king who sq bd)) = undo_len (cur bd)"
  "undo (cur (xor_king who sq bd)) = undo (cur bd)"
  "halfmove_clock (cur (xor_king who sq bd)) = halfmove_clock (cur bd)"
  "node_counter (cur (xor_king who sq bd)) = node_counter (cur bd)"
  "en_passant_lazy (cur (xor_king who sq bd)) = en_passant_lazy (cur bd)"
  "en_passant_node_counter (cur (xor_king who sq bd)) = en_passant_node_counter (cur bd)"
  by (simp_all add: xor_king_def)

lemma add_knight_simps [simp]:
  "squares (add_knight who sq bd) = squares bd"
  "current (add_knight who sq bd) = current bd"
  "j \<noteq> current bd \<Longrightarrow> stack (add_knight who sq bd) j = stack bd j"
  "prev (add_knight who sq bd) = prev bd"
  "undo_len (cur (add_knight who sq bd)) = undo_len (cur bd)"
  "undo (cur (add_knight who sq bd)) = undo (cur bd)"
  "halfmove_clock (cur (add_knight who sq bd)) = halfmove_clock (cur bd)"
  "node_counter (cur (add_knight who sq bd)) = node_counter (cur bd)"
  "en_passant_lazy (cur (add_knight who sq bd)) = en_passant_lazy (cur bd)"
  "en_passant_node_counter (cur (add_knight who sq bd)) = en_passant_node_counter (cur bd)"
  by (simp_all add: add_knight_def)

lemma sub_knight_simps [simp]:
  "squares (sub_knight who sq bd) = squares bd"
  "current (sub_knight who sq bd) = current bd"
  "j \<noteq> current bd \<Longrightarrow> stack (sub_knight who sq bd) j = stack bd j"
  "prev (sub_knight who sq bd) = prev bd"
  "undo_len (cur (sub_knight who sq bd)) = undo_len (cur bd)"
  "undo (cur (sub_knight who sq bd)) = undo (cur bd)"
  "halfmove_clock (cur (sub_knight who sq bd)) = halfmove_clock (cur bd)"
  "node_counter (cur (sub_knight who sq bd)) = node_counter (cur bd)"
  "en_passant_lazy (cur (sub_knight who sq bd)) = en_passant_lazy (cur bd)"
  "en_passant_node_counter (cur (sub_knight who sq bd)) = en_passant_node_counter (cur bd)"
  by (simp_all add: sub_knight_def)

lemma xor_white_pawn_simps [simp]:
  "squares (xor_white_pawn who sq bd) = squares bd"
  "current (xor_white_pawn who sq bd) = current bd"
  "j \<noteq> current bd \<Longrightarrow> stack (xor_white_pawn who sq bd) j = stack bd j"
  "prev (xor_white_pawn who sq bd) = prev bd"
  "undo_len (cur (xor_white_pawn who sq bd)) = undo_len (cur bd)"
  "undo (cur (xor_white_pawn who sq bd)) = undo (cur bd)"
  "halfmove_clock (cur (xor_white_pawn who sq bd)) = halfmove_clock (cur bd)"
  "node_counter (cur (xor_white_pawn who sq bd)) = node_counter (cur bd)"
  "en_passant_lazy (cur (xor_white_pawn who sq bd)) = en_passant_lazy (cur bd)"
  "en_passant_node_counter (cur (xor_white_pawn who sq bd)) = en_passant_node_counter (cur bd)"
  by (simp_all add: xor_white_pawn_def)

lemma xor_black_pawn_simps [simp]:
  "squares (xor_black_pawn who sq bd) = squares bd"
  "current (xor_black_pawn who sq bd) = current bd"
  "j \<noteq> current bd \<Longrightarrow> stack (xor_black_pawn who sq bd) j = stack bd j"
  "prev (xor_black_pawn who sq bd) = prev bd"
  "undo_len (cur (xor_black_pawn who sq bd)) = undo_len (cur bd)"
  "undo (cur (xor_black_pawn who sq bd)) = undo (cur bd)"
  "halfmove_clock (cur (xor_black_pawn who sq bd)) = halfmove_clock (cur bd)"
  "node_counter (cur (xor_black_pawn who sq bd)) = node_counter (cur bd)"
  "en_passant_lazy (cur (xor_black_pawn who sq bd)) = en_passant_lazy (cur bd)"
  "en_passant_node_counter (cur (xor_black_pawn who sq bd)) = en_passant_node_counter (cur bd)"
  by (simp_all add: xor_black_pawn_def)

lemma hash_from_prev_simps [simp]:
  "squares (hash_from_prev v bd) = squares bd"
  "current (hash_from_prev v bd) = current bd"
  "j \<noteq> current bd \<Longrightarrow> stack (hash_from_prev v bd) j = stack bd j"
  "prev (hash_from_prev v bd) = prev bd"
  "undo_len (cur (hash_from_prev v bd)) = undo_len (cur bd)"
  "undo (cur (hash_from_prev v bd)) = undo (cur bd)"
  "halfmove_clock (cur (hash_from_prev v bd)) = halfmove_clock (cur bd)"
  "node_counter (cur (hash_from_prev v bd)) = node_counter (cur bd)"
  "en_passant_lazy (cur (hash_from_prev v bd)) = en_passant_lazy (cur bd)"
  "en_passant_node_counter (cur (hash_from_prev v bd)) = en_passant_node_counter (cur bd)"
  "active (cur (hash_from_prev v bd)) = active (cur bd)"
  "passive' (cur (hash_from_prev v bd)) = passive' (cur bd)"
  by (simp_all add: hash_from_prev_def)

lemma xor_board_hash_simps [simp]:
  "squares (xor_board_hash v bd) = squares bd"
  "current (xor_board_hash v bd) = current bd"
  "j \<noteq> current bd \<Longrightarrow> stack (xor_board_hash v bd) j = stack bd j"
  "prev (xor_board_hash v bd) = prev bd"
  "undo_len (cur (xor_board_hash v bd)) = undo_len (cur bd)"
  "undo (cur (xor_board_hash v bd)) = undo (cur bd)"
  "halfmove_clock (cur (xor_board_hash v bd)) = halfmove_clock (cur bd)"
  "node_counter (cur (xor_board_hash v bd)) = node_counter (cur bd)"
  "en_passant_lazy (cur (xor_board_hash v bd)) = en_passant_lazy (cur bd)"
  "en_passant_node_counter (cur (xor_board_hash v bd)) = en_passant_node_counter (cur bd)"
  "active (cur (xor_board_hash v bd)) = active (cur bd)"
  "passive' (cur (xor_board_hash v bd)) = passive' (cur bd)"
  by (simp_all add: xor_board_hash_def)

lemma xor_pawn_king_hash_simps [simp]:
  "squares (xor_pawn_king_hash v bd) = squares bd"
  "current (xor_pawn_king_hash v bd) = current bd"
  "j \<noteq> current bd \<Longrightarrow> stack (xor_pawn_king_hash v bd) j = stack bd j"
  "prev (xor_pawn_king_hash v bd) = prev bd"
  "undo_len (cur (xor_pawn_king_hash v bd)) = undo_len (cur bd)"
  "undo (cur (xor_pawn_king_hash v bd)) = undo (cur bd)"
  "halfmove_clock (cur (xor_pawn_king_hash v bd)) = halfmove_clock (cur bd)"
  "node_counter (cur (xor_pawn_king_hash v bd)) = node_counter (cur bd)"
  "en_passant_lazy (cur (xor_pawn_king_hash v bd)) = en_passant_lazy (cur bd)"
  "en_passant_node_counter (cur (xor_pawn_king_hash v bd)) = en_passant_node_counter (cur bd)"
  "active (cur (xor_pawn_king_hash v bd)) = active (cur bd)"
  "passive' (cur (xor_pawn_king_hash v bd)) = passive' (cur bd)"
  by (simp_all add: xor_pawn_king_hash_def)

lemma add_material_key_simps [simp]:
  "squares (add_material_key v bd) = squares bd"
  "current (add_material_key v bd) = current bd"
  "j \<noteq> current bd \<Longrightarrow> stack (add_material_key v bd) j = stack bd j"
  "prev (add_material_key v bd) = prev bd"
  "undo_len (cur (add_material_key v bd)) = undo_len (cur bd)"
  "undo (cur (add_material_key v bd)) = undo (cur bd)"
  "halfmove_clock (cur (add_material_key v bd)) = halfmove_clock (cur bd)"
  "node_counter (cur (add_material_key v bd)) = node_counter (cur bd)"
  "en_passant_lazy (cur (add_material_key v bd)) = en_passant_lazy (cur bd)"
  "en_passant_node_counter (cur (add_material_key v bd)) = en_passant_node_counter (cur bd)"
  "active (cur (add_material_key v bd)) = active (cur bd)"
  "passive' (cur (add_material_key v bd)) = passive' (cur bd)"
  by (simp_all add: add_material_key_def)

lemma sub_material_key_simps [simp]:
  "squares (sub_material_key v bd) = squares bd"
  "current (sub_material_key v bd) = current bd"
  "j \<noteq> current bd \<Longrightarrow> stack (sub_material_key v bd) j = stack bd j"
  "prev (sub_material_key v bd) = prev bd"
  "undo_len (cur (sub_material_key v bd)) = undo_len (cur bd)"
  "undo (cur (sub_material_key v bd)) = undo (cur bd)"
  "halfmove_clock (cur (sub_material_key v bd)) = halfmove_clock (cur bd)"
  "node_counter (cur (sub_material_key v bd)) = node_counter (cur bd)"
  "en_passant_lazy (cur (sub_material_key v bd)) = en_passant_lazy (cur bd)"
  "en_passant_node_counter (cur (sub_material_key v bd)) = en_passant_node_counter (cur bd)"
  "active (cur (sub_material_key v bd)) = active (cur bd)"
  "passive' (cur (sub_material_key v bd)) = passive' (cur bd)"
  by (simp_all add: sub_material_key_def)

lemma xor_last_rank_pawns_simps [simp]:
  "squares (xor_last_rank_pawns who sq bd) = squares bd"
  "current (xor_last_rank_pawns who sq bd) = current bd"
  "j \<noteq> current bd \<Longrightarrow> stack (xor_last_rank_pawns who sq bd) j = stack bd j"
  "prev (xor_last_rank_pawns who sq bd) = prev bd"
  "undo_len (cur (xor_last_rank_pawns who sq bd)) = undo_len (cur bd)"
  "undo (cur (xor_last_rank_pawns who sq bd)) = undo (cur bd)"
  "halfmove_clock (cur (xor_last_rank_pawns who sq bd)) = halfmove_clock (cur bd)"
  "node_counter (cur (xor_last_rank_pawns who sq bd)) = node_counter (cur bd)"
  "en_passant_lazy (cur (xor_last_rank_pawns who sq bd)) = en_passant_lazy (cur bd)"
  "en_passant_node_counter (cur (xor_last_rank_pawns who sq bd)) = en_passant_node_counter (cur bd)"
  by (simp_all add: xor_last_rank_pawns_def)

lemma xor_bishop_diagonals_simps [simp]:
  "squares (xor_bishop_diagonals who v bd) = squares bd"
  "current (xor_bishop_diagonals who v bd) = current bd"
  "j \<noteq> current bd \<Longrightarrow> stack (xor_bishop_diagonals who v bd) j = stack bd j"
  "prev (xor_bishop_diagonals who v bd) = prev bd"
  "undo_len (cur (xor_bishop_diagonals who v bd)) = undo_len (cur bd)"
  "undo (cur (xor_bishop_diagonals who v bd)) = undo (cur bd)"
  "halfmove_clock (cur (xor_bishop_diagonals who v bd)) = halfmove_clock (cur bd)"
  "node_counter (cur (xor_bishop_diagonals who v bd)) = node_counter (cur bd)"
  "en_passant_lazy (cur (xor_bishop_diagonals who v bd)) = en_passant_lazy (cur bd)"
  "en_passant_node_counter (cur (xor_bishop_diagonals who v bd)) = en_passant_node_counter (cur bd)"
  by (simp_all add: xor_bishop_diagonals_def)

section \<open>The frame fields that the transitions leave alone\<close>

lemma place_piece_frame [simp]:
  "current (place_piece from to bd) = current bd"
  "j \<noteq> current bd \<Longrightarrow> stack (place_piece from to bd) j = stack bd j"
  "prev (place_piece from to bd) = prev bd"
  "halfmove_clock (cur (place_piece from to bd)) = halfmove_clock (cur bd)"
  "node_counter (cur (place_piece from to bd)) = node_counter (cur bd)"
  "en_passant_lazy (cur (place_piece from to bd)) = en_passant_lazy (cur bd)"
  "en_passant_node_counter (cur (place_piece from to bd)) = en_passant_node_counter (cur bd)"
  by (simp_all add: place_piece_def)

lemma clear_square_frame [simp]:
  "current (clear_square from bd) = current bd"
  "j \<noteq> current bd \<Longrightarrow> stack (clear_square from bd) j = stack bd j"
  "prev (clear_square from bd) = prev bd"
  "halfmove_clock (cur (clear_square from bd)) = halfmove_clock (cur bd)"
  "node_counter (cur (clear_square from bd)) = node_counter (cur bd)"
  "en_passant_lazy (cur (clear_square from bd)) = en_passant_lazy (cur bd)"
  "en_passant_node_counter (cur (clear_square from bd)) = en_passant_node_counter (cur bd)"
  by (simp_all add: clear_square_def)

lemma disable_castle_rook_frame [simp]:
  "current (disable_castle_rook rc r z sq bd) = current bd"
  "j \<noteq> current bd \<Longrightarrow> stack (disable_castle_rook rc r z sq bd) j = stack bd j"
  "prev (disable_castle_rook rc r z sq bd) = prev bd"
  "halfmove_clock (cur (disable_castle_rook rc r z sq bd)) = halfmove_clock (cur bd)"
  "node_counter (cur (disable_castle_rook rc r z sq bd)) = node_counter (cur bd)"
  "en_passant_lazy (cur (disable_castle_rook rc r z sq bd)) = en_passant_lazy (cur bd)"
  "en_passant_node_counter (cur (disable_castle_rook rc r z sq bd)) = en_passant_node_counter (cur bd)"
  by (simp_all add: disable_castle_rook_def)

lemma demote_castle_king_frame [simp]:
  "current (demote_castle_king other rc ksq k bd) = current bd"
  "j \<noteq> current bd \<Longrightarrow> stack (demote_castle_king other rc ksq k bd) j = stack bd j"
  "prev (demote_castle_king other rc ksq k bd) = prev bd"
  "halfmove_clock (cur (demote_castle_king other rc ksq k bd)) = halfmove_clock (cur bd)"
  "node_counter (cur (demote_castle_king other rc ksq k bd)) = node_counter (cur bd)"
  "en_passant_lazy (cur (demote_castle_king other rc ksq k bd)) = en_passant_lazy (cur bd)"
  "en_passant_node_counter (cur (demote_castle_king other rc ksq k bd)) = en_passant_node_counter (cur bd)"
  by (simp_all add: demote_castle_king_def)

lemma close_piece_list_frame [simp]:
  "current (close_piece_list last_piece other idx bd) = current bd"
  "j \<noteq> current bd \<Longrightarrow> stack (close_piece_list last_piece other idx bd) j = stack bd j"
  "prev (close_piece_list last_piece other idx bd) = prev bd"
  "halfmove_clock (cur (close_piece_list last_piece other idx bd)) = halfmove_clock (cur bd)"
  "node_counter (cur (close_piece_list last_piece other idx bd)) = node_counter (cur bd)"
  "en_passant_lazy (cur (close_piece_list last_piece other idx bd)) = en_passant_lazy (cur bd)"
  "en_passant_node_counter (cur (close_piece_list last_piece other idx bd)) = en_passant_node_counter (cur bd)"
  by (simp_all add: close_piece_list_def)

lemma remove_from_piece_list_frame [simp]:
  "current (remove_from_piece_list sq bd) = current bd"
  "j \<noteq> current bd \<Longrightarrow> stack (remove_from_piece_list sq bd) j = stack bd j"
  "prev (remove_from_piece_list sq bd) = prev bd"
  "halfmove_clock (cur (remove_from_piece_list sq bd)) = halfmove_clock (cur bd)"
  "node_counter (cur (remove_from_piece_list sq bd)) = node_counter (cur bd)"
  "en_passant_lazy (cur (remove_from_piece_list sq bd)) = en_passant_lazy (cur bd)"
  "en_passant_node_counter (cur (remove_from_piece_list sq bd)) = en_passant_node_counter (cur bd)"
  by (simp_all add: remove_from_piece_list_def Let_def)

lemma take_queen_generic_frame [simp]:
  "current (take_queen_generic sq bd) = current bd"
  "j \<noteq> current bd \<Longrightarrow> stack (take_queen_generic sq bd) j = stack bd j"
  "prev (take_queen_generic sq bd) = prev bd"
  "halfmove_clock (cur (take_queen_generic sq bd)) = halfmove_clock (cur bd)"
  "node_counter (cur (take_queen_generic sq bd)) = node_counter (cur bd)"
  "en_passant_lazy (cur (take_queen_generic sq bd)) = en_passant_lazy (cur bd)"
  "en_passant_node_counter (cur (take_queen_generic sq bd)) = en_passant_node_counter (cur bd)"
  by (simp_all add: take_queen_generic_def)

lemma take_rook_generic_frame [simp]:
  "current (take_rook_generic sq bd) = current bd"
  "j \<noteq> current bd \<Longrightarrow> stack (take_rook_generic sq bd) j = stack bd j"
  "prev (take_rook_generic sq bd) = prev bd"
  "halfmove_clock (cur (take_rook_generic sq bd)) = halfmove_clock (cur bd)"
  "node_counter (cur (take_rook_generic sq bd)) = node_counter (cur bd)"
  "en_passant_lazy (cur (take_rook_generic sq bd)) = en_passant_lazy (cur bd)"
  "en_passant_node_counter (cur (take_rook_generic sq bd)) = en_passant_node_counter (cur bd)"
  by (simp_all add: take_rook_generic_def)

lemma take_bishop_generic_frame [simp]:
  "current (take_bishop_generic sq bd) = current bd"
  "j \<noteq> current bd \<Longrightarrow> stack (take_bishop_generic sq bd) j = stack bd j"
  "prev (take_bishop_generic sq bd) = prev bd"
  "halfmove_clock (cur (take_bishop_generic sq bd)) = halfmove_clock (cur bd)"
  "node_counter (cur (take_bishop_generic sq bd)) = node_counter (cur bd)"
  "en_passant_lazy (cur (take_bishop_generic sq bd)) = en_passant_lazy (cur bd)"
  "en_passant_node_counter (cur (take_bishop_generic sq bd)) = en_passant_node_counter (cur bd)"
  by (simp_all add: take_bishop_generic_def)

lemma take_knight_generic_frame [simp]:
  "current (take_knight_generic sq bd) = current bd"
  "j \<noteq> current bd \<Longrightarrow> stack (take_knight_generic sq bd) j = stack bd j"
  "prev (take_knight_generic sq bd) = prev bd"
  "halfmove_clock (cur (take_knight_generic sq bd)) = halfmove_clock (cur bd)"
  "node_counter (cur (take_knight_generic sq bd)) = node_counter (cur bd)"
  "en_passant_lazy (cur (take_knight_generic sq bd)) = en_passant_lazy (cur bd)"
  "en_passant_node_counter (cur (take_knight_generic sq bd)) = en_passant_node_counter (cur bd)"
  by (simp_all add: take_knight_generic_def Let_def)

lemma take_white_queen_frame [simp]:
  "current (take_white_queen sq bd) = current bd"
  "j \<noteq> current bd \<Longrightarrow> stack (take_white_queen sq bd) j = stack bd j"
  "prev (take_white_queen sq bd) = prev bd"
  "halfmove_clock (cur (take_white_queen sq bd)) = halfmove_clock (cur bd)"
  "node_counter (cur (take_white_queen sq bd)) = node_counter (cur bd)"
  "en_passant_lazy (cur (take_white_queen sq bd)) = en_passant_lazy (cur bd)"
  "en_passant_node_counter (cur (take_white_queen sq bd)) = en_passant_node_counter (cur bd)"
  by (simp_all add: take_white_queen_def)

lemma take_black_queen_frame [simp]:
  "current (take_black_queen sq bd) = current bd"
  "j \<noteq> current bd \<Longrightarrow> stack (take_black_queen sq bd) j = stack bd j"
  "prev (take_black_queen sq bd) = prev bd"
  "halfmove_clock (cur (take_black_queen sq bd)) = halfmove_clock (cur bd)"
  "node_counter (cur (take_black_queen sq bd)) = node_counter (cur bd)"
  "en_passant_lazy (cur (take_black_queen sq bd)) = en_passant_lazy (cur bd)"
  "en_passant_node_counter (cur (take_black_queen sq bd)) = en_passant_node_counter (cur bd)"
  by (simp_all add: take_black_queen_def)

lemma take_white_rook_frame [simp]:
  "current (take_white_rook sq bd) = current bd"
  "j \<noteq> current bd \<Longrightarrow> stack (take_white_rook sq bd) j = stack bd j"
  "prev (take_white_rook sq bd) = prev bd"
  "halfmove_clock (cur (take_white_rook sq bd)) = halfmove_clock (cur bd)"
  "node_counter (cur (take_white_rook sq bd)) = node_counter (cur bd)"
  "en_passant_lazy (cur (take_white_rook sq bd)) = en_passant_lazy (cur bd)"
  "en_passant_node_counter (cur (take_white_rook sq bd)) = en_passant_node_counter (cur bd)"
  by (simp_all add: take_white_rook_def)

lemma take_black_rook_frame [simp]:
  "current (take_black_rook sq bd) = current bd"
  "j \<noteq> current bd \<Longrightarrow> stack (take_black_rook sq bd) j = stack bd j"
  "prev (take_black_rook sq bd) = prev bd"
  "halfmove_clock (cur (take_black_rook sq bd)) = halfmove_clock (cur bd)"
  "node_counter (cur (take_black_rook sq bd)) = node_counter (cur bd)"
  "en_passant_lazy (cur (take_black_rook sq bd)) = en_passant_lazy (cur bd)"
  "en_passant_node_counter (cur (take_black_rook sq bd)) = en_passant_node_counter (cur bd)"
  by (simp_all add: take_black_rook_def)

lemma take_white_rook_castle_frame [simp]:
  "current (take_white_rook_castle sq bd) = current bd"
  "j \<noteq> current bd \<Longrightarrow> stack (take_white_rook_castle sq bd) j = stack bd j"
  "prev (take_white_rook_castle sq bd) = prev bd"
  "halfmove_clock (cur (take_white_rook_castle sq bd)) = halfmove_clock (cur bd)"
  "node_counter (cur (take_white_rook_castle sq bd)) = node_counter (cur bd)"
  "en_passant_lazy (cur (take_white_rook_castle sq bd)) = en_passant_lazy (cur bd)"
  "en_passant_node_counter (cur (take_white_rook_castle sq bd)) = en_passant_node_counter (cur bd)"
  by (simp_all add: take_white_rook_castle_def)

lemma take_black_rook_castle_frame [simp]:
  "current (take_black_rook_castle sq bd) = current bd"
  "j \<noteq> current bd \<Longrightarrow> stack (take_black_rook_castle sq bd) j = stack bd j"
  "prev (take_black_rook_castle sq bd) = prev bd"
  "halfmove_clock (cur (take_black_rook_castle sq bd)) = halfmove_clock (cur bd)"
  "node_counter (cur (take_black_rook_castle sq bd)) = node_counter (cur bd)"
  "en_passant_lazy (cur (take_black_rook_castle sq bd)) = en_passant_lazy (cur bd)"
  "en_passant_node_counter (cur (take_black_rook_castle sq bd)) = en_passant_node_counter (cur bd)"
  by (simp_all add: take_black_rook_castle_def)

lemma take_white_bishop_light_frame [simp]:
  "current (take_white_bishop_light sq bd) = current bd"
  "j \<noteq> current bd \<Longrightarrow> stack (take_white_bishop_light sq bd) j = stack bd j"
  "prev (take_white_bishop_light sq bd) = prev bd"
  "halfmove_clock (cur (take_white_bishop_light sq bd)) = halfmove_clock (cur bd)"
  "node_counter (cur (take_white_bishop_light sq bd)) = node_counter (cur bd)"
  "en_passant_lazy (cur (take_white_bishop_light sq bd)) = en_passant_lazy (cur bd)"
  "en_passant_node_counter (cur (take_white_bishop_light sq bd)) = en_passant_node_counter (cur bd)"
  by (simp_all add: take_white_bishop_light_def)

lemma take_white_bishop_dark_frame [simp]:
  "current (take_white_bishop_dark sq bd) = current bd"
  "j \<noteq> current bd \<Longrightarrow> stack (take_white_bishop_dark sq bd) j = stack bd j"
  "prev (take_white_bishop_dark sq bd) = prev bd"
  "halfmove_clock (cur (take_white_bishop_dark sq bd)) = halfmove_clock (cur bd)"
  "node_counter (cur (take_white_bishop_dark sq bd)) = node_counter (cur bd)"
  "en_passant_lazy (cur (take_white_bishop_dark sq bd)) = en_passant_lazy (cur bd)"
  "en_passant_node_counter (cur (take_white_bishop_dark sq bd)) = en_passant_node_counter (cur bd)"
  by (simp_all add: take_white_bishop_dark_def)

lemma take_black_bishop_light_frame [simp]:
  "current (take_black_bishop_light sq bd) = current bd"
  "j \<noteq> current bd \<Longrightarrow> stack (take_black_bishop_light sq bd) j = stack bd j"
  "prev (take_black_bishop_light sq bd) = prev bd"
  "halfmove_clock (cur (take_black_bishop_light sq bd)) = halfmove_clock (cur bd)"
  "node_counter (cur (take_black_bishop_light sq bd)) = node_counter (cur bd)"
  "en_passant_lazy (cur (take_black_bishop_light sq bd)) = en_passant_lazy (cur bd)"
  "en_passant_node_counter (cur (take_black_bishop_light sq bd)) = en_passant_node_counter (cur bd)"
  by (simp_all add: take_black_bishop_light_def)

lemma take_black_bishop_dark_frame [simp]:
  "current (take_black_bishop_dark sq bd) = current bd"
  "j \<noteq> current bd \<Longrightarrow> stack (take_black_bishop_dark sq bd) j = stack bd j"
  "prev (take_black_bishop_dark sq bd) = prev bd"
  "halfmove_clock (cur (take_black_bishop_dark sq bd)) = halfmove_clock (cur bd)"
  "node_counter (cur (take_black_bishop_dark sq bd)) = node_counter (cur bd)"
  "en_passant_lazy (cur (take_black_bishop_dark sq bd)) = en_passant_lazy (cur bd)"
  "en_passant_node_counter (cur (take_black_bishop_dark sq bd)) = en_passant_node_counter (cur bd)"
  by (simp_all add: take_black_bishop_dark_def)

lemma take_white_knight_frame [simp]:
  "current (take_white_knight sq bd) = current bd"
  "j \<noteq> current bd \<Longrightarrow> stack (take_white_knight sq bd) j = stack bd j"
  "prev (take_white_knight sq bd) = prev bd"
  "halfmove_clock (cur (take_white_knight sq bd)) = halfmove_clock (cur bd)"
  "node_counter (cur (take_white_knight sq bd)) = node_counter (cur bd)"
  "en_passant_lazy (cur (take_white_knight sq bd)) = en_passant_lazy (cur bd)"
  "en_passant_node_counter (cur (take_white_knight sq bd)) = en_passant_node_counter (cur bd)"
  by (simp_all add: take_white_knight_def)

lemma take_black_knight_frame [simp]:
  "current (take_black_knight sq bd) = current bd"
  "j \<noteq> current bd \<Longrightarrow> stack (take_black_knight sq bd) j = stack bd j"
  "prev (take_black_knight sq bd) = prev bd"
  "halfmove_clock (cur (take_black_knight sq bd)) = halfmove_clock (cur bd)"
  "node_counter (cur (take_black_knight sq bd)) = node_counter (cur bd)"
  "en_passant_lazy (cur (take_black_knight sq bd)) = en_passant_lazy (cur bd)"
  "en_passant_node_counter (cur (take_black_knight sq bd)) = en_passant_node_counter (cur bd)"
  by (simp_all add: take_black_knight_def)

lemma take_white_pawn_frame [simp]:
  "current (take_white_pawn sq bd) = current bd"
  "j \<noteq> current bd \<Longrightarrow> stack (take_white_pawn sq bd) j = stack bd j"
  "prev (take_white_pawn sq bd) = prev bd"
  "halfmove_clock (cur (take_white_pawn sq bd)) = halfmove_clock (cur bd)"
  "node_counter (cur (take_white_pawn sq bd)) = node_counter (cur bd)"
  "en_passant_lazy (cur (take_white_pawn sq bd)) = en_passant_lazy (cur bd)"
  "en_passant_node_counter (cur (take_white_pawn sq bd)) = en_passant_node_counter (cur bd)"
  by (simp_all add: take_white_pawn_def)

lemma take_white_pawn_rank7_frame [simp]:
  "current (take_white_pawn_rank7 sq bd) = current bd"
  "j \<noteq> current bd \<Longrightarrow> stack (take_white_pawn_rank7 sq bd) j = stack bd j"
  "prev (take_white_pawn_rank7 sq bd) = prev bd"
  "halfmove_clock (cur (take_white_pawn_rank7 sq bd)) = halfmove_clock (cur bd)"
  "node_counter (cur (take_white_pawn_rank7 sq bd)) = node_counter (cur bd)"
  "en_passant_lazy (cur (take_white_pawn_rank7 sq bd)) = en_passant_lazy (cur bd)"
  "en_passant_node_counter (cur (take_white_pawn_rank7 sq bd)) = en_passant_node_counter (cur bd)"
  by (simp_all add: take_white_pawn_rank7_def)

lemma take_black_pawn_frame [simp]:
  "current (take_black_pawn sq bd) = current bd"
  "j \<noteq> current bd \<Longrightarrow> stack (take_black_pawn sq bd) j = stack bd j"
  "prev (take_black_pawn sq bd) = prev bd"
  "halfmove_clock (cur (take_black_pawn sq bd)) = halfmove_clock (cur bd)"
  "node_counter (cur (take_black_pawn sq bd)) = node_counter (cur bd)"
  "en_passant_lazy (cur (take_black_pawn sq bd)) = en_passant_lazy (cur bd)"
  "en_passant_node_counter (cur (take_black_pawn sq bd)) = en_passant_node_counter (cur bd)"
  by (simp_all add: take_black_pawn_def)

lemma take_black_pawn_rank2_frame [simp]:
  "current (take_black_pawn_rank2 sq bd) = current bd"
  "j \<noteq> current bd \<Longrightarrow> stack (take_black_pawn_rank2 sq bd) j = stack bd j"
  "prev (take_black_pawn_rank2 sq bd) = prev bd"
  "halfmove_clock (cur (take_black_pawn_rank2 sq bd)) = halfmove_clock (cur bd)"
  "node_counter (cur (take_black_pawn_rank2 sq bd)) = node_counter (cur bd)"
  "en_passant_lazy (cur (take_black_pawn_rank2 sq bd)) = en_passant_lazy (cur bd)"
  "en_passant_node_counter (cur (take_black_pawn_rank2 sq bd)) = en_passant_node_counter (cur bd)"
  by (simp_all add: take_black_pawn_rank2_def)

lemma take_piece_frame [simp]:
  "current (take_piece to bd) = current bd"
  "j \<noteq> current bd \<Longrightarrow> stack (take_piece to bd) j = stack bd j"
  "prev (take_piece to bd) = prev bd"
  "halfmove_clock (cur (take_piece to bd)) = halfmove_clock (cur bd)"
  "node_counter (cur (take_piece to bd)) = node_counter (cur bd)"
  "en_passant_lazy (cur (take_piece to bd)) = en_passant_lazy (cur bd)"
  "en_passant_node_counter (cur (take_piece to bd)) = en_passant_node_counter (cur bd)"
  by (simp_all add: take_piece_def capture_take_piece_fn_table_def)

lemma remove_victim_frame [simp]:
  "current (remove_victim victim bd) = current bd"
  "j \<noteq> current bd \<Longrightarrow> stack (remove_victim victim bd) j = stack bd j"
  "prev (remove_victim victim bd) = prev bd"
  "halfmove_clock (cur (remove_victim victim bd)) = halfmove_clock (cur bd)"
  "node_counter (cur (remove_victim victim bd)) = node_counter (cur bd)"
  "en_passant_lazy (cur (remove_victim victim bd)) = en_passant_lazy (cur bd)"
  "en_passant_node_counter (cur (remove_victim victim bd)) = en_passant_node_counter (cur bd)"
  by (simp_all add: remove_victim_def Let_def)

lemma repair_undo_to_frame [simp]:
  "current (repair_undo_to to bd) = current bd"
  "j \<noteq> current bd \<Longrightarrow> stack (repair_undo_to to bd) j = stack bd j"
  "prev (repair_undo_to to bd) = prev bd"
  "halfmove_clock (cur (repair_undo_to to bd)) = halfmove_clock (cur bd)"
  "node_counter (cur (repair_undo_to to bd)) = node_counter (cur bd)"
  "en_passant_lazy (cur (repair_undo_to to bd)) = en_passant_lazy (cur bd)"
  "en_passant_node_counter (cur (repair_undo_to to bd)) = en_passant_node_counter (cur bd)"
  by (simp_all add: repair_undo_to_def)

lemma mark_promotion_piece_frame [simp]:
  "current (mark_promotion_piece to bd) = current bd"
  "j \<noteq> current bd \<Longrightarrow> stack (mark_promotion_piece to bd) j = stack bd j"
  "prev (mark_promotion_piece to bd) = prev bd"
  "halfmove_clock (cur (mark_promotion_piece to bd)) = halfmove_clock (cur bd)"
  "node_counter (cur (mark_promotion_piece to bd)) = node_counter (cur bd)"
  "en_passant_lazy (cur (mark_promotion_piece to bd)) = en_passant_lazy (cur bd)"
  "en_passant_node_counter (cur (mark_promotion_piece to bd)) = en_passant_node_counter (cur bd)"
  by (simp_all add: mark_promotion_piece_def)

lemma bring_knight_up_front_frame [simp]:
  "current (bring_knight_up_front own from to bd) = current bd"
  "j \<noteq> current bd \<Longrightarrow> stack (bring_knight_up_front own from to bd) j = stack bd j"
  "prev (bring_knight_up_front own from to bd) = prev bd"
  "halfmove_clock (cur (bring_knight_up_front own from to bd)) = halfmove_clock (cur bd)"
  "node_counter (cur (bring_knight_up_front own from to bd)) = node_counter (cur bd)"
  "en_passant_lazy (cur (bring_knight_up_front own from to bd)) = en_passant_lazy (cur bd)"
  "en_passant_node_counter (cur (bring_knight_up_front own from to bd)) = en_passant_node_counter (cur bd)"
  by (simp_all add: bring_knight_up_front_def Let_def)

lemmas maker_defs =
  capture_with_king_def capture_with_white_king_castle_def capture_with_black_king_castle_def capture_with_queen_def capture_with_rook_def capture_with_white_rook_castle_def capture_with_black_rook_castle_def capture_with_bishop_def capture_with_knight_def capture_with_white_pawn_def capture_with_black_pawn_def castle_white_king_side_def castle_white_queen_side_def castle_black_king_side_def castle_black_queen_side_def enpassant_with_white_pawn_def enpassant_with_black_pawn_def move_white_king_def move_black_king_def move_white_king_castle_def move_black_king_castle_def move_white_queen_def move_black_queen_def move_white_rook_def move_black_rook_def move_white_rook_castle_def move_black_rook_castle_def move_white_bishop_def move_black_bishop_def move_white_knight_def move_black_knight_def move_white_pawn_rank2_to_3_def move_white_pawn_rank2_to_4_def move_white_pawn_def move_black_pawn_rank7_to_6_def move_black_pawn_rank7_to_5_def move_black_pawn_def promote_white_queen_def promote_white_rook_def promote_white_bishop_def promote_white_knight_def promote_black_queen_def promote_black_rook_def promote_black_bishop_def promote_black_knight_def
  move_king_generic_def move_queen_generic_def move_rook_generic_def move_bishop_generic_def move_knight_generic_def castle_body_def

lemma maker_frame:
  "current (maker_fn k from to bd) = current bd"
  "j \<noteq> current bd \<Longrightarrow> stack (maker_fn k from to bd) j = stack bd j"
  "prev (maker_fn k from to bd) = prev bd"
  "node_counter (cur (maker_fn k from to bd)) = node_counter (cur bd)"
  by (cases k; simp add: maker_defs Let_def)+

lemma maker_clock:
  "halfmove_clock (cur (maker_fn k from to bd)) =
     (if keeps_clock_reset k then halfmove_clock (cur bd) else halfmove_clock (prev bd) + 1)"
  by (cases k; simp add: maker_defs Let_def)

section \<open>What \<open>board_make_move\<close> does to the stack\<close>

lemma board_make_move_current:
  "make_fn mv = maker_fn k \<Longrightarrow> current (board_make_move bd mv) = current bd + 1"
  by (simp add: board_make_move_def Let_def maker_frame)

lemma board_make_move_below:
  "make_fn mv = maker_fn k \<Longrightarrow> j \<le> current bd \<Longrightarrow>
   stack (board_make_move bd mv) j = stack bd j"
  by (simp add: board_make_move_def Let_def maker_frame upd_cur_def)

lemma board_make_move_above:
  "make_fn mv = maker_fn k \<Longrightarrow> current bd + 1 < j \<Longrightarrow>
   stack (board_make_move bd mv) j = stack bd j"
  by (simp add: board_make_move_def Let_def maker_frame upd_cur_def)

lemma board_make_move_prev:
  "make_fn mv = maker_fn k \<Longrightarrow> prev (board_make_move bd mv) = cur bd"
  by (simp add: prev_def cur_def board_make_move_current board_make_move_below)

lemma board_make_move_clock:
  "make_fn mv = maker_fn k \<Longrightarrow>
   halfmove_clock (cur (board_make_move bd mv)) =
     (if keeps_clock_reset k then 0 else halfmove_clock (cur bd) + 1)"
  by (simp add: board_make_move_def Let_def maker_clock maker_frame)
    (simp add: cur_def prev_def upd_cur_def)

lemma pushes_seq_Nil: "pushes_at_most 0 (seq [])"
  by (simp add: pushes_at_most_def)

lemma pushes_seq_Cons:
  assumes "pushes_at_most a stmt" and "pushes_at_most b (seq stmts)"
  shows "pushes_at_most (a + b) (seq (stmt # stmts))"
  unfolding pushes_at_most_def
proof (intro allI)
  fix bd
  have 1: "undo_len (cur bd) \<le> undo_len (cur (stmt bd))"
    and 2: "undo_len (cur (stmt bd)) \<le> undo_len (cur bd) + a"
    using assms(1) by (simp_all add: pushes_at_most_def)
  have 3: "undo_len (cur (stmt bd)) \<le> undo_len (cur (seq stmts (stmt bd)))"
    and 4: "undo_len (cur (seq stmts (stmt bd))) \<le> undo_len (cur (stmt bd)) + b"
    using assms(2) by (simp_all add: pushes_at_most_def)
  from 1 2 3 4
  show "undo_len (cur bd) \<le> undo_len (cur (seq (stmt # stmts) bd)) \<and>
        undo_len (cur (seq (stmt # stmts) bd)) \<le> undo_len (cur bd) + (a + b)"
    by simp
qed

lemma pushes_weaken:
  assumes "pushes_at_most a stmt" and "a \<le> b"
  shows "pushes_at_most b stmt"
  unfolding pushes_at_most_def
proof (intro allI)
  fix bd
  have "undo_len (cur bd) \<le> undo_len (cur (stmt bd))"
    and "undo_len (cur (stmt bd)) \<le> undo_len (cur bd) + a"
    using assms(1) by (simp_all add: pushes_at_most_def)
  with assms(2)
  show "undo_len (cur bd) \<le> undo_len (cur (stmt bd)) \<and>
        undo_len (cur (stmt bd)) \<le> undo_len (cur bd) + b"
    by simp
qed

lemma pushes_if:
  "pushes_at_most a s1 \<Longrightarrow> pushes_at_most b s2 \<Longrightarrow>
   pushes_at_most (max a b) (if c then s1 else s2)"
  by (cases c) (auto intro: pushes_weaken)

lemma pushes_if_state:
  assumes "pushes_at_most a s1" and "pushes_at_most b s2"
  shows "pushes_at_most (max a b) (\<lambda>bd. if c bd then s1 bd else s2 bd)"
proof -
  have "pushes_at_most (max a b) s1" "pushes_at_most (max a b) s2"
    using assms by (auto intro: pushes_weaken)
  then show ?thesis
    by (simp add: pushes_at_most_def)
qed

lemma pushes_let: "pushes_at_most a (\<lambda>bd. stmt (f bd) bd) \<Longrightarrow>
   pushes_at_most a (\<lambda>bd. let x = f bd in stmt x bd)"
  by (simp add: Let_def)

lemma pushes_id: "pushes_at_most 0 (\<lambda>bd. bd)"
  by (simp add: pushes_at_most_def)

lemma pushes_basic:
  "pushes_at_most 0 (toggle_rays who own sq)"
  "pushes_at_most 0 (xor_rays who sq dirs)"
  "pushes_at_most 0 (xor_king who sq)"
  "pushes_at_most 0 (add_knight who sq)"
  "pushes_at_most 0 (sub_knight who sq)"
  "pushes_at_most 0 (xor_white_pawn who sq)"
  "pushes_at_most 0 (xor_black_pawn who sq)"
  "pushes_at_most 0 (hash_from_prev v)"
  "pushes_at_most 0 (xor_board_hash v)"
  "pushes_at_most 0 (xor_pawn_king_hash v)"
  "pushes_at_most 0 (add_material_key v)"
  "pushes_at_most 0 (sub_material_key v)"
  "pushes_at_most 0 (xor_last_rank_pawns who sq)"
  "pushes_at_most 0 (xor_bishop_diagonals who w)"
  "pushes_at_most 0 (set_piece sq p)"
  "pushes_at_most 0 (set_index sq i)"
  "pushes_at_most 0 (copy_square to from)"
  "pushes_at_most 0 (set_list who i sq)"
  "pushes_at_most 0 (upd_side who g)"
  "pushes_at_most 0 halfmove_clock_from_prev"
  "pushes_at_most 0 (\<lambda>bd. set_list who (fi bd) sq bd)"
  "pushes_at_most 0 (\<lambda>bd. set_index sq (fi bd) bd)"
  "pushes_at_most 0 (\<lambda>bd. hash_from_prev (fv bd) bd)"
  "pushes_at_most 0 (upd_cur (\<lambda>f. f\<lparr>en_passant_lazy := e\<rparr>))"
  "pushes_at_most 0 (upd_cur (\<lambda>f. f\<lparr>en_passant_node_counter := node_counter f\<rparr>))"
  "pushes_at_most 0 (repair_undo_to to)"
  "pushes_at_most 0 (mark_promotion_piece to)"
  "pushes_at_most 1 (PUSH_UNDO x)"
  by (simp_all add: pushes_at_most_def repair_undo_to_def mark_promotion_piece_def)

lemma pushes_place_piece: "pushes_at_most 0 (place_piece from to)"
  unfolding place_piece_def
  by (rule pushes_weaken, (rule pushes_seq_Cons pushes_seq_Nil pushes_basic)+) simp

lemma pushes_clear_square: "pushes_at_most 0 (clear_square from)"
  unfolding clear_square_def
  by (rule pushes_weaken, (rule pushes_seq_Cons pushes_seq_Nil pushes_basic)+) simp

lemma pushes_close_piece_list: "pushes_at_most 0 (close_piece_list last_piece other idx)"
  unfolding close_piece_list_def
  by (rule pushes_weaken, (rule pushes_seq_Cons pushes_seq_Nil pushes_basic)+) simp

lemma pushes_disable_castle_rook: "pushes_at_most 1 (disable_castle_rook rc r z sq)"
  by (simp add: pushes_at_most_def disable_castle_rook_def)

lemma pushes_demote_castle_king: "pushes_at_most 1 (demote_castle_king other rc ksq kg)"
  by (simp add: pushes_at_most_def demote_castle_king_def)

lemma close_piece_list_undo_len [simp]:
  "undo_len (cur (close_piece_list last_piece other idx bd)) = undo_len (cur bd)"
  by (simp add: close_piece_list_def)

lemma pushes_remove_from_piece_list: "pushes_at_most 1 (remove_from_piece_list sq)"
  by (simp add: pushes_at_most_def remove_from_piece_list_def Let_def)

lemma pushes_remove_victim: "pushes_at_most 1 (remove_victim victim)"
  by (simp add: pushes_at_most_def remove_victim_def Let_def)

lemma pushes_take_knight_generic: "pushes_at_most 2 (take_knight_generic sq)"
  by (simp add: pushes_at_most_def take_knight_generic_def Let_def)

lemma pushes_bring_knight_up_front: "pushes_at_most 1 (bring_knight_up_front own from to)"
  by (simp add: pushes_at_most_def bring_knight_up_front_def Let_def)

lemmas pushes_stmts = pushes_basic pushes_place_piece pushes_clear_square
  pushes_close_piece_list pushes_disable_castle_rook pushes_demote_castle_king
  pushes_remove_from_piece_list pushes_remove_victim pushes_take_knight_generic
  pushes_bring_knight_up_front

lemmas pushes_intros = pushes_seq_Cons pushes_seq_Nil pushes_if pushes_stmts

lemma pushes_take_generic:
  "pushes_at_most 1 (take_queen_generic sq)"
  "pushes_at_most 1 (take_rook_generic sq)"
  "pushes_at_most 1 (take_bishop_generic sq)"
  unfolding take_queen_generic_def take_rook_generic_def take_bishop_generic_def
  by (rule pushes_weaken, (rule pushes_intros)+, simp)+

lemma pushes_take:
  "pushes_at_most 2 (take_white_queen sq)"
  "pushes_at_most 2 (take_black_queen sq)"
  "pushes_at_most 2 (take_white_rook sq)"
  "pushes_at_most 2 (take_black_rook sq)"
  "pushes_at_most 2 (take_white_rook_castle sq)"
  "pushes_at_most 2 (take_black_rook_castle sq)"
  "pushes_at_most 2 (take_white_bishop_light sq)"
  "pushes_at_most 2 (take_white_bishop_dark sq)"
  "pushes_at_most 2 (take_black_bishop_light sq)"
  "pushes_at_most 2 (take_black_bishop_dark sq)"
  "pushes_at_most 2 (take_white_knight sq)"
  "pushes_at_most 2 (take_black_knight sq)"
  "pushes_at_most 2 (take_white_pawn sq)"
  "pushes_at_most 2 (take_white_pawn_rank7 sq)"
  "pushes_at_most 2 (take_black_pawn sq)"
  "pushes_at_most 2 (take_black_pawn_rank2 sq)"
  unfolding take_white_queen_def take_black_queen_def take_white_rook_def
    take_black_rook_def take_white_rook_castle_def take_black_rook_castle_def
    take_white_bishop_light_def take_white_bishop_dark_def take_black_bishop_light_def
    take_black_bishop_dark_def take_white_knight_def take_black_knight_def
    take_white_pawn_rank7_def take_black_pawn_rank2_def take_white_pawn_def
    take_black_pawn_def
  by (rule pushes_weaken, (rule pushes_intros pushes_take_generic)+, simp)+

lemma pushes_take_piece: "pushes_at_most 2 (take_piece to)"
proof -
  have "undo_len (cur bd) \<le> undo_len (cur (take_piece to bd)) \<and>
        undo_len (cur (take_piece to bd)) \<le> undo_len (cur bd) + 2" for bd
  proof (cases "capture_take_piece_fn_table (piece (squares bd to))")
    case None
    then show ?thesis by (simp add: take_piece_def)
  next
    case (Some take_fn)
    then have "pushes_at_most 2 (take_fn to)"
      by (auto simp: capture_take_piece_fn_table_def pushes_take split: if_splits)
    with Some show ?thesis by (simp add: take_piece_def pushes_at_most_def)
  qed
  then show ?thesis by (simp add: pushes_at_most_def)
qed

lemma pushes_generic:
  "pushes_at_most 0 (move_king_generic from to)"
  "pushes_at_most 0 (move_queen_generic from to)"
  "pushes_at_most 0 (move_rook_generic from to)"
  "pushes_at_most 0 (move_bishop_generic from to)"
  "pushes_at_most 0 (move_knight_generic from to)"
  unfolding move_king_generic_def move_queen_generic_def move_rook_generic_def
    move_bishop_generic_def move_knight_generic_def
  by (rule pushes_weaken, (rule pushes_intros)+, simp)+

lemma pushes_castle_body:
  "pushes_at_most 3 (castle_body kg r rc zk zr zrc king_from king_to rook_from rook_to other_rook)"
  unfolding castle_body_def
  by (rule pushes_weaken, (rule pushes_intros pushes_if_state pushes_id)+, simp)

lemma pushes_king_moves:
  "pushes_at_most 0 (move_white_king from to)"
  "pushes_at_most 0 (move_black_king from to)"
  "pushes_at_most 2 (capture_with_king from to)"
  unfolding move_white_king_def move_black_king_def capture_with_king_def
  by (rule pushes_weaken,
      (rule pushes_intros pushes_generic pushes_if_state pushes_take_piece)+, simp)+

lemma pushes_after_castle_king:
  "pushes_at_most 2 (seq [disable_castle_rook rc r z sq1, disable_castle_rook rc r z sq2,
                          move_white_king from to, xor_board_hash d])"
  "pushes_at_most 2 (seq [disable_castle_rook rc r z sq1, disable_castle_rook rc r z sq2,
                          move_black_king from to, xor_board_hash d])"
  "pushes_at_most 4 (seq [disable_castle_rook rc r z sq1, disable_castle_rook rc r z sq2,
                          capture_with_king from to, xor_board_hash d])"
  by (rule pushes_weaken, (rule pushes_intros pushes_king_moves)+, simp)+

lemma pushes_castle_king_makers:
  "pushes_at_most 2 (move_white_king_castle from to)"
  "pushes_at_most 2 (move_black_king_castle from to)"
  "pushes_at_most 4 (capture_with_white_king_castle from to)"
  "pushes_at_most 4 (capture_with_black_king_castle from to)"
proof -
  note a = pushes_after_castle_king[unfolded pushes_at_most_def, rule_format]
  show "pushes_at_most 2 (move_white_king_castle from to)"
    unfolding pushes_at_most_def move_white_king_castle_def Let_def
    using a(1)[where bd = "set_piece E1 board_white_king bd" for bd]
    by (simp del: seq_Cons)
  show "pushes_at_most 2 (move_black_king_castle from to)"
    unfolding pushes_at_most_def move_black_king_castle_def Let_def
    using a(2)[where bd = "set_piece E8 board_black_king bd" for bd]
    by (simp del: seq_Cons)
  show "pushes_at_most 4 (capture_with_white_king_castle from to)"
    unfolding pushes_at_most_def capture_with_white_king_castle_def Let_def
    using a(3)[where bd = "set_piece from board_white_king bd" for bd]
    by (simp del: seq_Cons)
  show "pushes_at_most 4 (capture_with_black_king_castle from to)"
    unfolding pushes_at_most_def capture_with_black_king_castle_def Let_def
    using a(3)[where bd = "set_piece from board_black_king bd" for bd]
    by (simp del: seq_Cons)
qed

lemma pushes_makers_1:
  "pushes_at_most 0 (move_white_pawn from to)"
  "pushes_at_most 0 (move_black_pawn from to)"
  "pushes_at_most 0 (move_white_rook from to)"
  "pushes_at_most 0 (move_black_rook from to)"
  "pushes_at_most 2 (capture_with_rook from to)"
  unfolding move_white_pawn_def move_black_pawn_def move_white_rook_def move_black_rook_def capture_with_rook_def Let_def
  by (rule pushes_weaken,
      (rule pushes_intros pushes_generic pushes_if_state pushes_take_piece)+, simp)+

lemma pushes_makers_2:
  "pushes_at_most 2 (capture_with_queen from to)"
  "pushes_at_most 3 (capture_with_white_rook_castle from to)"
  "pushes_at_most 3 (capture_with_black_rook_castle from to)"
  "pushes_at_most 2 (capture_with_bishop from to)"
  "pushes_at_most 2 (capture_with_knight from to)"
  "pushes_at_most 2 (capture_with_white_pawn from to)"
  "pushes_at_most 2 (capture_with_black_pawn from to)"
  "pushes_at_most 2 (enpassant_with_white_pawn from to)"
  "pushes_at_most 2 (enpassant_with_black_pawn from to)"
  "pushes_at_most 0 (move_white_queen from to)"
  "pushes_at_most 0 (move_black_queen from to)"
  "pushes_at_most 1 (move_white_rook_castle from to)"
  "pushes_at_most 1 (move_black_rook_castle from to)"
  "pushes_at_most 0 (move_white_bishop from to)"
  "pushes_at_most 0 (move_black_bishop from to)"
  "pushes_at_most 0 (move_white_knight from to)"
  "pushes_at_most 0 (move_black_knight from to)"
  "pushes_at_most 0 (move_white_pawn_rank2_to_3 from to)"
  "pushes_at_most 0 (move_white_pawn_rank2_to_4 from to)"
  "pushes_at_most 0 (move_black_pawn_rank7_to_6 from to)"
  "pushes_at_most 0 (move_black_pawn_rank7_to_5 from to)"
  "pushes_at_most 2 (promote_white_queen from to)"
  "pushes_at_most 2 (promote_white_rook from to)"
  "pushes_at_most 2 (promote_white_bishop from to)"
  "pushes_at_most 3 (promote_white_knight from to)"
  "pushes_at_most 2 (promote_black_queen from to)"
  "pushes_at_most 2 (promote_black_rook from to)"
  "pushes_at_most 2 (promote_black_bishop from to)"
  "pushes_at_most 3 (promote_black_knight from to)"
  unfolding capture_with_queen_def capture_with_white_rook_castle_def capture_with_black_rook_castle_def capture_with_bishop_def capture_with_knight_def capture_with_white_pawn_def capture_with_black_pawn_def enpassant_with_white_pawn_def enpassant_with_black_pawn_def move_white_queen_def move_black_queen_def move_white_rook_castle_def move_black_rook_castle_def move_white_bishop_def move_black_bishop_def move_white_knight_def move_black_knight_def move_white_pawn_rank2_to_3_def move_white_pawn_rank2_to_4_def move_black_pawn_rank7_to_6_def move_black_pawn_rank7_to_5_def promote_white_queen_def promote_white_rook_def promote_white_bishop_def promote_white_knight_def promote_black_queen_def promote_black_rook_def promote_black_bishop_def promote_black_knight_def Let_def
  by (rule pushes_weaken,
      (rule pushes_intros pushes_generic pushes_if_state pushes_take_piece pushes_makers_1)+,
      simp)+

lemma pushes_castle_makers:
  "pushes_at_most 3 (castle_white_king_side from to)"
  "pushes_at_most 3 (castle_white_queen_side from to)"
  "pushes_at_most 3 (castle_black_king_side from to)"
  "pushes_at_most 3 (castle_black_queen_side from to)"
  by (simp_all add: castle_white_king_side_def castle_white_queen_side_def
      castle_black_king_side_def castle_black_queen_side_def pushes_castle_body)

lemmas pushes_makers = pushes_king_moves pushes_castle_king_makers pushes_makers_1
  pushes_makers_2 pushes_castle_makers

lemma pushes_maker_fn: "pushes_at_most 4 (maker_fn k from to)"
  by (cases k) (auto intro: pushes_weaken pushes_makers)

lemma pushes_promotion: "is_promotion k \<Longrightarrow> pushes_at_most 3 (maker_fn k from to)"
  by (cases k) (auto intro: pushes_weaken pushes_makers)

lemma board_make_move_eq:
  "board_make_move bd mv =
     make_fn mv (MOVE_FROM (move mv)) (MOVE_TO (move mv)) (make_prologue bd mv)"
  by (simp add: board_make_move_def make_prologue_def Let_def)

lemma make_prologue_undo_len [simp]: "undo_len (cur (make_prologue bd mv)) = 2"
  by (simp add: make_prologue_def Let_def)

lemma board_make_move_undo_len:
  assumes "make_fn mv = maker_fn k"
    and "pushes_at_most n (maker_fn k (MOVE_FROM (move mv)) (MOVE_TO (move mv)))"
  shows "2 \<le> undo_len (cur (board_make_move bd mv)) \<and>
         undo_len (cur (board_make_move bd mv)) \<le> 2 + n"
  using assms(2)[unfolded pushes_at_most_def, rule_format, of "make_prologue bd mv"]
  by (simp add: board_make_move_eq assms(1))

lemma setup_position_frame [simp]:
  "current (setup_position sqs a p) = 2"
  "squares (setup_position sqs a p) = sqs"
  "stack (setup_position sqs a p) j = (if j = 2 then zero_frame\<lparr>active := a, passive' := p\<rparr>
                                      else zero_frame)"
  by (simp_all add: setup_position_def cleared_board_def)

lemma zero_frame_fields [simp]:
  "halfmove_clock zero_frame = 0"
  "node_counter zero_frame = 0"
  "en_passant_lazy zero_frame = 0"
  "en_passant_node_counter zero_frame = 0"
  "undo_len zero_frame = 0"
  by (simp_all add: zero_frame_def)

lemma example_position_clock: "halfmove_clock (cur example_position) = 0"
  by (simp add: example_position_def cur_def)

section \<open>The halfmove clock\<close>

text \<open>
  Claim C7: after every make of a generated move the clock of the new frame is 0 if the
  move is irreversible and the clock of the parent frame plus one otherwise. As stated
  this fails: castling is irreversible, and the four castling functions count on. What
  the code does: the clock is 0 after a capture, an en passant capture, a promotion or a
  pawn move, and the parent's clock plus one (in the unsigned char of the field) after
  every other move, castling and the moves that give up a castling right included; the
  parent frame itself is not touched.
\<close>

theorem halfmove_clock_after_make:
  assumes "make_fn mv = maker_fn k"
  shows "prev (board_make_move bd mv) = cur bd \<and>
         halfmove_clock (cur (board_make_move bd mv)) =
           (if keeps_clock_reset k then 0 else halfmove_clock (cur bd) + 1)"
  using assms by (simp add: board_make_move_prev board_make_move_clock)

theorem halfmove_clock_after_make_witness:
  "make_fn example_promotion = maker_fn Promote_white_knight \<and>
   prev (board_make_move example_position example_promotion) = cur example_position \<and>
   halfmove_clock (cur (board_make_move example_position example_promotion)) = 0"
  using halfmove_clock_after_make [of example_promotion Promote_white_knight example_position]
  by (simp add: example_promotion_def)

text \<open>The counterexample to C7 as stated: castling king side in the example position
  leaves the clock at 1, not 0.\<close>

theorem castling_does_not_reset_clock:
  "make_fn example_castling = maker_fn Castle_white_king_side \<and>
   halfmove_clock (cur example_position) = 0 \<and>
   halfmove_clock (cur (board_make_move example_position example_castling)) = 1 \<and>
   halfmove_clock (cur (board_make_move example_position example_castling)) \<noteq> 0"
  using board_make_move_clock [of example_castling Castle_white_king_side example_position]
  by (simp add: example_castling_def example_position_clock)

section \<open>The undo log of a promotion\<close>

text \<open>
  Claim C10: after each of the eight promotion functions, capturing or not, the undo log
  is shorter than BOARD_UNDO_LEN_MAX = 6, so that the slot \<open>undo[undo_len]\<close> that receives
  the promoted piece lies inside the array. The log holds the two entries of
  \<open>board_make_move\<close>, at most two of the capture and at most one of the knight swap.
\<close>

theorem promotion_undo_len:
  assumes "make_fn mv = maker_fn k" and "is_promotion k"
  shows "2 \<le> undo_len (cur (board_make_move bd mv)) \<and>
         undo_len (cur (board_make_move bd mv)) < BOARD_UNDO_LEN_MAX"
  using board_make_move_undo_len [OF assms(1) pushes_promotion [OF assms(2)], of bd]
  by (simp add: BOARD_UNDO_LEN_MAX_def)

theorem promotion_undo_len_witness:
  "make_fn example_promotion = maker_fn Promote_white_knight \<and>
   is_promotion Promote_white_knight \<and>
   2 \<le> undo_len (cur (board_make_move example_position example_promotion)) \<and>
   undo_len (cur (board_make_move example_position example_promotion)) < BOARD_UNDO_LEN_MAX"
  using promotion_undo_len [of example_promotion Promote_white_knight example_position]
  by (simp add: example_promotion_def)

text \<open>For every make function the log stays within the array.\<close>

lemma make_undo_len_bounds:
  assumes "make_fn mv = maker_fn k"
  shows "2 \<le> undo_len (cur (board_make_move bd mv)) \<and>
         undo_len (cur (board_make_move bd mv)) \<le> BOARD_UNDO_LEN_MAX"
  using board_make_move_undo_len [OF assms pushes_maker_fn, of bd]
  by (simp add: BOARD_UNDO_LEN_MAX_def)

text \<open>
  Claim C4: a promotion is the move word \<open>(from << 6) | to\<close> with \<open>to\<close> XOR-ed by a
  constant, queen 4, rook 20, bishop 28, knight 60, and the encoded square is one that no
  other move from the same square reaches. The constants of the code are the squares e1,
  e3, e4 and e8 in its file-major numbering: 32, 34, 35 and 39. With them, for every
  square and every square a pawn promotes to from there, the move word keeps its from
  field, its to field is \<open>to XOR x\<close>, the promote functions recover \<open>to\<close> by the same
  XOR, and the entry of \<open>data_sq2sq\<close> for the encoded square carries the flag of that one
  promotion and no bit of a ray, a king step, a knight jump, a pawn capture or another
  promotion.
\<close>

theorem promotion_encoding:
  "XOR_PROM_QUEEN = 32 \<and> XOR_PROM_ROOK = 34 \<and> XOR_PROM_BISHOP = 35 \<and>
   XOR_PROM_KNIGHT = 39 \<and>
   (\<forall>from\<in>set [0..BOARD_SIZE - 1]. \<forall>to\<in>set (promotion_targets from).
      \<forall>x\<in>set promotion_constants.
        MOVE_FROM (MOVE from to XOR x) = from \<and>
        MOVE_TO (MOVE from to XOR x) = to XOR x \<and>
        (to XOR x) XOR x = to \<and>
        data_sq2sq from (to XOR x) = promotion_flag x)"
  by code_simp

theorem promotion_encoding_witness:
  "B7 \<in> set [0..BOARD_SIZE - 1] \<and> B8 \<in> set (promotion_targets B7) \<and>
   XOR_PROM_KNIGHT \<in> set promotion_constants \<and>
   MOVE_TO (MOVE B7 B8 XOR XOR_PROM_KNIGHT) = 40 \<and>
   data_sq2sq B7 40 = data_promotion_knight"
  using promotion_encoding by code_simp

text \<open>The counterexample to C4 as stated: none of the constants is the value the claim
  gives, and with 4 for the queen the promotion b7-b8 would be encoded as b7-b4, a square
  on the file of the pawn.\<close>

theorem promotion_constants_differ:
  "XOR_PROM_QUEEN \<noteq> 4 \<and> XOR_PROM_ROOK \<noteq> 20 \<and> XOR_PROM_BISHOP \<noteq> 28 \<and>
   XOR_PROM_KNIGHT \<noteq> 60 \<and>
   data_sq2sq B7 (B8 XOR 4) AND board_attack_south \<noteq> 0"
  by code_simp

section \<open>The en passant flag across make and unmake\<close>

lemma maker_en_passant:
  "en_passant_lazy (cur (maker_fn k from to bd)) =
     (if k = Move_white_pawn_rank2_to_4 then from + BOARD_VECTOR_NORTH
      else if k = Move_black_pawn_rank7_to_5 then from + BOARD_VECTOR_SOUTH
      else en_passant_lazy (cur bd))"
  "en_passant_node_counter (cur (maker_fn k from to bd)) =
     (if k = Move_white_pawn_rank2_to_4 \<or> k = Move_black_pawn_rank7_to_5
      then node_counter (cur bd)
      else en_passant_node_counter (cur bd))"
  by (cases k; simp add: maker_defs Let_def)+

lemma make_prologue_frame [simp]:
  "current (make_prologue bd mv) = current bd + 1"
  "node_counter (cur (make_prologue bd mv)) = node_counter (stack bd (current bd + 1)) + 1"
  "en_passant_lazy (cur (make_prologue bd mv)) = en_passant_lazy (stack bd (current bd + 1))"
  "en_passant_node_counter (cur (make_prologue bd mv)) =
     en_passant_node_counter (stack bd (current bd + 1))"
  by (simp_all add: make_prologue_def Let_def cur_def upd_cur_def)

text \<open>The node counter of the new frame counts the makes into it; the flag of the new
  frame is whatever an earlier visit left there, unless the move is a double push.\<close>

lemma board_make_move_node_counter:
  "make_fn mv = maker_fn k \<Longrightarrow>
   node_counter (cur (board_make_move bd mv)) = node_counter (stack bd (current bd + 1)) + 1"
  by (simp add: board_make_move_eq maker_frame)

lemma board_make_move_en_passant:
  assumes "make_fn mv = maker_fn k"
  shows "en_passant_lazy (cur (board_make_move bd mv)) =
     (if k = Move_white_pawn_rank2_to_4 then MOVE_FROM (move mv) + BOARD_VECTOR_NORTH
      else if k = Move_black_pawn_rank7_to_5 then MOVE_FROM (move mv) + BOARD_VECTOR_SOUTH
      else en_passant_lazy (stack bd (current bd + 1)))"
    and "en_passant_node_counter (cur (board_make_move bd mv)) =
     (if k = Move_white_pawn_rank2_to_4 \<or> k = Move_black_pawn_rank7_to_5
      then node_counter (stack bd (current bd + 1)) + 1
      else en_passant_node_counter (stack bd (current bd + 1)))"
  by (simp_all add: board_make_move_eq assms maker_en_passant)

lemma board_undo_move_stack [simp]:
  "stack (board_undo_move bd) = stack bd"
  "current (board_undo_move bd) = current bd - 1"
proof -
  have r: "stack (restore_undo i b) = stack b" "current (restore_undo i b) = current b" for i b
    by (simp_all add: restore_undo_def)
  have f: "stack (fold restore_undo is b) = stack b \<and>
           current (fold restore_undo is b) = current b" for "is" b
    by (induction "is" arbitrary: b) (simp_all add: r)
  show "stack (board_undo_move bd) = stack bd" "current (board_undo_move bd) = current bd - 1"
    by (simp_all add: board_undo_move_def Let_def r f)
qed

lemma double_push_maker: "make_fn double_push = maker_fn Move_white_pawn_rank2_to_4"
  by (simp add: double_push_def)

lemma king_step_maker: "make_fn king_step = maker_fn Move_white_king"
  by (simp add: king_step_def)

lemma after_double_push:
  "current (board_make_move ep_position double_push) = 3"
  "en_passant_lazy (cur (board_make_move ep_position double_push)) = A3"
  "en_passant_node_counter (cur (board_make_move ep_position double_push)) = 1"
  "node_counter (cur (board_make_move ep_position double_push)) = 1"
  using board_make_move_current [OF double_push_maker, of ep_position]
    board_make_move_en_passant [OF double_push_maker, of ep_position]
    board_make_move_node_counter [OF double_push_maker, of ep_position]
  by (simp_all add: ep_position_def double_push_def MOVE_def MOVE_FROM_def A2_def A3_def A4_def
      BOARD_VECTOR_NORTH_def)

lemma stale_position_frame:
  "en_passant_lazy (cur stale_position) = A3"
  "en_passant_node_counter (cur stale_position) = 1"
  "node_counter (cur stale_position) = 2"
proof -
  let ?b = "board_undo_move (board_make_move ep_position double_push)"
  have c: "current ?b = 2"
    by (simp add: after_double_push)
  have s: "stack (board_make_move ep_position double_push) 3 =
           cur (board_make_move ep_position double_push)"
    by (simp add: cur_def after_double_push(1))
  show "en_passant_lazy (cur stale_position) = A3"
    "en_passant_node_counter (cur stale_position) = 1"
    "node_counter (cur stale_position) = 2"
    unfolding stale_position_def
    using board_make_move_en_passant [OF king_step_maker, of ?b]
      board_make_move_node_counter [OF king_step_maker, of ?b]
    by (simp_all add: c s after_double_push)
qed

section \<open>An expired flag yields no en passant move\<close>

text \<open>
  Claim C9: when \<open>en_passant_lazy\<close> is set but the frame's \<open>en_passant_node_counter\<close>
  differs from its \<open>node_counter\<close>, en passant generation emits no move. The entry points
  reach \<open>GENERATE_EP\<close> only through \<open>generate_en_passant\<close>, and call it only when the
  flag is set; on an expired flag that call returns, with an empty list.
\<close>

theorem expired_flag_emits_no_en_passant:
  assumes "en_passant_lazy (cur bd) \<noteq> 0"
    and "en_passant_node_counter (cur bd) \<noteq> node_counter (cur bd)"
  shows "\<exists>bd'. generate_en_passant_if_set bd = Some ([], bd')"
  using assms by (simp add: generate_en_passant_if_set_def generate_en_passant_def)

theorem expired_flag_emits_no_en_passant_witness:
  "en_passant_lazy (cur stale_position) \<noteq> 0 \<and>
   en_passant_node_counter (cur stale_position) \<noteq> node_counter (cur stale_position) \<and>
   (\<exists>bd'. generate_en_passant_if_set stale_position = Some ([], bd'))"
  using expired_flag_emits_no_en_passant [of stale_position]
  by (simp add: stale_position_frame A3_def)

section \<open>What the generator writes to the frame\<close>




end
